(* ===== verification/Prelude.thy ===== *)
theory Prelude
  imports Main "HOL-Library.Word"
begin

text \<open>
  Shared vocabulary of the development: the byte and string types, the sequencing of results that
  may be errors, and the string operations the worker and the platform use (prefix tests, substring
  search, ASCII lower-casing, decimal rendering).

  Strings are lists of 8-bit characters.  That is exact for what the modelled code compares: URL
  path names are percent-encoded ASCII and header values are byte strings.
\<close>

section \<open>Types\<close>

type_synonym byte = "8 word"
type_synonym bytes = "byte list"

section \<open>Results\<close>

text \<open>Sequencing of computations that may fail: the first error ends the sequence.\<close>

definition and_then :: "'e + 'a \<Rightarrow> ('a \<Rightarrow> 'e + 'b) \<Rightarrow> 'e + 'b" where
  "and_then r f = (case r of Inl e \<Rightarrow> Inl e | Inr x \<Rightarrow> f x)"

lemma and_then_simps [simp]:
  "and_then (Inl e) f = Inl e"
  "and_then (Inr x) f = f x"
  by (simp_all add: and_then_def)

lemma and_then_Inr: "and_then r f = Inr y \<longleftrightarrow> (\<exists>x. r = Inr x \<and> f x = Inr y)"
  by (cases r) simp_all

section \<open>Prefixes and substrings\<close>

text \<open>Whether a string starts with a prefix.\<close>

fun starts_with :: "string \<Rightarrow> string \<Rightarrow> bool" where
  "starts_with [] s = True"
| "starts_with (p # ps) [] = False"
| "starts_with (p # ps) (c # s) = (p = c \<and> starts_with ps s)"

lemma starts_with_iff: "starts_with p s \<longleftrightarrow> (\<exists>t. s = p @ t)"
  by (induction p s rule: starts_with.induct) auto

lemma starts_with_append [simp]: "starts_with p (p @ t)"
  by (auto simp: starts_with_iff)

lemma starts_with_self [simp]: "starts_with p p"
  by (auto simp: starts_with_iff)

lemma starts_with_drop: "starts_with p s \<Longrightarrow> s = p @ drop (length p) s"
  by (auto simp: starts_with_iff)

lemma starts_with_take: "starts_with p s \<Longrightarrow> take (length p) s = p"
  by (auto simp: starts_with_iff)

text \<open>JavaScript's \<open>s.includes(sub)\<close>: some suffix of \<open>s\<close> starts with \<open>sub\<close>.\<close>

fun contains :: "string \<Rightarrow> string \<Rightarrow> bool" where
  "contains sub [] = (sub = [])"
| "contains sub (c # s) = (starts_with sub (c # s) \<or> contains sub s)"

lemma includes_iff: "contains sub s \<longleftrightarrow> (\<exists>a b. s = a @ sub @ b)"
proof (induction s)
  case Nil
  then show ?case by simp
next
  case (Cons c s)
  show ?case
  proof
    assume "contains sub (c # s)"
    then consider "starts_with sub (c # s)" | "contains sub s" by auto
    then show "\<exists>a b. c # s = a @ sub @ b"
    proof cases
      case 1
      then show ?thesis by (metis append_Nil starts_with_iff)
    next
      case 2
      then obtain a b where "s = a @ sub @ b" using Cons.IH by blast
      then have "c # s = (c # a) @ sub @ b" by simp
      then show ?thesis by blast
    qed
  next
    assume "\<exists>a b. c # s = a @ sub @ b"
    then obtain a b where ab: "c # s = a @ sub @ b" by blast
    then show "contains sub (c # s)"
    proof (cases a)
      case Nil
      with ab have "starts_with sub (c # s)" by (auto simp: starts_with_iff)
      then show ?thesis by simp
    next
      case (Cons d a')
      with ab have "s = a' @ sub @ b" by simp
      then have "contains sub s" using Cons.IH by blast
      then show ?thesis by simp
    qed
  qed
qed

section \<open>Lists of alternatives\<close>

lemma concat_map_all_Nil: "(\<And>x. x \<in> set xs \<Longrightarrow> f x = []) \<Longrightarrow> concat (map f xs) = []"
  by (induction xs) auto

text \<open>Of distinct bounded alternatives, only the one at the bound survives.\<close>

lemma concat_map_singleton_max:
  fixes ks :: "nat list"
  assumes "distinct ks" and "\<And>k. k \<in> set ks \<Longrightarrow> k \<le> n"
  shows "concat (map (\<lambda>k. if n \<le> k then [f k] else []) ks) = (if n \<in> set ks then [f n] else [])"
  using assms
proof (induction ks)
  case Nil
  then show ?case by simp
next
  case (Cons a ks)
  then have IH: "concat (map (\<lambda>k. if n \<le> k then [f k] else []) ks)
      = (if n \<in> set ks then [f n] else [])"
    by simp
  show ?case
  proof (cases "n \<le> a")
    case True
    with Cons.prems have "a = n" by (auto intro: le_antisym)
    with Cons.prems IH show ?thesis by simp
  next
    case False
    with IH show ?thesis by auto
  qed
qed

section \<open>Character classes and case\<close>

definition code_in :: "nat \<Rightarrow> nat \<Rightarrow> char \<Rightarrow> bool" where
  "code_in lo hi c \<longleftrightarrow> lo \<le> of_char c \<and> of_char c \<le> (hi :: nat)"

definition lower_char :: "char \<Rightarrow> char" where
  "lower_char c = (if code_in 65 90 c then char_of (of_char c + 32 :: nat) else c)"

text \<open>ASCII lower-casing, as the Fetch standard applies it to header names.\<close>

definition lower :: "string \<Rightarrow> string" where
  "lower s = map lower_char s"

lemma lower_char_idem [simp]: "lower_char (lower_char c) = lower_char c"
proof (cases "code_in 65 90 c")
  case True
  then have b: "65 \<le> (of_char c :: nat)" "(of_char c :: nat) \<le> 90"
    by (auto simp: code_in_def)
  then have "(of_char (char_of (of_char c + 32 :: nat)) :: nat) = of_char c + 32"
    by simp
  with b True show ?thesis by (simp add: lower_char_def code_in_def)
next
  case False
  then show ?thesis by (simp add: lower_char_def)
qed

lemma lower_idem [simp]: "lower (lower s) = lower s"
  by (simp add: lower_def)

lemma lower_append [simp]: "lower (s @ t) = lower s @ lower t"
  by (simp add: lower_def)

section \<open>Decimal rendering\<close>

definition digit_char :: "nat \<Rightarrow> char" where
  "digit_char d = char_of (48 + d)"

definition digit_value :: "char \<Rightarrow> nat" where
  "digit_value c = of_char c - 48"

lemma digit_value_digit_char [simp]: "d < 10 \<Longrightarrow> digit_value (digit_char d) = d"
  by (simp add: digit_value_def digit_char_def)

text \<open>The decimal digits of a natural number, most significant first.\<close>

fun show_nat :: "nat \<Rightarrow> string" where
  "show_nat n = (if n < 10 then [digit_char n] else show_nat (n div 10) @ [digit_char (n mod 10)])"

declare show_nat.simps [simp del]

definition read_nat :: "string \<Rightarrow> nat" where
  "read_nat s = foldl (\<lambda>acc c. 10 * acc + digit_value c) 0 s"

lemma read_nat_snoc: "read_nat (s @ [c]) = 10 * read_nat s + digit_value c"
  by (simp add: read_nat_def)

lemma read_nat_show_nat [simp]: "read_nat (show_nat n) = n"
proof (induction n rule: show_nat.induct)
  case (1 n)
  show ?case
  proof (cases "n < 10")
    case True
    then show ?thesis by (simp add: show_nat.simps [of n] read_nat_def)
  next
    case False
    with 1 have "read_nat (show_nat (n div 10)) = n div 10" by simp
    with False show ?thesis by (simp add: show_nat.simps [of n] read_nat_snoc)
  qed
qed

lemma show_nat_digits: "c \<in> set (show_nat n) \<Longrightarrow> code_in 48 57 c"
proof (induction n rule: show_nat.induct)
  case (1 n)
  have d: "code_in 48 57 (digit_char k)" if "k < 10" for k
    using that by (simp add: code_in_def digit_char_def)
  show ?case
  proof (cases "n < 10")
    case True
    with 1 d show ?thesis by (simp add: show_nat.simps [of n])
  next
    case False
    with 1 d [of "n mod 10"] show ?thesis by (auto simp: show_nat.simps [of n])
  qed
qed

lemma show_nat_nonempty [simp]: "show_nat n \<noteq> []"
  by (subst show_nat.simps) simp

end
