(* ===== verification/Regex.thy ===== *)
theory Regex
  imports Prelude
begin

text \<open>
  The regular expressions the program uses, with the backtracking matcher of the
  ECMAScript standard reduced to the constructs that occur: literals, one-character
  classes, greedy repetition of a class, alternation, capture groups and the two
  anchors.  A matcher call returns every way to match, in backtracking order, so the
  first element is the match the language's \<open>match\<close> returns.  The
  worker has two patterns, \<open>CACHE_PATH\<close> and \<open>MAVEN_PATH\<close>, and reads the captures of both.
\<close>

section \<open>Syntax\<close>

text \<open>
  A class is a list of inclusive code ranges; \<open>Dot\<close> is every character but the line
  terminators.
\<close>

datatype charset = Ranges "(nat \<times> nat) list" | Dot

datatype regex =
    Lit string
  | Rep charset nat "nat option"
  | Seq regex regex
  | Alt regex regex
  | Group nat regex
  | Bol
  | Eol

definition in_class :: "charset \<Rightarrow> char \<Rightarrow> bool" where
  "in_class cs c = (case cs of
     Ranges rs \<Rightarrow> list_ex (\<lambda>(lo, hi). code_in lo hi c) rs
   | Dot \<Rightarrow> c \<noteq> CHR 0x0A \<and> c \<noteq> CHR 0x0D)"

section \<open>Matching\<close>

text \<open>Where a match stands: characters consumed, characters left, captures so far.\<close>

type_synonym captures = "(nat \<times> string) list"
type_synonym match_state = "nat \<times> string \<times> captures"

definition rep_counts :: "charset \<Rightarrow> nat \<Rightarrow> nat option \<Rightarrow> string \<Rightarrow> nat list" where
  "rep_counts cs lo hi s =
     (let n = length (takeWhile (in_class cs) s);
          m = (case hi of None \<Rightarrow> n | Some h \<Rightarrow> min n h)
      in rev [lo..<Suc m])"

primrec match_all :: "regex \<Rightarrow> match_state \<Rightarrow> match_state list" where
  "match_all (Lit t) st = (case st of (p, s, c) \<Rightarrow>
     if starts_with t s then [(p + length t, drop (length t) s, c)] else [])"
| "match_all (Rep cs lo hi) st = (case st of (p, s, c) \<Rightarrow>
     map (\<lambda>k. (p + k, drop k s, c)) (rep_counts cs lo hi s))"
| "match_all (Seq a b) st = concat (map (match_all b) (match_all a st))"
| "match_all (Alt a b) st = match_all a st @ match_all b st"
| "match_all (Group i r) st = (case st of (p, s, c) \<Rightarrow>
     map (\<lambda>(p', s', c'). (p', s', (i, take (p' - p) s) # c')) (match_all r st))"
| "match_all Bol st = (case st of (p, s, c) \<Rightarrow> if p = 0 then [st] else [])"
| "match_all Eol st = (case st of (p, s, c) \<Rightarrow> if s = [] then [st] else [])"

text \<open>
  An unanchored search: every start position from the left, the first success wins.
\<close>

definition regex_exec :: "regex \<Rightarrow> string \<Rightarrow> captures option" where
  "regex_exec r s =
     (case concat (map (\<lambda>i. match_all r (i, drop i s, [])) [0..<Suc (length s)]) of
        [] \<Rightarrow> None
      | (p, t, c) # _ \<Rightarrow> Some c)"

text \<open>\<open>m[i]\<close> of a match array.\<close>

definition capture :: "captures \<Rightarrow> nat \<Rightarrow> string" where
  "capture c i = (case map_of c i of None \<Rightarrow> [] | Some t \<Rightarrow> t)"

section \<open>General facts\<close>

lemma match_all_Lit [simp]:
  "match_all (Lit t) (p, s, c) =
     (if starts_with t s then [(p + length t, drop (length t) s, c)] else [])"
  by simp

lemma match_all_Lit_seq:
  "match_all (Seq (Lit t) r) (p, s, c) =
     (if starts_with t s then match_all r (p + length t, drop (length t) s, c) else [])"
  by simp

lemma match_all_group_lits:
  "match_all (Group i (Alt (Lit a) (Lit b))) (p, s, c) =
     (if starts_with a s then [(p + length a, drop (length a) s, (i, a) # c)] else [])
     @ (if starts_with b s then [(p + length b, drop (length b) s, (i, b) # c)] else [])"
  by (simp add: starts_with_take)

lemma match_all_group_lits_seq:
  "match_all (Seq (Group i (Alt (Lit a) (Lit b))) r) (p, s, c) =
     (if starts_with a s then match_all r (p + length a, drop (length a) s, (i, a) # c) else [])
     @ (if starts_with b s then match_all r (p + length b, drop (length b) s, (i, b) # c) else [])"
  by (subst match_all.simps(3), subst match_all_group_lits) simp

lemma rep_counts_iff:
  "k \<in> set (rep_counts cs lo hi s) \<longleftrightarrow>
     lo \<le> k \<and> k \<le> length s \<and> (\<forall>c \<in> set (take k s). in_class cs c) \<and>
     (case hi of None \<Rightarrow> True | Some h \<Rightarrow> k \<le> h)"
proof -
  have tw: "k \<le> length (takeWhile P s) \<longleftrightarrow> k \<le> length s \<and> (\<forall>c \<in> set (take k s). P c)"
    for P :: "char \<Rightarrow> bool"
  proof (induction s arbitrary: k)
    case Nil
    then show ?case by simp
  next
    case (Cons x xs)
    then show ?case by (cases k) auto
  qed
  show ?thesis
    using tw [of "in_class cs"] by (cases hi) (auto simp: rep_counts_def Let_def)
qed

text \<open>A pattern that starts with the \<open>^\<close> anchor can only match at the start.\<close>

lemma match_all_Bol_seq:
  "match_all (Seq Bol r) (p, s, c) = (if p = 0 then match_all r (p, s, c) else [])"
  by simp

lemma regex_exec_anchored:
  "regex_exec (Seq Bol r) s =
     (case match_all r (0, s, []) of [] \<Rightarrow> None | (p, t, c) # _ \<Rightarrow> Some c)"
proof -
  have later: "concat (map (\<lambda>i. match_all (Seq Bol r) (i, drop i s, [])) [1..<Suc (length s)]) = []"
    by (rule concat_map_all_Nil) auto
  have "concat (map (\<lambda>i. match_all (Seq Bol r) (i, drop i s, [])) [0..<Suc (length s)])
      = match_all (Seq Bol r) (0, drop 0 s, [])
        @ concat (map (\<lambda>i. match_all (Seq Bol r) (i, drop i s, [])) [1..<Suc (length s)])"
    by (subst upt_conv_Cons) (simp_all del: match_all.simps)
  also have "\<dots> = match_all r (0, s, [])"
    by (simp only: later append_Nil2) simp
  finally show ?thesis by (simp add: regex_exec_def)
qed

text \<open>
  A class repeated up to the end of the input: the only count that reaches the end
  takes everything that is left.
\<close>

lemma rep_counts_distinct: "distinct (rep_counts cs lo hi s)"
  by (simp add: rep_counts_def Let_def)

lemma rep_counts_le: "k \<in> set (rep_counts cs lo hi s) \<Longrightarrow> k \<le> length s"
  by (simp add: rep_counts_iff)

lemma match_all_rep_end:
  "match_all (Seq (Rep cs lo hi) Eol) (p, s, c) =
     (if length s \<in> set (rep_counts cs lo hi s) then [(p + length s, [], c)] else [])"
proof -
  have "match_all (Seq (Rep cs lo hi) Eol) (p, s, c) =
      concat (map (\<lambda>k. if length s \<le> k then [(p + k, [], c)] else []) (rep_counts cs lo hi s))"
    by (simp add: o_def) (rule arg_cong [where f = concat], rule map_cong, auto)
  then show ?thesis
    by (simp add: concat_map_singleton_max [OF rep_counts_distinct rep_counts_le])
qed

lemma match_all_group_rep_end:
  "match_all (Seq (Group i (Rep cs lo hi)) Eol) (p, s, c) =
     (if length s \<in> set (rep_counts cs lo hi s) then [(p + length s, [], (i, s) # c)] else [])"
proof -
  have "match_all (Seq (Group i (Rep cs lo hi)) Eol) (p, s, c) =
      concat (map (\<lambda>k. if length s \<le> k then [(p + k, [], (i, take k s) # c)] else [])
        (rep_counts cs lo hi s))"
    by (simp add: o_def) (rule arg_cong [where f = concat], rule map_cong, auto)
  then show ?thesis
    by (simp add: concat_map_singleton_max [OF rep_counts_distinct rep_counts_le])
qed

end
