(* ===== verification/Web_Platform.thy ===== *)
theory Web_Platform
  imports Prelude
begin

text \<open>
  What the worker uses of the Workers platform, as the type declarations of
  \<open>tools/remote-cache/worker-configuration.d.ts\<close> name it: \<open>Headers\<close> (an ordered
  list with lower-cased names and normalised values, after the Fetch standard),
  \<open>Request\<close>, \<open>Response\<close>, and the R2 object types.  The R2 service itself is
  not code of the repository: its \<open>head\<close>, \<open>get\<close> and \<open>put\<close> are the fields of
  \<open>r2_bucket\<close>, an argument of every definition that calls them, and
  \<open>r2_laws\<close> states what Cloudflare documents about them.
\<close>

section \<open>Exceptions\<close>

text \<open>What an \<open>await\<close> or a constructor of the platform throws.\<close>

datatype js_error = TypeError string | RangeError string | R2Error string

section \<open>Headers\<close>

type_synonym headers = "(string \<times> string) list"

definition http_space :: "char \<Rightarrow> bool" where
  "http_space c \<longleftrightarrow> c = CHR 0x09 \<or> c = CHR 0x0A \<or> c = CHR 0x0D \<or> c = CHR 0x20"

text \<open>Normalising a header value strips leading and trailing HTTP whitespace.\<close>

definition normalize_value :: "string \<Rightarrow> string" where
  "normalize_value v = rev (dropWhile http_space (rev (dropWhile http_space v)))"

definition valid_value :: "string \<Rightarrow> bool" where
  "valid_value v \<longleftrightarrow> list_all (\<lambda>c. c \<noteq> CHR 0x00 \<and> c \<noteq> CHR 0x0A \<and> c \<noteq> CHR 0x0D) v"

text \<open>The token characters of a header name.\<close>

definition token_char :: "char \<Rightarrow> bool" where
  "token_char c \<longleftrightarrow> code_in 48 57 c \<or> code_in 65 90 c \<or> code_in 97 122 c
     \<or> c \<in> set ''!#$%&*+-.^_|~'' \<or> c = CHR 0x27 \<or> c = CHR 0x60"

definition valid_name :: "string \<Rightarrow> bool" where
  "valid_name n \<longleftrightarrow> n \<noteq> [] \<and> list_all token_char n"

text \<open>\<open>get\<close>: the values under the name, joined by a comma and a space, or \<open>null\<close>.\<close>

fun join_values :: "string list \<Rightarrow> string" where
  "join_values [] = []"
| "join_values [v] = v"
| "join_values (v # vs) = v @ '', '' @ join_values vs"

definition headers_get :: "headers \<Rightarrow> string \<Rightarrow> string option" where
  "headers_get h n =
     (let vs = map snd (filter (\<lambda>e. fst e = lower n) h)
      in if vs = [] then None else Some (join_values vs))"

text \<open>\<open>set\<close>: the first entry under the name takes the value, the others go.\<close>

fun replace_first :: "string \<Rightarrow> string \<Rightarrow> headers \<Rightarrow> headers" where
  "replace_first n v [] = [(n, v)]"
| "replace_first n v ((m, w) # h) =
     (if m = n then (n, v) # filter (\<lambda>e. fst e \<noteq> n) h else (m, w) # replace_first n v h)"

definition headers_set :: "headers \<Rightarrow> string \<Rightarrow> string \<Rightarrow> js_error + headers" where
  "headers_set h n v =
     (let v' = normalize_value v in
      if \<not> valid_name n \<or> \<not> valid_value v' then Inl (TypeError ''Invalid header'')
      else Inr (replace_first (lower n) v' h))"

definition headers_append :: "headers \<Rightarrow> string \<Rightarrow> string \<Rightarrow> js_error + headers" where
  "headers_append h n v =
     (let v' = normalize_value v in
      if \<not> valid_name n \<or> \<not> valid_value v' then Inl (TypeError ''Invalid header'')
      else Inr (h @ [(lower n, v')]))"

text \<open>\<open>new Headers(record)\<close> appends the record's entries in order.\<close>

fun headers_fill :: "headers \<Rightarrow> (string \<times> string) list \<Rightarrow> js_error + headers" where
  "headers_fill h [] = Inr h"
| "headers_fill h ((n, v) # es) =
     (case headers_append h n v of Inl e \<Rightarrow> Inl e | Inr h' \<Rightarrow> headers_fill h' es)"

definition new_headers :: "(string \<times> string) list \<Rightarrow> js_error + headers" where
  "new_headers es = headers_fill [] es"

text \<open>What every header list built by these operations satisfies.\<close>

definition headers_inv :: "headers \<Rightarrow> bool" where
  "headers_inv h \<longleftrightarrow>
     list_all (\<lambda>(n, v). lower n = n \<and> normalize_value v = v \<and> valid_value v) h"

lemma filter_replace_first:
  "filter (\<lambda>e. fst e = m) (replace_first n v h) =
     (if m = n then [(n, v)] else filter (\<lambda>e. fst e = m) h)"
  by (induction n v h rule: replace_first.induct)
    (auto simp: filter_empty_conv intro!: filter_cong)

lemma headers_get_set:
  "headers_set h n v = Inr h' \<Longrightarrow>
     headers_get h' m = (if lower m = lower n then Some (normalize_value v) else headers_get h m)"
  by (auto simp: headers_set_def headers_get_def Let_def filter_replace_first split: if_splits)

lemma headers_get_Nil [simp]: "headers_get [] n = None"
  by (simp add: headers_get_def)

lemma dropWhile_rev_idem:
  "dropWhile P (rev (dropWhile P (rev (dropWhile P xs)))) = rev (dropWhile P (rev (dropWhile P xs)))"
proof (cases "rev (dropWhile P (rev (dropWhile P xs)))")
  case Nil
  then show ?thesis by (simp only: dropWhile.simps)
next
  case (Cons y ys)
  have "\<exists>zs. dropWhile P xs = rev (dropWhile P (rev (dropWhile P xs))) @ zs"
    by (metis rev_append rev_rev_ident takeWhile_dropWhile_id)
  then obtain zs where "dropWhile P xs = y # ys @ zs" using Cons by auto
  then have "\<not> P y" by (metis dropWhile_eq_Cons_conv)
  with Cons show ?thesis by simp
qed

lemma normalize_value_idem [simp]: "normalize_value (normalize_value v) = normalize_value v"
  unfolding normalize_value_def
  by (simp only: dropWhile_rev_idem rev_rev_ident dropWhile_idem)

lemma headers_inv_Nil [simp]: "headers_inv []"
  by (simp add: headers_inv_def)

lemma headers_inv_append:
  "headers_append h n v = Inr h' \<Longrightarrow> headers_inv h \<Longrightarrow> headers_inv h'"
  by (auto simp: headers_append_def headers_inv_def Let_def split: if_splits)

lemma replace_first_all:
  "list_all P h \<Longrightarrow> P (n, v) \<Longrightarrow> list_all P (replace_first n v h)"
  by (induction n v h rule: replace_first.induct) (auto simp: list_all_iff)

lemma headers_inv_set:
  "headers_set h n v = Inr h' \<Longrightarrow> headers_inv h \<Longrightarrow> headers_inv h'"
  by (auto simp: headers_set_def headers_inv_def Let_def split: if_splits intro!: replace_first_all)

lemma headers_inv_fill:
  "headers_fill h es = Inr h' \<Longrightarrow> headers_inv h \<Longrightarrow> headers_inv h'"
  by (induction h es rule: headers_fill.induct)
    (auto split: sum.splits intro: headers_inv_append)

lemma headers_inv_new: "new_headers es = Inr h \<Longrightarrow> headers_inv h"
  by (auto simp: new_headers_def intro: headers_inv_fill)

section \<open>Request and Response\<close>

record request =
  req_method :: string
  req_url :: string
  req_headers :: headers
  req_body :: "bytes option"

text \<open>The body inits the worker passes: \<open>null\<close>, a string, or a stream of bytes.\<close>

datatype body_init = NullBody | TextBody string | StreamBody bytes

record response =
  resp_status :: nat
  resp_headers :: headers
  resp_body :: body_init

text \<open>
  \<open>new Response(body, init)\<close>: a status outside 200..599 is a \<open>RangeError\<close>, a
  body on a null-body status a \<open>TypeError\<close>, and a string body adds its content
  type unless the headers have one.
\<close>

definition null_body_status :: "nat \<Rightarrow> bool" where
  "null_body_status st \<longleftrightarrow> st = 204 \<or> st = 205 \<or> st = 304"

definition text_content_type :: string where
  "text_content_type = ''text/plain;charset=UTF-8''"

definition new_response :: "body_init \<Rightarrow> nat \<Rightarrow> headers \<Rightarrow> js_error + response" where
  "new_response b st h =
     (if st < 200 \<or> 599 < st then Inl (RangeError ''status'')
      else if b \<noteq> NullBody \<and> null_body_status st then Inl (TypeError ''null body status'')
      else Inr \<lparr>resp_status = st,
                resp_headers = (case b of
                    TextBody _ \<Rightarrow>
                      if headers_get h ''content-type'' = None
                      then h @ [(''content-type'', text_content_type)] else h
                  | _ \<Rightarrow> h),
                resp_body = b\<rparr>)"

section \<open>R2 objects\<close>

record r2_http_metadata =
  contentType :: "string option"
  contentLanguage :: "string option"
  contentDisposition :: "string option"
  contentEncoding :: "string option"
  cacheControl :: "string option"
  cacheExpiry :: "int option"

record r2_checksums =
  md5 :: "bytes option"
  sha1 :: "bytes option"
  sha256 :: "bytes option"
  sha384 :: "bytes option"
  sha512 :: "bytes option"

datatype r2_range =
    OffsetRange nat "nat option"
  | LengthRange "nat option" nat
  | SuffixRange nat

record r2_object =
  r2_key :: string
  r2_version :: string
  r2_size :: nat
  r2_etag :: string
  r2_httpEtag :: string
  r2_checksums_of :: r2_checksums
  r2_uploaded :: int
  r2_httpMetadata :: "r2_http_metadata option"
  r2_customMetadata :: "(string \<times> string) list option"
  r2_range_of :: "r2_range option"
  r2_storageClass :: string
  r2_ssecKeyMd5 :: "string option"

record r2_object_body = r2_object +
  r2_body :: bytes

record r2_conditional =
  etagMatches :: "string option"
  etagDoesNotMatch :: "string option"
  uploadedBefore :: "int option"
  uploadedAfter :: "int option"
  secondsGranularity :: "bool option"

text \<open>A union with \<open>Headers\<close> is a sum; a digest or key is bytes or its hex string.\<close>

record r2_put_options =
  put_onlyIf :: "(r2_conditional + headers) option"
  put_httpMetadata :: "(r2_http_metadata + headers) option"
  put_customMetadata :: "(string \<times> string) list option"
  put_md5 :: "(bytes + string) option"
  put_sha1 :: "(bytes + string) option"
  put_sha256 :: "(bytes + string) option"
  put_sha384 :: "(bytes + string) option"
  put_sha512 :: "(bytes + string) option"
  put_storageClass :: "string option"
  put_ssecKey :: "(bytes + string) option"

definition empty_http_metadata :: r2_http_metadata where
  "empty_http_metadata = \<lparr>contentType = None, contentLanguage = None, contentDisposition = None,
     contentEncoding = None, cacheControl = None, cacheExpiry = None\<rparr>"

definition empty_put_options :: r2_put_options where
  "empty_put_options = \<lparr>put_onlyIf = None, put_httpMetadata = None, put_customMetadata = None,
     put_md5 = None, put_sha1 = None, put_sha256 = None, put_sha384 = None, put_sha512 = None,
     put_storageClass = None, put_ssecKey = None\<rparr>"

section \<open>The R2 service\<close>

text \<open>
  The calls the worker makes.  The state \<open>'b\<close> of the service is opaque; every call
  may reject (\<open>Inl\<close>) and may change the state, which the laws below restrict.  A put that
  does not reject yields an object: the declared \<open>null\<close> is the answer to a put with
  \<open>onlyIf\<close>, and the worker's puts are unconditional.
\<close>

record 'b r2_bucket =
  bucket_head :: "string \<Rightarrow> 'b \<Rightarrow> (js_error + r2_object option) \<times> 'b"
  bucket_get :: "string \<Rightarrow> 'b \<Rightarrow> (js_error + r2_object_body option) \<times> 'b"
  bucket_put :: "string \<Rightarrow> bytes \<Rightarrow> r2_put_options \<Rightarrow> 'b \<Rightarrow> (js_error + r2_object) \<times> 'b"
  write_http_metadata :: "r2_object \<Rightarrow> headers \<Rightarrow> js_error + headers"

text \<open>
  The stored object an unconditional put of \<open>v\<close> under \<open>k\<close> leaves.
\<close>

definition stored_as :: "string \<Rightarrow> bytes \<Rightarrow> r2_object_body \<Rightarrow> bool" where
  "stored_as k v e \<longleftrightarrow> r2_key e = k \<and> r2_body e = v \<and> r2_size e = length v"

definition well_stored :: "string \<Rightarrow> r2_object_body \<Rightarrow> bool" where
  "well_stored k e \<longleftrightarrow> stored_as k (r2_body e) e
     \<and> valid_value (normalize_value (r2_httpEtag e))"

definition metadata_headers :: "string set" where
  "metadata_headers = {''content-type'', ''content-language'', ''content-disposition'',
     ''content-encoding'', ''cache-control'', ''expires''}"

text \<open>
  What R2 documents: reads are strongly consistent and change nothing, a put that
  succeeds replaces exactly one object and a put that fails replaces at most that one;
  \<open>writeHttpMetadata\<close> touches only the metadata headers.
\<close>

definition r2_read_laws :: "'b r2_bucket \<Rightarrow> ('b \<Rightarrow> string \<Rightarrow> r2_object_body option) \<Rightarrow> bool" where
  "r2_read_laws R contents \<longleftrightarrow>
     (\<forall>k b r b'. bucket_head R k b = (r, b') \<longrightarrow> contents b' = contents b
        \<and> (\<forall>x. r = Inr x \<longrightarrow> x = map_option r2_object.truncate (contents b k)))
   \<and> (\<forall>k b r b'. bucket_get R k b = (r, b') \<longrightarrow> contents b' = contents b
        \<and> (\<forall>x. r = Inr x \<longrightarrow> x = contents b k))
   \<and> (\<forall>b k e. contents b k = Some e \<longrightarrow> well_stored k e)"

definition r2_write_laws :: "'b r2_bucket \<Rightarrow> ('b \<Rightarrow> string \<Rightarrow> r2_object_body option) \<Rightarrow> bool" where
  "r2_write_laws R contents \<longleftrightarrow>
     (\<forall>k v opts b r b'. bucket_put R k v opts b = (r, b') \<longrightarrow>
        (\<exists>e. stored_as k v e \<and> (contents b' = (contents b)(k \<mapsto> e)
              \<or> (\<exists>x. r = Inl x) \<and> contents b' = contents b)))"

definition r2_metadata_laws :: "'b r2_bucket \<Rightarrow> bool" where
  "r2_metadata_laws R \<longleftrightarrow>
     (\<forall>o1 h h'. write_http_metadata R o1 h = Inr h' \<longrightarrow> headers_inv h \<longrightarrow>
        headers_inv h' \<and> (\<forall>n. lower n \<notin> metadata_headers \<longrightarrow> headers_get h' n = headers_get h n))"

definition r2_laws :: "'b r2_bucket \<Rightarrow> ('b \<Rightarrow> string \<Rightarrow> r2_object_body option) \<Rightarrow> bool" where
  "r2_laws R contents \<longleftrightarrow>
     r2_read_laws R contents \<and> r2_write_laws R contents \<and> r2_metadata_laws R"

lemma r2_head_law:
  assumes "r2_laws R contents" and "bucket_head R k b = (r, b')"
  shows "contents b' = contents b \<and> (\<forall>x. r = Inr x \<longrightarrow> x = map_option r2_object.truncate (contents b k))"
proof -
  from assms(1) have "\<forall>k b r b'. bucket_head R k b = (r, b') \<longrightarrow> contents b' = contents b
      \<and> (\<forall>x. r = Inr x \<longrightarrow> x = map_option r2_object.truncate (contents b k))"
    unfolding r2_laws_def r2_read_laws_def by (elim conjE)
  from this [THEN spec, THEN spec, THEN spec, THEN spec, THEN mp, OF assms(2)] show ?thesis .
qed

lemma r2_get_law:
  assumes "r2_laws R contents" and "bucket_get R k b = (r, b')"
  shows "contents b' = contents b \<and> (\<forall>x. r = Inr x \<longrightarrow> x = contents b k)"
proof -
  from assms(1) have "\<forall>k b r b'. bucket_get R k b = (r, b') \<longrightarrow> contents b' = contents b
      \<and> (\<forall>x. r = Inr x \<longrightarrow> x = contents b k)"
    unfolding r2_laws_def r2_read_laws_def by (elim conjE)
  from this [THEN spec, THEN spec, THEN spec, THEN spec, THEN mp, OF assms(2)] show ?thesis .
qed

lemma r2_put_law:
  assumes "r2_laws R contents" and "bucket_put R k v opts b = (r, b')"
  obtains e where "stored_as k v e" and "contents b' = (contents b)(k \<mapsto> e)"
    | x where "r = Inl x" and "contents b' = contents b"
proof -
  from assms(1) have "\<forall>k v opts b r b'. bucket_put R k v opts b = (r, b') \<longrightarrow>
        (\<exists>e. stored_as k v e \<and> (contents b' = (contents b)(k \<mapsto> e)
              \<or> (\<exists>x. r = Inl x) \<and> contents b' = contents b))"
    unfolding r2_laws_def r2_write_laws_def by (elim conjE)
  from this [THEN spec, THEN spec, THEN spec, THEN spec, THEN spec, THEN spec, THEN mp, OF assms(2)]
  show thesis using that by (elim exE conjE disjE) simp_all
qed

lemma r2_well_stored:
  assumes "r2_laws R contents" and "contents b k = Some e"
  shows "well_stored k e"
proof -
  from assms(1) have "\<forall>b k e. contents b k = Some e \<longrightarrow> well_stored k e"
    unfolding r2_laws_def r2_read_laws_def by (elim conjE)
  with assms(2) show ?thesis by simp
qed

lemma r2_metadata_law:
  assumes "r2_laws R contents" and "write_http_metadata R ob h = Inr h'" and "headers_inv h"
  shows "headers_inv h'"
    and "lower n \<notin> metadata_headers \<Longrightarrow> headers_get h' n = headers_get h n"
proof -
  from assms(1) have "\<forall>ob h h'. write_http_metadata R ob h = Inr h' \<longrightarrow> headers_inv h \<longrightarrow>
        headers_inv h' \<and> (\<forall>n. lower n \<notin> metadata_headers \<longrightarrow> headers_get h' n = headers_get h n)"
    unfolding r2_laws_def r2_metadata_laws_def by (elim conjE)
  from this [THEN spec, THEN spec, THEN spec, THEN mp, OF assms(2), THEN mp, OF assms(3)]
  show "headers_inv h'"
    and "lower n \<notin> metadata_headers \<Longrightarrow> headers_get h' n = headers_get h n"
    by simp_all
qed

section \<open>An in-memory bucket\<close>

text \<open>
  A bucket held in a list of objects, which meets the laws: the instance on which the
  witnesses of the worker's properties are evaluated.
\<close>

type_synonym mem_bucket = "(string \<times> r2_object_body) list"

definition mem_contents :: "mem_bucket \<Rightarrow> string \<Rightarrow> r2_object_body option" where
  "mem_contents b = (\<lambda>k. case map_of b k of
     None \<Rightarrow> None
   | Some e \<Rightarrow> if r2_key e = k \<and> r2_size e = length (r2_body e) \<and>
                  valid_value (normalize_value (r2_httpEtag e)) then Some e else None)"

definition mem_object :: "string \<Rightarrow> bytes \<Rightarrow> r2_put_options \<Rightarrow> r2_object_body" where
  "mem_object k v opts = \<lparr>r2_key = k, r2_version = ''1'', r2_size = length v, r2_etag = ''e1'',
     r2_httpEtag = [CHR 0x22] @ ''e1'' @ [CHR 0x22],
     r2_checksums_of = \<lparr>md5 = None, sha1 = None, sha256 = None, sha384 = None, sha512 = None\<rparr>,
     r2_uploaded = 0,
     r2_httpMetadata = (case put_httpMetadata opts of Some (Inl m) \<Rightarrow> Some m | _ \<Rightarrow> None),
     r2_customMetadata = put_customMetadata opts, r2_range_of = None,
     r2_storageClass = ''Standard'', r2_ssecKeyMd5 = None, r2_body = v\<rparr>"

definition mem_write_metadata :: "r2_object \<Rightarrow> headers \<Rightarrow> js_error + headers" where
  "mem_write_metadata ob h = (case r2_httpMetadata ob of
     None \<Rightarrow> Inr h
   | Some m \<Rightarrow> (case contentType m of None \<Rightarrow> Inr h | Some t \<Rightarrow> headers_set h ''content-type'' t))"

definition mem_r2 :: "mem_bucket r2_bucket" where
  "mem_r2 = \<lparr>bucket_head = (\<lambda>k b. (Inr (map_option r2_object.truncate (mem_contents b k)), b)),
     bucket_get = (\<lambda>k b. (Inr (mem_contents b k), b)),
     bucket_put = (\<lambda>k v opts b. (Inr (r2_object.truncate (mem_object k v opts)),
        (k, mem_object k v opts) # b)),
     write_http_metadata = mem_write_metadata\<rparr>"

lemma mem_object_stored: "stored_as k v (mem_object k v opts)"
  by (simp add: stored_as_def mem_object_def)

lemma mem_object_etag: "valid_value (normalize_value (r2_httpEtag (mem_object k v opts)))"
  by (simp add: mem_object_def normalize_value_def http_space_def valid_value_def)

lemma mem_contents_put:
  "mem_contents ((k, mem_object k v opts) # b) = (mem_contents b)(k \<mapsto> mem_object k v opts)"
  using mem_object_stored [of k v opts] mem_object_etag [of k v opts]
  by (auto simp: mem_contents_def fun_eq_iff stored_as_def)

lemma lower_content_type [simp]: "lower ''content-type'' = ''content-type''"
  by (simp add: lower_def lower_char_def code_in_def)

lemma mem_write_metadata_law:
  assumes "mem_write_metadata ob h = Inr h'" and "headers_inv h"
  shows "headers_inv h' \<and> (\<forall>n. lower n \<notin> metadata_headers \<longrightarrow> headers_get h' n = headers_get h n)"
proof -
  have "h' = h \<or> (\<exists>t. headers_set h ''content-type'' t = Inr h')"
    using assms(1) unfolding mem_write_metadata_def
    by (simp split: option.split_asm) blast
  then consider "h' = h" | t where "headers_set h ''content-type'' t = Inr h'"
    by blast
  then show ?thesis
  proof cases
    case 1
    with assms(2) show ?thesis by simp
  next
    case 2
    have "''content-type'' \<in> metadata_headers" by (simp add: metadata_headers_def)
    then have "headers_get h' n = headers_get h n" if "lower n \<notin> metadata_headers" for n
      using headers_get_set [OF 2, of n] that by auto
    with headers_inv_set [OF 2 assms(2)] show ?thesis by blast
  qed
qed

lemma mem_r2_laws: "r2_laws mem_r2 mem_contents"
proof -
  have "r2_read_laws mem_r2 mem_contents"
    by (auto simp: r2_read_laws_def mem_r2_def mem_contents_def well_stored_def stored_as_def
        split: option.splits if_splits)
  moreover have "r2_write_laws mem_r2 mem_contents"
    unfolding r2_write_laws_def mem_r2_def
    by (auto intro!: exI conjI mem_object_stored simp: mem_contents_put)
  moreover have "r2_metadata_laws mem_r2"
    unfolding r2_metadata_laws_def mem_r2_def using mem_write_metadata_law by simp
  ultimately show ?thesis by (simp add: r2_laws_def)
qed

end
