(* ===== verification/Remote_Cache.thy ===== *)
theory Remote_Cache
  imports Regex Web_Platform
begin

text \<open>
  The Cloudflare worker of \<open>tools/remote-cache/src/index.ts\<close>: a Bazel remote cache
  behind a bearer token and a public read-only Maven repository, both over one R2
  bucket.  Every function of the file is a definition of the same name; the bucket and
  the URL parser of the runtime are arguments.
\<close>

section \<open>Paths\<close>

definition CACHE_PATH :: regex where
  "CACHE_PATH = Seq Bol (Seq (Lit ''/cache/'')
     (Seq (Group 1 (Alt (Lit ''ac'') (Lit ''cas'')))
       (Seq (Lit ''/'') (Seq (Group 2 (Rep (Ranges [(97, 102), (48, 57)]) 64 (Some 64))) Eol))))"

definition MAVEN_PATH :: regex where
  "MAVEN_PATH = Seq Bol (Seq (Lit ''/maven/'') (Seq (Group 1 (Rep Dot 1 None)) Eol))"

text \<open>What the two patterns are meant to accept.\<close>

definition digest_char :: "char \<Rightarrow> bool" where
  "digest_char c \<longleftrightarrow> code_in 97 102 c \<or> code_in 48 57 c"

definition cache_digest :: "string \<Rightarrow> bool" where
  "cache_digest h \<longleftrightarrow> length h = 64 \<and> list_all digest_char h"

definition maven_relative :: "string \<Rightarrow> bool" where
  "maven_relative t \<longleftrightarrow> t \<noteq> [] \<and> list_all (\<lambda>c. c \<noteq> CHR 0x0A \<and> c \<noteq> CHR 0x0D) t"

lemma cache_tail:
  "match_all (Seq (Group 2 (Rep (Ranges [(97, 102), (48, 57)]) 64 (Some 64))) Eol) (p, u, c) =
     (if cache_digest u then [(p + length u, [], (2, u) # c)] else [])"
  by (subst match_all_group_rep_end)
    (auto simp: rep_counts_iff cache_digest_def list_all_iff digest_char_def in_class_def)

lemma cache_kind:
  "match_all (Seq (Lit ''/'') (Seq (Group 2 (Rep (Ranges [(97, 102), (48, 57)]) 64 (Some 64))) Eol)) (p, u, c) =
     (if starts_with ''/'' u \<and> cache_digest (drop 1 u)
      then [(p + 1 + length (drop 1 u), [], (2, drop 1 u) # c)] else [])"
  using cache_tail [of "p + 1" "drop 1 u" c]
  by (subst match_all.simps(3)) (simp del: match_all.simps(2-7))

text \<open>
  \<open>/cache/ac/\<close> or \<open>/cache/cas/\<close> followed by exactly 64 lower-case hexadecimal
  digits, with the kind and the digest as captures 1 and 2.
\<close>

lemma starts_with_Cons: "starts_with (p # ps) s \<longleftrightarrow> (\<exists>t. s = p # t \<and> starts_with ps t)"
  by (cases s) auto

lemma cache_path_run:
  "regex_exec CACHE_PATH s =
     (if starts_with ''/cache/ac/'' s \<and> cache_digest (drop 10 s)
      then Some [(2, drop 10 s), (1, ''ac'')]
      else if starts_with ''/cache/cas/'' s \<and> cache_digest (drop 11 s)
      then Some [(2, drop 11 s), (1, ''cas'')]
      else None)"
proof (cases "starts_with ''/cache/'' s")
  case False
  then have "\<not> starts_with ''/cache/ac/'' s" "\<not> starts_with ''/cache/cas/'' s"
    by (auto simp: starts_with_iff)
  with False show ?thesis
    by (simp add: CACHE_PATH_def regex_exec_anchored)
next
  case True
  then obtain t where s: "s = ''/cache/'' @ t" by (auto simp: starts_with_iff)
  have run: "match_all (Seq (Group 1 (Alt (Lit ''ac'') (Lit ''cas'')))
      (Seq (Lit ''/'') (Seq (Group 2 (Rep (Ranges [(97, 102), (48, 57)]) 64 (Some 64))) Eol))) (p, t, [])
    = (if starts_with ''ac/'' t \<and> cache_digest (drop 3 t)
       then [(p + 3 + length (drop 3 t), [], [(2, drop 3 t), (1, ''ac'')])] else [])
      @ (if starts_with ''cas/'' t \<and> cache_digest (drop 4 t)
         then [(p + 4 + length (drop 4 t), [], [(2, drop 4 t), (1, ''cas'')])] else [])" for p
  proof -
    consider u where "t = ''ac'' @ u" | u where "t = ''cas'' @ u"
      | "\<not> starts_with ''ac'' t" "\<not> starts_with ''cas'' t"
      by (auto simp: starts_with_iff)
    then show ?thesis
    proof cases
      case (1 u)
      then show ?thesis
        by (simp add: match_all_group_lits_seq cache_kind del: match_all.simps One_nat_def) simp
    next
      case (2 u)
      then show ?thesis
        by (simp add: match_all_group_lits_seq cache_kind del: match_all.simps One_nat_def) simp
    next
      case 3
      then have "\<not> starts_with ''ac/'' t" "\<not> starts_with ''cas/'' t"
        by (auto simp: starts_with_iff)
      with 3 show ?thesis
        by (simp add: match_all_group_lits_seq del: match_all.simps One_nat_def)
    qed
  qed
  show ?thesis
    by (simp add: CACHE_PATH_def regex_exec_anchored match_all_Lit_seq s run
        del: match_all.simps(3-5) One_nat_def)
qed

lemma cache_path_exec:
  "regex_exec CACHE_PATH s = Some c \<longleftrightarrow>
     (\<exists>k h. s = ''/cache/'' @ k @ ''/'' @ h \<and> (k = ''ac'' \<or> k = ''cas'') \<and> cache_digest h
        \<and> c = [(2, h), (1, k)])"
proof
  assume "regex_exec CACHE_PATH s = Some c"
  then show "\<exists>k h. s = ''/cache/'' @ k @ ''/'' @ h \<and> (k = ''ac'' \<or> k = ''cas'') \<and> cache_digest h
      \<and> c = [(2, h), (1, k)]"
    by (auto simp: cache_path_run starts_with_iff split: if_splits)
next
  assume "\<exists>k h. s = ''/cache/'' @ k @ ''/'' @ h \<and> (k = ''ac'' \<or> k = ''cas'') \<and> cache_digest h
      \<and> c = [(2, h), (1, k)]"
  then show "regex_exec CACHE_PATH s = Some c"
    by (auto simp: cache_path_run)
qed

text \<open>\<open>/maven/\<close> followed by a non-empty rest with no line terminator.\<close>

lemma maven_path_exec:
  "regex_exec MAVEN_PATH s = Some c \<longleftrightarrow>
     (\<exists>t. s = ''/maven/'' @ t \<and> maven_relative t \<and> c = [(1, t)])"
proof -
  have tail: "match_all (Seq (Group 1 (Rep Dot 1 None)) Eol) (p, t, c) =
      (if maven_relative t then [(p + length t, [], (1, t) # c)] else [])" for p t c
    by (subst match_all_group_rep_end)
      (auto simp: rep_counts_iff maven_relative_def list_all_iff in_class_def Suc_le_eq)
  show ?thesis
  proof (cases "starts_with ''/maven/'' s")
    case False
    then have "regex_exec MAVEN_PATH s = None"
      by (simp add: MAVEN_PATH_def regex_exec_anchored match_all_Lit_seq
          del: match_all.simps(3-5) One_nat_def)
    with False show ?thesis by (auto simp: starts_with_iff)
  next
    case True
    then obtain t where "s = ''/maven/'' @ t" by (auto simp: starts_with_iff)
    then show ?thesis
      by (auto simp: MAVEN_PATH_def regex_exec_anchored match_all_Lit_seq tail
          simp del: match_all.simps(3-5) One_nat_def)
  qed
qed

section \<open>The worker's functions\<close>

record env =
  bazel_cache_token :: string

definition bearer :: "env \<Rightarrow> string" where
  "bearer en = ''Bearer '' @ bazel_cache_token en"

definition text_response :: "nat \<Rightarrow> string \<Rightarrow> js_error + response" where
  "text_response st body = new_response (TextBody body) st []"

definition cacheObjectHeaders :: "r2_object \<Rightarrow> js_error + headers" where
  "cacheObjectHeaders ob = new_headers
     [(''content-type'', ''application/octet-stream''),
      (''content-length'', show_nat (r2_size ob)),
      (''etag'', r2_httpEtag ob),
      (''cache-control'', ''private, max-age=31536000, immutable'')]"

text \<open>
  \<open>!headers.get(name)\<close> holds for a missing header and for an empty value.
\<close>

definition falsy_header :: "headers \<Rightarrow> string \<Rightarrow> bool" where
  "falsy_header h n \<longleftrightarrow> headers_get h n = None \<or> headers_get h n = Some []"

definition mavenObjectHeaders :: "'b r2_bucket \<Rightarrow> r2_object \<Rightarrow> js_error + headers" where
  "mavenObjectHeaders R ob =
     and_then (write_http_metadata R ob []) (\<lambda>h.
     and_then (headers_set h ''content-length'' (show_nat (r2_size ob))) (\<lambda>h.
     and_then (headers_set h ''etag'' (r2_httpEtag ob)) (\<lambda>h.
     and_then (headers_set h ''cache-control'' ''public, max-age=300'') (\<lambda>h.
     if falsy_header h ''content-type''
     then headers_set h ''content-type'' ''text/plain''
     else Inr h))))"

definition authorized :: "request \<Rightarrow> env \<Rightarrow> bool" where
  "authorized rq en \<longleftrightarrow> headers_get (req_headers rq) ''authorization'' = Some (bearer en)"

definition cache_key :: "captures \<Rightarrow> string" where
  "cache_key m = capture m 1 @ ''/'' @ capture m 2"

definition octet_stream_options :: r2_put_options where
  "octet_stream_options = empty_put_options\<lparr>put_httpMetadata :=
     Some (Inl (empty_http_metadata\<lparr>contentType := Some ''application/octet-stream''\<rparr>))\<rparr>"

definition handleBazelCache ::
  "'b r2_bucket \<Rightarrow> request \<Rightarrow> captures \<Rightarrow> 'b \<Rightarrow> (js_error + response) \<times> 'b" where
  "handleBazelCache R rq m b =
     (let key = cache_key m in
      if req_method rq = ''PUT'' then
        (case req_body rq of
           None \<Rightarrow> (text_response 400 ''Missing request body'', b)
         | Some v \<Rightarrow>
             (case bucket_put R key v octet_stream_options b of
                (Inl e, b') \<Rightarrow> (Inl e, b')
              | (Inr _, b') \<Rightarrow> (new_response NullBody 200 [], b')))
      else if req_method rq = ''GET'' then
        (case bucket_get R key b of
           (Inl e, b') \<Rightarrow> (Inl e, b')
         | (Inr None, b') \<Rightarrow> (text_response 404 ''Not Found'', b')
         | (Inr (Some ob), b') \<Rightarrow>
             (and_then (cacheObjectHeaders (r2_object.truncate ob))
                (new_response (StreamBody (r2_body ob)) 200), b'))
      else if req_method rq = ''HEAD'' then
        (case bucket_head R key b of
           (Inl e, b') \<Rightarrow> (Inl e, b')
         | (Inr None, b') \<Rightarrow> (text_response 404 ''Not Found'', b')
         | (Inr (Some ob), b') \<Rightarrow>
             (and_then (cacheObjectHeaders ob) (new_response NullBody 200), b'))
      else (text_response 405 ''Method Not Allowed'', b))"

definition handleMavenRepository ::
  "'b r2_bucket \<Rightarrow> request \<Rightarrow> string \<Rightarrow> 'b \<Rightarrow> (js_error + response) \<times> 'b" where
  "handleMavenRepository R rq relativePath b =
     (if req_method rq \<noteq> ''GET'' \<and> req_method rq \<noteq> ''HEAD'' then
        (text_response 405 ''Method Not Allowed'', b)
      else if contains ''..'' relativePath then
        (text_response 400 ''Invalid Maven path'', b)
      else
        (let key = ''maven/'' @ relativePath in
         if req_method rq = ''HEAD'' then
           (case bucket_head R key b of
              (Inl e, b') \<Rightarrow> (Inl e, b')
            | (Inr None, b') \<Rightarrow> (text_response 404 ''Not Found'', b')
            | (Inr (Some ob), b') \<Rightarrow>
                (and_then (mavenObjectHeaders R ob) (new_response NullBody 200), b'))
         else
           (case bucket_get R key b of
              (Inl e, b') \<Rightarrow> (Inl e, b')
            | (Inr None, b') \<Rightarrow> (text_response 404 ''Not Found'', b')
            | (Inr (Some ob), b') \<Rightarrow>
                (and_then (mavenObjectHeaders R (r2_object.truncate ob))
                   (new_response (StreamBody (r2_body ob)) 200), b'))))"

text \<open>
  The handler the worker exports.  \<open>pathname\<close> stands for the runtime's
  \<open>new URL(url).pathname\<close>, which throws on a URL it cannot parse.
\<close>

definition fetch ::
  "(string \<Rightarrow> js_error + string) \<Rightarrow> 'b r2_bucket \<Rightarrow> env \<Rightarrow> request \<Rightarrow> 'b \<Rightarrow> (js_error + response) \<times> 'b"
where
  "fetch pathname R en rq b =
     (case pathname (req_url rq) of
        Inl e \<Rightarrow> (Inl e, b)
      | Inr path \<Rightarrow>
          (case regex_exec MAVEN_PATH path of
             Some m \<Rightarrow> handleMavenRepository R rq (capture m 1) b
           | None \<Rightarrow>
               if \<not> authorized rq en then (text_response 401 ''Unauthorized'', b)
               else
                 (case regex_exec CACHE_PATH path of
                    Some m \<Rightarrow> handleBazelCache R rq m b
                  | None \<Rightarrow> (text_response 404 ''Not Found'', b))))"

text \<open>A sequence of requests served one after the other.\<close>

fun serve ::
  "(string \<Rightarrow> js_error + string) \<Rightarrow> 'b r2_bucket \<Rightarrow> env \<Rightarrow> request list \<Rightarrow> 'b \<Rightarrow> 'b"
where
  "serve pathname R en [] b = b"
| "serve pathname R en (rq # rqs) b = serve pathname R en rqs (snd (fetch pathname R en rq b))"

section \<open>Routes\<close>

datatype route = MavenRoute string | CacheRoute string string | OtherRoute

text \<open>The route of a path name, read off the two prefixes.\<close>

definition route_of :: "string \<Rightarrow> route" where
  "route_of path =
     (if starts_with ''/maven/'' path \<and> maven_relative (drop 7 path) then MavenRoute (drop 7 path)
      else if starts_with ''/cache/ac/'' path \<and> cache_digest (drop 10 path)
      then CacheRoute ''ac'' (drop 10 path)
      else if starts_with ''/cache/cas/'' path \<and> cache_digest (drop 11 path)
      then CacheRoute ''cas'' (drop 11 path)
      else OtherRoute)"

lemma capture_simps [simp]:
  "capture [(1, t)] 1 = t"
  "capture [(Suc 0, t)] (Suc 0) = t"
  "capture [(2, h), (1, k)] 1 = k"
  "capture [(2, h), (Suc 0, k)] (Suc 0) = k"
  "capture [(2, h), (1, k)] 2 = h"
  "capture [(2, h), (Suc 0, k)] 2 = h"
  by (simp_all add: capture_def)

lemma maven_path_run:
  "regex_exec MAVEN_PATH path =
     (if starts_with ''/maven/'' path \<and> maven_relative (drop 7 path)
      then Some [(1, drop 7 path)] else None)"
proof (cases "regex_exec MAVEN_PATH path")
  case None
  have "\<not> (starts_with ''/maven/'' path \<and> maven_relative (drop 7 path))"
  proof
    assume "starts_with ''/maven/'' path \<and> maven_relative (drop 7 path)"
    then have "regex_exec MAVEN_PATH path = Some [(1, drop 7 path)]"
      by (auto simp: maven_path_exec starts_with_iff)
    with None show False by simp
  qed
  with None show ?thesis by simp
next
  case (Some c)
  then show ?thesis by (auto simp: maven_path_exec starts_with_iff)
qed

lemma fetch_route:
  "fetch pathname R en rq b =
     (case pathname (req_url rq) of
        Inl e \<Rightarrow> (Inl e, b)
      | Inr path \<Rightarrow>
          (case route_of path of
             MavenRoute t \<Rightarrow> handleMavenRepository R rq t b
           | CacheRoute k h \<Rightarrow>
               if authorized rq en then handleBazelCache R rq [(2, h), (1, k)] b
               else (text_response 401 ''Unauthorized'', b)
           | OtherRoute \<Rightarrow>
               (text_response (if authorized rq en then 404 else 401)
                  (if authorized rq en then ''Not Found'' else ''Unauthorized''), b)))"
  by (simp add: fetch_def maven_path_run cache_path_run route_of_def split: sum.split)

end
