(* ===== verification/Remote_Cache_Props.thy ===== *)
theory Remote_Cache_Props
  imports Remote_Cache
begin

text \<open>
  Correctness of the remote-cache worker: what each route answers, which requests can
  change the bucket and how, what an unauthenticated client can read, that a stored
  object is read back, and the headers of every successful answer.  The statements
  hold for every bucket that meets \<open>r2_laws\<close>.
\<close>

section \<open>Responses\<close>

lemma new_response_Inr:
  "new_response bd st h = Inr r \<Longrightarrow> resp_status r = st \<and> resp_body r = bd"
  by (auto simp: new_response_def split: if_splits)

lemma new_response_headers:
  "new_response bd st h = Inr r \<Longrightarrow> (\<And>t. bd \<noteq> TextBody t) \<Longrightarrow> resp_headers r = h"
  by (cases bd) (auto simp: new_response_def split: if_splits)

lemma text_response_Inr: "text_response st t = Inr r \<Longrightarrow> resp_status r = st \<and> resp_body r = TextBody t"
  unfolding text_response_def by (rule new_response_Inr)

section \<open>What a request does to the bucket\<close>

lemma maven_contents:
  assumes "r2_laws R contents" and "handleMavenRepository R rq t b = (r, b')"
  shows "contents b' = contents b"
  using assms(2)
  by (auto simp: handleMavenRepository_def Let_def split: if_splits prod.splits sum.splits option.splits
      dest: r2_get_law [OF assms(1)] r2_head_law [OF assms(1)])

lemma cache_read_contents:
  assumes "r2_laws R contents" and "handleBazelCache R rq m b = (r, b')"
    and "req_method rq \<noteq> ''PUT'' \<or> req_body rq = None"
  shows "contents b' = contents b"
  using assms(2,3)
  by (auto simp: handleBazelCache_def Let_def split: if_splits prod.splits sum.splits option.splits
      dest: r2_get_law [OF assms(1)] r2_head_law [OF assms(1)])

lemma cache_put_contents:
  assumes "r2_laws R contents" and "handleBazelCache R rq m b = (r, b')"
    and "req_method rq = ''PUT''" and "req_body rq = Some v"
  obtains e where "stored_as (cache_key m) v e" "contents b' = (contents b)(cache_key m \<mapsto> e)"
    | x where "r = Inl x" "contents b' = contents b"
proof -
  obtain pr where put: "bucket_put R (cache_key m) v octet_stream_options b = (pr, b')"
      and r: "\<And>x. pr = Inl x \<Longrightarrow> r = Inl x"
    using assms(2,3,4) by (auto simp: handleBazelCache_def Let_def split: prod.splits sum.splits)
  from r2_put_law [OF assms(1) put] show thesis using that r by metis
qed

text \<open>The object key a request writes, if it is one that writes.\<close>

definition written_key ::
  "(string \<Rightarrow> js_error + string) \<Rightarrow> env \<Rightarrow> request \<Rightarrow> string option" where
  "written_key pathname en rq =
     (case pathname (req_url rq) of
        Inl _ \<Rightarrow> None
      | Inr path \<Rightarrow>
          (case route_of path of
             CacheRoute k h \<Rightarrow>
               if authorized rq en \<and> req_method rq = ''PUT'' \<and> req_body rq \<noteq> None
               then Some (k @ ''/'' @ h) else None
           | _ \<Rightarrow> None))"

lemma route_of_cache:
  "route_of path = CacheRoute kind digest \<Longrightarrow> path = ''/cache/'' @ kind @ ''/'' @ digest
     \<and> (kind = ''ac'' \<or> kind = ''cas'') \<and> cache_digest digest"
  by (auto simp: route_of_def starts_with_iff split: if_splits)

lemma route_of_maven:
  "route_of path = MavenRoute t \<longleftrightarrow> path = ''/maven/'' @ t \<and> maven_relative t"
  by (auto simp: route_of_def starts_with_iff split: if_splits)

lemma written_key_cases:
  assumes "written_key pathname en rq = Some key"
  obtains path kind digest where "pathname (req_url rq) = Inr path"
    "route_of path = CacheRoute kind digest" "authorized rq en"
    "req_method rq = ''PUT''" "key = kind @ ''/'' @ digest"
proof (cases "pathname (req_url rq)")
  case (Inl e)
  with assms show ?thesis by (simp add: written_key_def)
next
  case (Inr path)
  with assms obtain kind digest where "route_of path = CacheRoute kind digest"
    by (cases "route_of path") (simp_all add: written_key_def)
  with Inr assms that show ?thesis by (simp add: written_key_def split: if_split_asm)
qed

lemma fetch_contents:
  assumes laws: "r2_laws R contents" and run: "fetch pathname R en rq b = (r, b')"
  shows "contents b' = contents b \<or>
    (\<exists>k v e. written_key pathname en rq = Some k \<and> req_body rq = Some v \<and> stored_as k v e
       \<and> contents b' = (contents b)(k \<mapsto> e))"
proof (cases "pathname (req_url rq)")
  case (Inl e)
  with run show ?thesis by (simp add: fetch_route)
next
  case (Inr path)
  show ?thesis
  proof (cases "route_of path")
    case (MavenRoute t)
    with Inr run have "handleMavenRepository R rq t b = (r, b')" by (simp add: fetch_route)
    with maven_contents [OF laws] show ?thesis by blast
  next
    case OtherRoute
    with Inr run show ?thesis by (simp add: fetch_route)
  next
    case (CacheRoute k h)
    show ?thesis
    proof (cases "authorized rq en")
      case False
      with Inr CacheRoute run show ?thesis by (simp add: fetch_route)
    next
      case True
      with Inr CacheRoute run have h: "handleBazelCache R rq [(2, h), (1, k)] b = (r, b')"
        by (simp add: fetch_route)
      show ?thesis
      proof (cases "req_method rq = ''PUT'' \<and> req_body rq \<noteq> None")
        case False
        with cache_read_contents [OF laws h] show ?thesis by auto
      next
        case put: True
        then obtain v where v: "req_body rq = Some v" by auto
        have key: "written_key pathname en rq = Some (cache_key [(2, h), (1, k)])"
          using put v Inr CacheRoute True by (simp add: written_key_def cache_key_def)
        show ?thesis
        proof (cases rule: cache_put_contents [OF laws h conjunct1 [OF put] v])
          case (1 e)
          then show ?thesis using key v by (intro disjI2 exI conjI)
        next
          case (2 x)
          then show ?thesis by simp
        qed
      qed
    qed
  qed
qed

section \<open>Write confinement\<close>

text \<open>
  C1.  Whatever the request, the bucket changes in at most one object, and only for a
  PUT with a body and the bearer token on \<open>/cache/ac/\<close> or \<open>/cache/cas/\<close> and a
  64-digit hexadecimal name; the object then holds exactly the request's bytes.
\<close>

theorem fetch_write_confined:
  assumes "r2_laws R contents" and "fetch pathname R en rq b = (r, b')"
    and "contents b' key \<noteq> contents b key"
  shows "\<exists>path kind digest v e.
    pathname (req_url rq) = Inr path \<and> path = ''/cache/'' @ kind @ ''/'' @ digest
    \<and> (kind = ''ac'' \<or> kind = ''cas'') \<and> cache_digest digest \<and> key = kind @ ''/'' @ digest
    \<and> authorized rq en \<and> req_method rq = ''PUT'' \<and> req_body rq = Some v
    \<and> contents b' = (contents b)(key \<mapsto> e) \<and> stored_as key v e"
proof -
  from fetch_contents [OF assms(1,2)] assms(3) obtain k v e where
    w: "written_key pathname en rq = Some k" and v: "req_body rq = Some v" and e: "stored_as k v e"
    and c: "contents b' = (contents b)(k \<mapsto> e)"
    by auto
  with assms(3) have k: "k = key" by (auto split: if_splits)
  from w obtain path kind digest where p: "pathname (req_url rq) = Inr path"
    and rt: "route_of path = CacheRoute kind digest" and a: "authorized rq en"
    and m: "req_method rq = ''PUT''" and kk: "k = kind @ ''/'' @ digest"
    by (rule written_key_cases)
  from route_of_cache [OF rt] have "path = ''/cache/'' @ kind @ ''/'' @ digest
      \<and> (kind = ''ac'' \<or> kind = ''cas'') \<and> cache_digest digest" .
  with p a m v c e kk k show ?thesis by blast
qed

section \<open>Concrete inputs for the witnesses\<close>

definition ex_env :: env where
  "ex_env = \<lparr>bazel_cache_token = ''secret''\<rparr>"

definition ex_digest :: string where
  "ex_digest = replicate 64 CHR ''a''"

definition ex_request :: "string \<Rightarrow> string \<Rightarrow> bytes option \<Rightarrow> request" where
  "ex_request m path bd = \<lparr>req_method = m, req_url = path,
     req_headers = [(''authorization'', ''Bearer secret'')], req_body = bd\<rparr>"

definition ex_anonymous :: "string \<Rightarrow> string \<Rightarrow> request" where
  "ex_anonymous m path = \<lparr>req_method = m, req_url = path, req_headers = [], req_body = None\<rparr>"

lemma lower_authorization [simp]: "lower ''authorization'' = ''authorization''"
  by (simp add: lower_def lower_char_def code_in_def)

lemma ex_authorized [simp]: "authorized (ex_request m path bd) ex_env"
  by (simp add: authorized_def ex_request_def ex_env_def bearer_def headers_get_def)

lemma ex_anonymous_unauthorized [simp]: "\<not> authorized (ex_anonymous m path) ex_env"
  by (simp add: authorized_def ex_anonymous_def)

lemma ex_request_simps [simp]:
  "req_method (ex_request m path bd) = m" "req_url (ex_request m path bd) = path"
  "req_body (ex_request m path bd) = bd"
  "req_method (ex_anonymous m path) = m" "req_url (ex_anonymous m path) = path"
  "req_body (ex_anonymous m path) = None"
  by (simp_all add: ex_request_def ex_anonymous_def)

lemma ex_digest_ok [simp]: "cache_digest ex_digest"
  by (simp add: cache_digest_def ex_digest_def list_all_iff digest_char_def code_in_def)

definition ex_cas_path :: string where
  "ex_cas_path = ''/cache/cas/'' @ ex_digest"

definition ex_cas_key :: string where
  "ex_cas_key = ''cas/'' @ ex_digest"

lemma ex_cas_route [simp]: "route_of ex_cas_path = CacheRoute ''cas'' ex_digest"
  by (simp add: route_of_def ex_cas_path_def)

lemma ex_cas_key_eq [simp]: "cache_key [(2, ex_digest), (1, ''cas'')] = ex_cas_key"
  "cache_key [(2, ex_digest), (Suc 0, ''cas'')] = ex_cas_key"
  by (simp_all add: cache_key_def ex_cas_key_def)

lemma mem_put_run [simp]:
  "fetch Inr mem_r2 ex_env (ex_request ''PUT'' ex_cas_path (Some v)) b =
     (Inr \<lparr>resp_status = 200, resp_headers = [], resp_body = NullBody\<rparr>,
      (ex_cas_key, mem_object ex_cas_key v octet_stream_options) # b)"
  by (simp add: fetch_route handleBazelCache_def Let_def mem_r2_def new_response_def
      null_body_status_def)

theorem fetch_write_confined_witness:
  "\<exists>path kind digest v e. (Inr ex_cas_path :: js_error + string) = Inr path
    \<and> path = ''/cache/'' @ kind @ ''/'' @ digest
    \<and> (kind = ''ac'' \<or> kind = ''cas'') \<and> cache_digest digest \<and> ex_cas_key = kind @ ''/'' @ digest
    \<and> authorized (ex_request ''PUT'' ex_cas_path (Some [7])) ex_env
    \<and> ''PUT'' = ''PUT'' \<and> Some [7] = Some v
    \<and> mem_contents [(ex_cas_key, mem_object ex_cas_key [7] octet_stream_options)]
        = (mem_contents [])(ex_cas_key \<mapsto> e)
    \<and> stored_as ex_cas_key v e"
proof -
  have ne: "mem_contents [(ex_cas_key, mem_object ex_cas_key [7] octet_stream_options)] ex_cas_key
      \<noteq> mem_contents [] ex_cas_key"
    by (simp add: mem_contents_put) (simp add: mem_contents_def)
  show ?thesis
    using fetch_write_confined [OF mem_r2_laws mem_put_run ne] by simp
qed

section \<open>Runs of requests\<close>

text \<open>The keys the cache routes address.\<close>

definition cache_object_key :: "string \<Rightarrow> bool" where
  "cache_object_key key \<longleftrightarrow> starts_with ''ac/'' key \<and> cache_digest (drop 3 key)
     \<or> starts_with ''cas/'' key \<and> cache_digest (drop 4 key)"

lemma written_key_cache_object: "written_key pathname en rq = Some k \<Longrightarrow> cache_object_key k"
  by (elim written_key_cases) (auto simp: cache_object_key_def dest!: route_of_cache)

lemma maven_key_not_cache: "\<not> cache_object_key (''maven/'' @ t)"
  by (simp add: cache_object_key_def)

lemma fetch_keeps_key:
  assumes "r2_laws R contents" and "written_key pathname en rq \<noteq> Some key"
  shows "contents (snd (fetch pathname R en rq b)) key = contents b key"
proof -
  obtain r b' where run: "fetch pathname R en rq b = (r, b')" by (rule prod.exhaust)
  from fetch_contents [OF assms(1) run] assms(2) run show ?thesis by auto
qed

lemma serve_keeps_key:
  assumes "r2_laws R contents"
    and "\<And>rq. rq \<in> set rqs \<Longrightarrow> written_key pathname en rq \<noteq> Some key"
  shows "contents (serve pathname R en rqs b) key = contents b key"
  using assms(2)
proof (induction rqs arbitrary: b)
  case Nil
  then show ?case by simp
next
  case (Cons rq rqs)
  then have "contents (serve pathname R en rqs (snd (fetch pathname R en rq b))) key
      = contents (snd (fetch pathname R en rq b)) key"
    by (intro Cons.IH) simp
  with Cons.prems fetch_keeps_key [OF assms(1)] show ?case by simp
qed

text \<open>
  C5.  No sequence of requests, authenticated or not, creates, replaces or removes an
  object outside \<open>ac/<digest>\<close> and \<open>cas/<digest>\<close>; in particular the Maven
  repository under \<open>maven/\<close> is read-only through the worker.  A run is a sequence of
  requests; the seven-day expiry of \<open>tools/remote-cache/r2-lifecycle.json\<close>, which the
  provider carries out, is not part of it.
\<close>

theorem serve_keeps_foreign_objects:
  assumes "r2_laws R contents" and "\<not> cache_object_key key"
  shows "contents (serve pathname R en rqs b) key = contents b key"
proof (rule serve_keeps_key [OF assms(1)])
  fix rq
  show "written_key pathname en rq \<noteq> Some key"
    using assms(2) written_key_cache_object by blast
qed

theorem serve_keeps_foreign_objects_witness:
  "mem_contents (serve Inr mem_r2 ex_env [ex_request ''PUT'' ex_cas_path (Some [7])]
      [(''maven/a'', mem_object ''maven/a'' [1] empty_put_options)]) (''maven/'' @ ''a'')
   = Some (mem_object ''maven/a'' [1] empty_put_options)"
  using serve_keeps_foreign_objects [OF mem_r2_laws maven_key_not_cache,
      of Inr ex_env "[ex_request ''PUT'' ex_cas_path (Some [7])]"
        "[(''maven/a'', mem_object ''maven/a'' [1] empty_put_options)]" "''a''"]
  by (simp add: mem_contents_put)

text \<open>
  C6.  A sequence of requests none of which carries the bearer token leaves the whole
  bucket as it was.
\<close>

theorem serve_unauthorized_inert:
  assumes "r2_laws R contents" and "\<forall>rq \<in> set rqs. \<not> authorized rq en"
  shows "contents (serve pathname R en rqs b) = contents b"
proof
  fix key
  show "contents (serve pathname R en rqs b) key = contents b key"
  proof (rule serve_keeps_key [OF assms(1)])
    fix rq
    assume "rq \<in> set rqs"
    with assms(2) have "\<not> authorized rq en" by blast
    then show "written_key pathname en rq \<noteq> Some key" by (auto elim: written_key_cases)
  qed
qed

theorem serve_unauthorized_inert_witness:
  "mem_contents (serve Inr mem_r2 ex_env
      [ex_anonymous ''PUT'' ex_cas_path, ex_anonymous ''GET'' ''/maven/a''] []) = mem_contents []"
  by (rule serve_unauthorized_inert [OF mem_r2_laws]) simp

section \<open>The answer as a function of the stored objects\<close>

text \<open>
  The specification of the worker's answers: what each route returns, given only the
  map of stored objects.
\<close>

definition object_answer ::
  "(r2_object \<Rightarrow> js_error + headers) \<Rightarrow> bool \<Rightarrow> r2_object_body option \<Rightarrow> js_error + response" where
  "object_answer hs with_body ob =
     (case ob of
        None \<Rightarrow> text_response 404 ''Not Found''
      | Some e \<Rightarrow> and_then (hs (r2_object.truncate e))
          (new_response (if with_body then StreamBody (r2_body e) else NullBody) 200))"

definition answer ::
  "'b r2_bucket \<Rightarrow> (string \<Rightarrow> js_error + string) \<Rightarrow> env \<Rightarrow> request
     \<Rightarrow> (string \<Rightarrow> r2_object_body option) \<Rightarrow> js_error + response" where
  "answer R pathname en rq c =
     and_then (pathname (req_url rq)) (\<lambda>path.
       case route_of path of
         MavenRoute t \<Rightarrow>
           if req_method rq \<noteq> ''GET'' \<and> req_method rq \<noteq> ''HEAD''
           then text_response 405 ''Method Not Allowed''
           else if contains ''..'' t then text_response 400 ''Invalid Maven path''
           else object_answer (mavenObjectHeaders R) (req_method rq = ''GET'') (c (''maven/'' @ t))
       | CacheRoute k h \<Rightarrow>
           if \<not> authorized rq en then text_response 401 ''Unauthorized''
           else if req_method rq = ''PUT'' then
             (if req_body rq = None then text_response 400 ''Missing request body''
              else new_response NullBody 200 [])
           else if req_method rq = ''GET'' \<or> req_method rq = ''HEAD'' then
             object_answer cacheObjectHeaders (req_method rq = ''GET'') (c (k @ ''/'' @ h))
           else text_response 405 ''Method Not Allowed''
       | OtherRoute \<Rightarrow>
           if \<not> authorized rq en then text_response 401 ''Unauthorized''
           else text_response 404 ''Not Found'')"

lemma get_answer:
  assumes "r2_laws R contents" and "bucket_get R key b = (Inr ob, b')"
  shows "ob = contents b key"
  using r2_get_law [OF assms] by simp

lemma head_answer:
  assumes "r2_laws R contents" and "bucket_head R key b = (Inr ob, b')"
  shows "ob = map_option r2_object.truncate (contents b key)"
  using r2_head_law [OF assms] by simp

lemma maven_answer:
  assumes laws: "r2_laws R contents" and run: "handleMavenRepository R rq t b = (Inr resp, b')"
    and m: "req_method rq = ''GET'' \<or> req_method rq = ''HEAD''" and d: "\<not> contains ''..'' t"
  shows "object_answer (mavenObjectHeaders R) (req_method rq = ''GET'') (contents b (''maven/'' @ t))
    = Inr resp"
proof (cases "req_method rq = ''HEAD''")
  case True
  obtain ob where "bucket_head R (''maven/'' @ t) b = (Inr ob, b')"
    and out: "(case ob of None \<Rightarrow> text_response 404 ''Not Found''
      | Some e \<Rightarrow> and_then (mavenObjectHeaders R e) (new_response NullBody 200)) = Inr resp"
    using run d True
    by (simp add: handleMavenRepository_def Let_def split: prod.split_asm sum.split_asm option.split_asm)
  from head_answer [OF laws this(1)] out True show ?thesis
    by (cases "contents b (''maven/'' @ t)") (simp_all add: object_answer_def)
next
  case False
  with m have g: "req_method rq = ''GET''" by simp
  obtain ob where "bucket_get R (''maven/'' @ t) b = (Inr ob, b')"
    and out: "(case ob of None \<Rightarrow> text_response 404 ''Not Found''
      | Some e \<Rightarrow> and_then (mavenObjectHeaders R (r2_object.truncate e))
          (new_response (StreamBody (r2_body e)) 200)) = Inr resp"
    using run d g
    by (simp add: handleMavenRepository_def Let_def split: prod.split_asm sum.split_asm option.split_asm)
  from get_answer [OF laws this(1)] out g show ?thesis
    by (cases "contents b (''maven/'' @ t)") (simp_all add: object_answer_def)
qed

lemma cache_read_answer:
  assumes laws: "r2_laws R contents" and run: "handleBazelCache R rq m b = (Inr resp, b')"
    and m: "req_method rq = ''GET'' \<or> req_method rq = ''HEAD''"
  shows "object_answer cacheObjectHeaders (req_method rq = ''GET'') (contents b (cache_key m))
    = Inr resp"
proof (cases "req_method rq = ''HEAD''")
  case True
  obtain ob where "bucket_head R (cache_key m) b = (Inr ob, b')"
    and out: "(case ob of None \<Rightarrow> text_response 404 ''Not Found''
      | Some e \<Rightarrow> and_then (cacheObjectHeaders e) (new_response NullBody 200)) = Inr resp"
    using run True
    by (simp add: handleBazelCache_def Let_def split: prod.split_asm sum.split_asm option.split_asm)
  from head_answer [OF laws this(1)] out True show ?thesis
    by (cases "contents b (cache_key m)") (simp_all add: object_answer_def)
next
  case False
  with m have g: "req_method rq = ''GET''" by simp
  obtain ob where "bucket_get R (cache_key m) b = (Inr ob, b')"
    and out: "(case ob of None \<Rightarrow> text_response 404 ''Not Found''
      | Some e \<Rightarrow> and_then (cacheObjectHeaders (r2_object.truncate e))
          (new_response (StreamBody (r2_body e)) 200)) = Inr resp"
    using run g
    by (simp add: handleBazelCache_def Let_def split: prod.split_asm sum.split_asm option.split_asm)
  from get_answer [OF laws this(1)] out g show ?thesis
    by (cases "contents b (cache_key m)") (simp_all add: object_answer_def)
qed

lemma cache_put_answer:
  assumes "handleBazelCache R rq m b = (Inr resp, b')" and "req_method rq = ''PUT''"
  shows "(if req_body rq = None then text_response 400 ''Missing request body''
    else new_response NullBody 200 []) = Inr resp"
  using assms
  by (simp add: handleBazelCache_def Let_def split: prod.split_asm sum.split_asm option.split_asm)

lemma fetch_answer:
  assumes laws: "r2_laws R contents" and run: "fetch pathname R en rq b = (Inr resp, b')"
  shows "answer R pathname en rq (contents b) = Inr resp"
proof -
  from run obtain path where p: "pathname (req_url rq) = Inr path"
    by (cases "pathname (req_url rq)") (simp_all add: fetch_route)
  show ?thesis
  proof (cases "route_of path")
    case (MavenRoute t)
    with run p have h: "handleMavenRepository R rq t b = (Inr resp, b')" by (simp add: fetch_route)
    consider (m) "req_method rq \<noteq> ''GET'' \<and> req_method rq \<noteq> ''HEAD''"
      | (d) "\<not> (req_method rq \<noteq> ''GET'' \<and> req_method rq \<noteq> ''HEAD'')" "contains ''..'' t"
      | (r) "req_method rq = ''GET'' \<or> req_method rq = ''HEAD''" "\<not> contains ''..'' t"
      by blast
    then show ?thesis
    proof cases
      case m
      with h p MavenRoute show ?thesis by (simp add: handleMavenRepository_def answer_def)
    next
      case d
      with h p MavenRoute show ?thesis by (auto simp: handleMavenRepository_def answer_def)
    next
      case r
      from maven_answer [OF laws h r] r p MavenRoute show ?thesis by (auto simp: answer_def)
    qed
  next
    case OtherRoute
    with run p show ?thesis by (simp add: fetch_route answer_def split: if_split_asm)
  next
    case (CacheRoute k h)
    show ?thesis
    proof (cases "authorized rq en")
      case False
      with run p CacheRoute show ?thesis by (simp add: fetch_route answer_def)
    next
      case True
      with run p CacheRoute have hb: "handleBazelCache R rq [(2, h), (1, k)] b = (Inr resp, b')"
        by (simp add: fetch_route)
      have key: "cache_key [(2, h), (1, k)] = k @ ''/'' @ h"
        unfolding cache_key_def by (simp only: capture_simps)
      consider (put) "req_method rq = ''PUT''"
        | (read) "req_method rq \<noteq> ''PUT''" "req_method rq = ''GET'' \<or> req_method rq = ''HEAD''"
        | (other) "req_method rq \<noteq> ''PUT''" "\<not> (req_method rq = ''GET'' \<or> req_method rq = ''HEAD'')"
        by blast
      then show ?thesis
      proof cases
        case put
        from cache_put_answer [OF hb put] put True p CacheRoute show ?thesis
          by (simp add: answer_def)
      next
        case read
        from cache_read_answer [OF laws hb read(2)] read True p CacheRoute show ?thesis
          unfolding key by (simp add: answer_def)
      next
        case other
        with hb True p CacheRoute show ?thesis by (simp add: handleBazelCache_def Let_def answer_def)
      qed
    qed
  qed
qed

text \<open>
  C3.  Refinement: whenever the worker answers, its answer is the specification's,
  computed from the objects stored when the request arrived.
\<close>

theorem fetch_refines_answer:
  assumes "r2_laws R contents" and "fetch pathname R en rq b = (Inr resp, b')"
  shows "answer R pathname en rq (contents b) = Inr resp"
  using assms by (rule fetch_answer)

theorem fetch_refines_answer_witness:
  "answer mem_r2 Inr ex_env (ex_request ''PUT'' ex_cas_path (Some [7])) (mem_contents [])
    = Inr \<lparr>resp_status = 200, resp_headers = [], resp_body = NullBody\<rparr>"
  by (rule fetch_refines_answer [OF mem_r2_laws mem_put_run])

section \<open>Statuses\<close>

definition answer_status ::
  "(string \<Rightarrow> js_error + string) \<Rightarrow> env \<Rightarrow> request \<Rightarrow> (string \<Rightarrow> bool) \<Rightarrow> nat" where
  "answer_status pathname en rq stored =
     (case pathname (req_url rq) of
        Inl e \<Rightarrow> 0
      | Inr path \<Rightarrow>
          (case route_of path of
             MavenRoute t \<Rightarrow>
               if req_method rq \<noteq> ''GET'' \<and> req_method rq \<noteq> ''HEAD'' then 405
               else if contains ''..'' t then 400
               else if stored (''maven/'' @ t) then 200 else 404
           | CacheRoute k h \<Rightarrow>
               if \<not> authorized rq en then 401
               else if req_method rq = ''PUT'' then (if req_body rq = None then 400 else 200)
               else if req_method rq = ''GET'' \<or> req_method rq = ''HEAD'' then
                 (if stored (k @ ''/'' @ h) then 200 else 404)
               else 405
           | OtherRoute \<Rightarrow> if \<not> authorized rq en then 401 else 404))"

lemma object_answer_status:
  "object_answer hs wb ob = Inr resp \<Longrightarrow> resp_status resp = (if ob = None then 404 else 200)"
  by (auto simp: object_answer_def and_then_Inr dest!: new_response_Inr text_response_Inr
      split: option.splits)

lemma fetch_status_lemma:
  assumes "r2_laws R contents" and "fetch pathname R en rq b = (Inr resp, b')"
  shows "resp_status resp = answer_status pathname en rq (\<lambda>key. contents b key \<noteq> None)"
proof -
  from fetch_answer [OF assms] obtain path where p: "pathname (req_url rq) = Inr path"
    by (auto simp: answer_def and_then_Inr)
  have t: "text_response st x = Inr resp \<Longrightarrow> resp_status resp = st"
    and n: "new_response NullBody 200 [] = Inr resp \<Longrightarrow> resp_status resp = 200" for st x
    using text_response_Inr new_response_Inr by blast+
  show ?thesis
  proof (cases "route_of path")
    case (MavenRoute t)
    with fetch_answer [OF assms] p show ?thesis
      by (simp add: answer_def answer_status_def object_answer_status t split: if_split_asm)
  next
    case (CacheRoute k h)
    with fetch_answer [OF assms] p show ?thesis
      by (auto simp: answer_def answer_status_def object_answer_status t n split: if_split_asm)
  next
    case OtherRoute
    with fetch_answer [OF assms] p show ?thesis
      by (simp add: answer_def answer_status_def t split: if_split_asm)
  qed
qed

text \<open>
  C7.  The status of every answer, as a table over the route, the method, the token, the
  presence of a body and the presence of the object.
\<close>

theorem fetch_status_table:
  assumes "r2_laws R contents" and "fetch pathname R en rq b = (Inr resp, b')"
  shows "resp_status resp = answer_status pathname en rq (\<lambda>key. contents b key \<noteq> None)"
  using assms by (rule fetch_status_lemma)

theorem fetch_status_table_witness:
  "200 = answer_status Inr ex_env (ex_request ''PUT'' ex_cas_path (Some [7]))
     (\<lambda>key. mem_contents [] key \<noteq> None)"
  using fetch_status_table [OF mem_r2_laws mem_put_run] by simp

lemma object_answer_200:
  assumes "object_answer hs wb ob = Inr resp" and "resp_status resp = 200"
  obtains e h where "ob = Some e" "hs (r2_object.truncate e) = Inr h" "resp_headers resp = h"
    "resp_body resp = (if wb then StreamBody (r2_body e) else NullBody)"
proof (cases ob)
  case None
  with assms show ?thesis by (auto simp: object_answer_def dest!: text_response_Inr)
next
  case (Some e)
  with assms(1) obtain h where h: "hs (r2_object.truncate e) = Inr h"
    and r: "new_response (if wb then StreamBody (r2_body e) else NullBody) 200 h = Inr resp"
    by (auto simp: object_answer_def and_then_Inr)
  from that [OF Some h] new_response_Inr [OF r] new_response_headers [OF r] show ?thesis
    by simp
qed

lemma answer_200_cases:
  assumes "answer R pathname en rq c = Inr resp" and "resp_status resp = 200"
  obtains (maven) t where "pathname (req_url rq) = Inr (''/maven/'' @ t)" "\<not> contains ''..'' t"
      "route_of (''/maven/'' @ t) = MavenRoute t"
      "req_method rq = ''GET'' \<or> req_method rq = ''HEAD''"
      "object_answer (mavenObjectHeaders R) (req_method rq = ''GET'') (c (''maven/'' @ t)) = Inr resp"
    | (put) path k h where "pathname (req_url rq) = Inr path" "route_of path = CacheRoute k h"
      "authorized rq en" "req_method rq = ''PUT''" "req_body rq \<noteq> None"
    | (read) path k h where "pathname (req_url rq) = Inr path" "route_of path = CacheRoute k h"
      "authorized rq en" "req_method rq = ''GET'' \<or> req_method rq = ''HEAD''"
      "object_answer cacheObjectHeaders (req_method rq = ''GET'') (c (k @ ''/'' @ h)) = Inr resp"
proof -
  have no: "text_response st x \<noteq> Inr resp" if "st \<noteq> 200" for st x
    using assms(2) text_response_Inr [of st x resp] that by auto
  from assms(1) obtain path where p: "pathname (req_url rq) = Inr path"
    by (auto simp: answer_def and_then_Inr)
  show thesis
  proof (cases "route_of path")
    case (MavenRoute t)
    then have "path = ''/maven/'' @ t" by (simp add: route_of_maven)
    with MavenRoute assms(1) p no show ?thesis
      by (intro maven) (simp_all add: answer_def split: if_split_asm)
  next
    case (CacheRoute k h)
    then show ?thesis
      using assms(1) p no put [OF p CacheRoute] read [OF p CacheRoute]
      by (auto simp: answer_def split: if_split_asm)
  next
    case OtherRoute
    with assms(1) p no show ?thesis by (simp add: answer_def split: if_split_asm)
  qed
qed

section \<open>What an unauthenticated client reads\<close>

text \<open>
  C2.  A successful answer to a request without the bearer token is a read of an object
  stored under \<open>maven/\<close> at the path of the URL, which holds no two consecutive dots:
  no Bazel cache object, whatever its digest, is readable without the token.
\<close>

theorem public_reads_confined:
  assumes "r2_laws R contents" and "fetch pathname R en rq b = (Inr resp, b')"
    and "resp_status resp = 200" and "\<not> authorized rq en"
  shows "\<exists>t e. pathname (req_url rq) = Inr (''/maven/'' @ t) \<and> \<not> contains ''..'' t
    \<and> contents b (''maven/'' @ t) = Some e \<and> \<not> cache_object_key (''maven/'' @ t)
    \<and> (req_method rq = ''GET'' \<and> resp_body resp = StreamBody (r2_body e)
       \<or> req_method rq = ''HEAD'' \<and> resp_body resp = NullBody)"
proof (cases rule: answer_200_cases [OF fetch_answer [OF assms(1,2)] assms(3), case_names maven put read])
  case (maven t)
  from object_answer_200 [OF maven(5) assms(3)] obtain e where
    "contents b (''maven/'' @ t) = Some e"
    "resp_body resp = (if req_method rq = ''GET'' then StreamBody (r2_body e) else NullBody)"
    by metis
  with maven show ?thesis
    by (intro exI [of _ t] exI [of _ e]) (auto simp: cache_object_key_def)
next
  case put
  with assms(4) show ?thesis by simp
next
  case read
  with assms(4) show ?thesis by simp
qed

definition ex_maven_bucket :: mem_bucket where
  "ex_maven_bucket = [(''maven/a'', mem_object ''maven/a'' [1] empty_put_options)]"

definition ex_maven_response :: response where
  "ex_maven_response = \<lparr>resp_status = 200,
     resp_headers = [(''content-length'', ''1''), (''etag'', [CHR 0x22, CHR ''e'', CHR ''1'', CHR 0x22]),
       (''cache-control'', ''public, max-age=300''), (''content-type'', ''text/plain'')],
     resp_body = StreamBody [1]\<rparr>"

lemma ex_maven_run:
  "fetch Inr mem_r2 ex_env (ex_anonymous ''GET'' ''/maven/a'') ex_maven_bucket
    = (Inr ex_maven_response, ex_maven_bucket)"
  by code_simp

theorem public_reads_confined_witness:
  "\<exists>t e. ''/maven/a'' = ''/maven/'' @ t \<and> \<not> contains ''..'' t
    \<and> mem_contents ex_maven_bucket (''maven/'' @ t) = Some e
    \<and> \<not> cache_object_key (''maven/'' @ t) \<and> StreamBody [1] = StreamBody (r2_body e)"
  using public_reads_confined [OF mem_r2_laws ex_maven_run]
  by (simp add: ex_maven_response_def)

section \<open>GET and HEAD agree\<close>

text \<open>
  C8.  A HEAD that follows a GET of the same URL with the same request headers gets the same
  status and, when the object exists, exactly the same response headers.
\<close>

theorem head_agrees_with_get:
  assumes laws: "r2_laws R contents"
    and get: "fetch pathname R en rq b = (Inr g, b1)" and m: "req_method rq = ''GET''"
    and head: "fetch pathname R en (rq\<lparr>req_method := ''HEAD''\<rparr>) b1 = (Inr h, b2)"
  shows "resp_status h = resp_status g
    \<and> (resp_status g = 200 \<longrightarrow> resp_headers h = resp_headers g \<and> resp_body h = NullBody)"
proof (intro conjI impI)
  have "written_key pathname en rq = None"
    using m by (auto simp: written_key_def split: sum.split route.split)
  with fetch_contents [OF laws get] have c: "contents b1 = contents b" by simp
  have auth: "authorized (rq\<lparr>req_method := ''HEAD''\<rparr>) en = authorized rq en"
    by (simp add: authorized_def)
  note ag = fetch_answer [OF laws get] and ah = fetch_answer [OF laws head]
  show st: "resp_status h = resp_status g"
    using fetch_status_lemma [OF laws get] fetch_status_lemma [OF laws head] m c auth
    by (simp add: answer_status_def split: sum.split route.split)
  assume g200: "resp_status g = 200"
  have "\<exists>hs ob. object_answer hs True ob = Inr g \<and> object_answer hs False ob = Inr h"
  proof (cases rule: answer_200_cases [OF ag g200, case_names maven put read])
    case (maven t)
    with ah c m have
      "object_answer (mavenObjectHeaders R) False (contents b (''maven/'' @ t)) = Inr h"
      by (simp add: answer_def)
    with maven m show ?thesis by auto
  next
    case put
    with m show ?thesis by simp
  next
    case (read path k d)
    with ah c auth m have
      "object_answer cacheObjectHeaders False (contents b (k @ ''/'' @ d)) = Inr h"
      by (simp add: answer_def)
    with read m show ?thesis by auto
  qed
  then obtain hs ob where "object_answer hs True ob = Inr g" "object_answer hs False ob = Inr h"
    by blast
  from object_answer_200 [OF this(1) g200] object_answer_200 [OF this(2) st [unfolded g200]]
  show "resp_headers h = resp_headers g" "resp_body h = NullBody"
    by (metis Inr_inject option.inject)+
qed

lemma ex_maven_head_run:
  "fetch Inr mem_r2 ex_env ((ex_anonymous ''GET'' ''/maven/a'')\<lparr>req_method := ''HEAD''\<rparr>) ex_maven_bucket
    = (Inr (ex_maven_response\<lparr>resp_body := NullBody\<rparr>), ex_maven_bucket)"
  by code_simp

theorem head_agrees_with_get_witness:
  "resp_status (ex_maven_response\<lparr>resp_body := NullBody\<rparr>) = 200
    \<and> resp_headers (ex_maven_response\<lparr>resp_body := NullBody\<rparr>) = resp_headers ex_maven_response
    \<and> resp_body (ex_maven_response\<lparr>resp_body := NullBody\<rparr>) = NullBody"
proof -
  have "resp_status ex_maven_response = 200" by (simp add: ex_maven_response_def)
  moreover have "req_method (ex_anonymous ''GET'' ''/maven/a'') = ''GET''"
    by (simp add: ex_anonymous_def)
  ultimately show ?thesis
    using head_agrees_with_get [OF mem_r2_laws ex_maven_run _ ex_maven_head_run] by simp
qed

section \<open>Response headers\<close>

lemma show_nat_normal [simp]: "normalize_value (show_nat n) = show_nat n"
proof -
  have ns: "\<not> http_space c" if "c \<in> set (show_nat n)" for c
    using show_nat_digits [OF that] by (auto simp: http_space_def code_in_def)
  have dw: "dropWhile http_space xs = xs" if "\<And>c. c \<in> set xs \<Longrightarrow> \<not> http_space c" for xs
    using that by (cases xs) auto
  have "dropWhile http_space (show_nat n) = show_nat n"
    "dropWhile http_space (rev (show_nat n)) = rev (show_nat n)"
    by (rule dw, simp add: ns)+
  then show ?thesis by (simp add: normalize_value_def)
qed

lemma headers_lower [simp]:
  "lower ''content-length'' = ''content-length''" "lower ''etag'' = ''etag''"
  "lower ''cache-control'' = ''cache-control''"
  by (simp_all add: lower_def lower_char_def code_in_def)

lemma headers_normal [simp]:
  "normalize_value ''application/octet-stream'' = ''application/octet-stream''"
  "normalize_value ''private, max-age=31536000, immutable'' = ''private, max-age=31536000, immutable''"
  "normalize_value ''public, max-age=300'' = ''public, max-age=300''"
  "normalize_value ''text/plain'' = ''text/plain''"
  by (simp_all add: normalize_value_def http_space_def)

lemma headers_append_Inr:
  "headers_append h n v = Inr h' \<Longrightarrow> h' = h @ [(lower n, normalize_value v)]"
  by (simp add: headers_append_def Let_def split: if_split_asm)

lemma cacheObjectHeaders_Inr:
  assumes "cacheObjectHeaders ob = Inr h"
  shows "h = [(''content-type'', ''application/octet-stream''),
    (''content-length'', show_nat (r2_size ob)), (''etag'', normalize_value (r2_httpEtag ob)),
    (''cache-control'', ''private, max-age=31536000, immutable'')]"
  using assms
  by (auto simp: cacheObjectHeaders_def new_headers_def split: sum.split_asm
      dest!: headers_append_Inr)

lemma cache_response_headers_aux:
  assumes "r2_laws R contents" and "fetch pathname R en rq b = (Inr resp, b')"
    and "resp_status resp = 200" and "pathname (req_url rq) = Inr path"
    and "route_of path = CacheRoute kind digest" and "req_method rq \<noteq> ''PUT''"
  shows "\<exists>e. contents b (kind @ ''/'' @ digest) = Some e
    \<and> resp_body resp = (if req_method rq = ''GET'' then StreamBody (r2_body e) else NullBody)
    \<and> resp_headers resp = [(''content-type'', ''application/octet-stream''),
        (''content-length'', show_nat (length (r2_body e))),
        (''etag'', normalize_value (r2_httpEtag e)),
        (''cache-control'', ''private, max-age=31536000, immutable'')]"
proof (cases rule: answer_200_cases [OF fetch_answer [OF assms(1,2)] assms(3), case_names maven put read])
  case (maven t)
  with assms(4,5) show ?thesis by simp
next
  case put
  with assms(6) show ?thesis by simp
next
  case (read p k h)
  with assms(4,5) have kh: "k = kind" "h = digest" by simp_all
  from object_answer_200 [OF read(5) assms(3)] obtain e hs where
    e: "contents b (kind @ ''/'' @ digest) = Some e" "cacheObjectHeaders (r2_object.truncate e) = Inr hs"
      "resp_headers resp = hs"
      "resp_body resp = (if req_method rq = ''GET'' then StreamBody (r2_body e) else NullBody)"
    unfolding kh by metis
  have "r2_size (r2_object.truncate e) = length (r2_body e)"
    using r2_well_stored [OF assms(1), OF e(1)]
    by (simp add: well_stored_def stored_as_def r2_object.defs)
  with e cacheObjectHeaders_Inr [OF e(2)] show ?thesis by (simp add: r2_object.defs)
qed

lemma cache_put_200:
  assumes "r2_laws R contents" and "fetch pathname R en rq b = (Inr resp, b')"
    and "resp_status resp = 200" and "pathname (req_url rq) = Inr path"
    and "route_of path = CacheRoute kind digest" and "req_method rq = ''PUT''"
  shows "resp_headers resp = [] \<and> resp_body resp = NullBody"
proof (cases rule: answer_200_cases [OF fetch_answer [OF assms(1,2)] assms(3), case_names maven put read])
  case (maven t)
  with assms(4,5) show ?thesis by simp
next
  case (put p k h)
  with fetch_answer [OF assms(1,2)] have "new_response NullBody 200 [] = Inr resp"
    by (simp add: answer_def)
  then show ?thesis using new_response_Inr new_response_headers by blast
next
  case read
  with assms(6) show ?thesis by simp
qed

text \<open>
  C9.  The headers and body of every 200 of a cache route: a PUT is answered with neither, and every
  other method gets the exact byte length of the stored object, its entity tag, the octet-stream
  type and the private, immutable one-year lifetime, with the stored bytes for a GET and no body
  otherwise.
\<close>

theorem cache_response_headers:
  assumes "r2_laws R contents" and "fetch pathname R en rq b = (Inr resp, b')"
    and "resp_status resp = 200" and "pathname (req_url rq) = Inr path"
    and "route_of path = CacheRoute kind digest"
  shows "if req_method rq = ''PUT'' then resp_headers resp = [] \<and> resp_body resp = NullBody
    else \<exists>e. contents b (kind @ ''/'' @ digest) = Some e
      \<and> resp_body resp = (if req_method rq = ''GET'' then StreamBody (r2_body e) else NullBody)
      \<and> resp_headers resp = [(''content-type'', ''application/octet-stream''),
          (''content-length'', show_nat (length (r2_body e))),
          (''etag'', normalize_value (r2_httpEtag e)),
          (''cache-control'', ''private, max-age=31536000, immutable'')]"
  using cache_put_200 [OF assms] cache_response_headers_aux [OF assms] by simp

lemma mavenObjectHeaders_Inr:
  assumes "r2_laws R contents" and "mavenObjectHeaders R ob = Inr h"
  shows "headers_get h ''content-length'' = Some (show_nat (r2_size ob))
    \<and> headers_get h ''cache-control'' = Some ''public, max-age=300''
    \<and> headers_get h ''etag'' = Some (normalize_value (r2_httpEtag ob))
    \<and> \<not> falsy_header h ''content-type''"
proof -
  from assms(2) obtain h0 h1 h2 h3 where
    "write_http_metadata R ob [] = Inr h0"
    and h1: "headers_set h0 ''content-length'' (show_nat (r2_size ob)) = Inr h1"
    and h2: "headers_set h1 ''etag'' (r2_httpEtag ob) = Inr h2"
    and h3: "headers_set h2 ''cache-control'' ''public, max-age=300'' = Inr h3"
    and h: "(if falsy_header h3 ''content-type'' then headers_set h3 ''content-type'' ''text/plain''
       else Inr h3) = Inr h"
    by (auto simp: mavenObjectHeaders_def and_then_Inr)
  note gets = headers_get_set [OF h1] headers_get_set [OF h2] headers_get_set [OF h3]
  show ?thesis
  proof (cases "falsy_header h3 ''content-type''")
    case True
    with h have h4: "headers_set h3 ''content-type'' ''text/plain'' = Inr h" by simp
    show ?thesis by (simp add: headers_get_set [OF h4] gets falsy_header_def)
  next
    case False
    with h have "h = h3" by simp
    with False show ?thesis by (simp add: gets)
  qed
qed

text \<open>
  C10.  Every 200 of the Maven route has the byte length of the stored object, the public
  five-minute lifetime whatever the object's own metadata says, and a content type that
  is never missing nor empty.
\<close>

theorem maven_response_headers:
  assumes "r2_laws R contents" and "fetch pathname R en rq b = (Inr resp, b')"
    and "resp_status resp = 200" and "pathname (req_url rq) = Inr path"
    and "route_of path = MavenRoute t"
  shows "\<exists>e. contents b (''maven/'' @ t) = Some e
    \<and> headers_get (resp_headers resp) ''content-length'' = Some (show_nat (length (r2_body e)))
    \<and> headers_get (resp_headers resp) ''cache-control'' = Some ''public, max-age=300''
    \<and> headers_get (resp_headers resp) ''etag'' = Some (normalize_value (r2_httpEtag e))
    \<and> \<not> falsy_header (resp_headers resp) ''content-type''"
proof (cases rule: answer_200_cases [OF fetch_answer [OF assms(1,2)] assms(3), case_names maven put read])
  case (maven u)
  with assms(4,5) have ut: "u = t" by simp
  obtain e h where
    e: "contents b (''maven/'' @ u) = Some e" and h: "mavenObjectHeaders R (r2_object.truncate e) = Inr h"
      and resp: "resp_headers resp = h"
    by (rule object_answer_200 [OF maven(5) assms(3)])
  have "r2_size (r2_object.truncate e) = length (r2_body e)"
    "r2_httpEtag (r2_object.truncate e) = r2_httpEtag e"
    using r2_well_stored [OF assms(1), OF e]
    by (simp_all add: well_stored_def stored_as_def r2_object.defs)
  with mavenObjectHeaders_Inr [OF assms(1) h] e show ?thesis
    unfolding ut resp by (intro exI [of _ e]) simp
next
  case put
  with assms(4,5) show ?thesis by simp
next
  case read
  with assms(4,5) show ?thesis by simp
qed

definition ex_cas_bucket :: mem_bucket where
  "ex_cas_bucket = [(ex_cas_key, mem_object ex_cas_key [7] octet_stream_options)]"

definition ex_cas_response :: response where
  "ex_cas_response = \<lparr>resp_status = 200,
     resp_headers = [(''content-type'', ''application/octet-stream''), (''content-length'', ''1''),
       (''etag'', [CHR 0x22, CHR ''e'', CHR ''1'', CHR 0x22]),
       (''cache-control'', ''private, max-age=31536000, immutable'')],
     resp_body = StreamBody [7]\<rparr>"

lemma ex_cas_run:
  "fetch Inr mem_r2 ex_env (ex_request ''GET'' ex_cas_path None) ex_cas_bucket
    = (Inr ex_cas_response, ex_cas_bucket)"
  by code_simp

theorem cache_response_headers_witness:
  "\<exists>e. mem_contents ex_cas_bucket (''cas'' @ ''/'' @ ex_digest) = Some e
    \<and> StreamBody [7] = StreamBody (r2_body e)
    \<and> resp_headers ex_cas_response = [(''content-type'', ''application/octet-stream''),
        (''content-length'', show_nat (length (r2_body e))),
        (''etag'', normalize_value (r2_httpEtag e)),
        (''cache-control'', ''private, max-age=31536000, immutable'')]"
  using cache_response_headers [OF mem_r2_laws ex_cas_run _ _ ex_cas_route]
  by (simp add: ex_cas_response_def)

theorem maven_response_headers_witness:
  "\<exists>e. mem_contents ex_maven_bucket (''maven/'' @ ''a'') = Some e
    \<and> headers_get (resp_headers ex_maven_response) ''content-length'' = Some (show_nat (length (r2_body e)))
    \<and> headers_get (resp_headers ex_maven_response) ''cache-control'' = Some ''public, max-age=300''
    \<and> headers_get (resp_headers ex_maven_response) ''etag'' = Some (normalize_value (r2_httpEtag e))
    \<and> \<not> falsy_header (resp_headers ex_maven_response) ''content-type''"
proof -
  have rt: "route_of ''/maven/a'' = MavenRoute ''a''" by (simp add: route_of_maven maven_relative_def)
  show ?thesis
    by (rule maven_response_headers [OF mem_r2_laws ex_maven_run _ _ rt])
      (simp_all add: ex_maven_response_def)
qed

section \<open>What is stored is read back\<close>

lemma fetch_put_stored:
  assumes laws: "r2_laws R contents" and run: "fetch pathname R en rq b = (Inr resp, b')"
    and w: "written_key pathname en rq = Some key" and v: "req_body rq = Some v"
  obtains e where "contents b' = (contents b)(key \<mapsto> e)" "stored_as key v e"
proof -
  from w obtain path k h where p: "pathname (req_url rq) = Inr path"
    and rt: "route_of path = CacheRoute k h" and a: "authorized rq en"
    and m: "req_method rq = ''PUT''" and key: "key = k @ ''/'' @ h"
    by (rule written_key_cases)
  have ck: "cache_key [(2, h), (1, k)] = key"
    unfolding cache_key_def key by (simp only: capture_simps)
  from run p rt a have hb: "handleBazelCache R rq [(2, h), (1, k)] b = (Inr resp, b')"
    by (simp add: fetch_route)
  show thesis
  proof (cases rule: cache_put_contents [OF laws hb m v])
    case (1 e)
    with that ck show ?thesis by simp
  next
    case (2 x)
    then show ?thesis by simp
  qed
qed

lemma put_then_get_aux:
  assumes laws: "r2_laws R contents"
    and put: "fetch pathname R en p b = (Inr presp, b1)"
    and w: "written_key pathname en p = Some key" and v: "req_body p = Some v"
    and others: "\<forall>q \<in> set rqs. written_key pathname en q \<noteq> Some key"
    and get: "fetch pathname R en g (serve pathname R en rqs b1) = (Inr gresp, b2)"
    and g: "pathname (req_url g) = Inr path" "route_of path = CacheRoute kind digest"
      "key = kind @ ''/'' @ digest" "authorized g en" "req_method g = ''GET''"
  shows "resp_status presp = 200 \<and> resp_status gresp = 200 \<and> resp_body gresp = StreamBody v"
proof -
  obtain e where e: "contents b1 = (contents b)(key \<mapsto> e)" "stored_as key v e"
    by (rule fetch_put_stored [OF laws put w v])
  with serve_keeps_key [OF laws] others
  have c: "contents (serve pathname R en rqs b1) (kind @ ''/'' @ digest) = Some e"
    by (simp add: g(3))
  from w obtain path' k h where "pathname (req_url p) = Inr path'"
    "route_of path' = CacheRoute k h" "authorized p en" "req_method p = ''PUT''"
    by (rule written_key_cases)
  with fetch_status_lemma [OF laws put] v have st1: "resp_status presp = 200"
    by (simp add: answer_status_def)
  from fetch_status_lemma [OF laws get] g c have st2: "resp_status gresp = 200"
    by (simp add: answer_status_def)
  from fetch_answer [OF laws get] g c
  have oa: "object_answer cacheObjectHeaders True (Some e) = Inr gresp"
    by (simp add: answer_def)
  obtain e' where "Some e = Some e'" "resp_body gresp = (if True then StreamBody (r2_body e') else NullBody)"
    by (rule object_answer_200 [OF oa st2])
  with e(2) st1 st2 show ?thesis by (simp add: stored_as_def)
qed

text \<open>
  C4.  Round trip: after an accepted PUT, whatever requests follow as long as none of
  them writes the same object, an answered GET with the token returns exactly the bytes
  that were put.  Only requests act on the bucket here: the expiry after seven days that
  \<open>tools/remote-cache/r2-lifecycle.json\<close> sets up at the provider is not a step of a run.
\<close>

theorem put_then_get:
  assumes laws: "r2_laws R contents"
    and put: "fetch pathname R en p b = (Inr presp, b1)"
    and w: "written_key pathname en p = Some key" and v: "req_body p = Some v"
    and others: "\<forall>q \<in> set rqs. written_key pathname en q \<noteq> Some key"
    and get: "fetch pathname R en g (serve pathname R en rqs b1) = (Inr gresp, b2)"
    and g: "pathname (req_url g) = Inr path" "route_of path = CacheRoute kind digest"
      "key = kind @ ''/'' @ digest" "authorized g en" "req_method g = ''GET''"
  shows "resp_status presp = 200 \<and> resp_status gresp = 200 \<and> resp_body gresp = StreamBody v"
  using assms by (rule put_then_get_aux)

theorem put_then_get_witness:
  "resp_status \<lparr>resp_status = 200, resp_headers = [], resp_body = NullBody\<rparr> = 200
    \<and> resp_status ex_cas_response = 200 \<and> resp_body ex_cas_response = StreamBody [7]"
proof (rule put_then_get [OF mem_r2_laws mem_put_run [of "[7]" "[]"] _ _ _ _ _ ex_cas_route])
  show "\<forall>q \<in> set [ex_anonymous ''PUT'' ex_cas_path].
      written_key Inr ex_env q \<noteq> Some ex_cas_key"
    by (auto elim: written_key_cases)
  show "fetch Inr mem_r2 ex_env (ex_request ''GET'' ex_cas_path None)
      (serve Inr mem_r2 ex_env [ex_anonymous ''PUT'' ex_cas_path]
        [(ex_cas_key, mem_object ex_cas_key [7] octet_stream_options)])
      = (Inr ex_cas_response, ex_cas_bucket)"
    using ex_cas_run by (simp add: fetch_route ex_cas_bucket_def)
qed (simp_all add: written_key_def ex_cas_key_def)

text \<open>
  C11.  The answers are labelled immutable for a year, but nothing keeps an object from
  being replaced: a GET, an accepted PUT of other bytes on the same URL and a second GET
  give two different bodies under the same \<open>immutable\<close> label (neither is the
  digest of the URL compared with the bytes).
\<close>

theorem immutable_label_not_kept:
  assumes laws: "r2_laws R contents"
    and rt: "pathname url = Inr path" "route_of path = CacheRoute kind digest"
    and g: "req_url g = url" "req_method g = ''GET''" "authorized g en"
    and p: "req_url p = url" "req_method p = ''PUT''" "authorized p en" "req_body p = Some v"
    and get1: "fetch pathname R en g b = (Inr g1, b1)" and st1: "resp_status g1 = 200"
    and other: "resp_body g1 \<noteq> StreamBody v"
    and put: "fetch pathname R en p b1 = (Inr p1, b2)"
    and get2: "fetch pathname R en g b2 = (Inr g2, b3)"
  shows "resp_body g2 = StreamBody v \<and> resp_body g2 \<noteq> resp_body g1
    \<and> headers_get (resp_headers g1) ''cache-control'' = Some ''private, max-age=31536000, immutable''
    \<and> headers_get (resp_headers g2) ''cache-control'' = Some ''private, max-age=31536000, immutable''"
proof -
  have w: "written_key pathname en p = Some (kind @ ''/'' @ digest)"
    using rt p by (simp add: written_key_def)
  have g2: "fetch pathname R en g (serve pathname R en [] b2) = (Inr g2, b3)" using get2 by simp
  have nop: "\<forall>q \<in> set []. written_key pathname en q \<noteq> Some (kind @ ''/'' @ digest)" by simp
  have rg: "pathname (req_url g) = Inr path" using g(1) rt(1) by simp
  have bg2: "resp_status g2 = 200 \<and> resp_body g2 = StreamBody v"
    using put_then_get_aux [OF laws put w p(4) nop g2 rg rt(2) refl g(3,2)] by blast
  have "\<exists>n t. resp_headers r = [(''content-type'', ''application/octet-stream''),
      (''content-length'', n), (''etag'', t),
      (''cache-control'', ''private, max-age=31536000, immutable'')]"
    if "fetch pathname R en g x = (Inr r, y)" "resp_status r = 200" for r x y
    using cache_response_headers_aux [OF laws that rg rt(2)] g(2) by auto
  then have "headers_get (resp_headers r) ''cache-control'' = Some ''private, max-age=31536000, immutable''"
    if "fetch pathname R en g x = (Inr r, y)" "resp_status r = 200" for r x y
    using that by (force simp: headers_get_def)
  with get1 st1 get2 bg2 other show ?thesis by metis
qed

lemma ex_cas_run_replaced:
  "fetch Inr mem_r2 ex_env (ex_request ''GET'' ex_cas_path None)
      ((ex_cas_key, mem_object ex_cas_key [9] octet_stream_options) # ex_cas_bucket)
    = (Inr (ex_cas_response\<lparr>resp_body := StreamBody [9]\<rparr>),
       (ex_cas_key, mem_object ex_cas_key [9] octet_stream_options) # ex_cas_bucket)"
  by code_simp

theorem immutable_label_not_kept_witness:
  "StreamBody [9] \<noteq> resp_body ex_cas_response
    \<and> headers_get (resp_headers ex_cas_response) ''cache-control''
        = Some ''private, max-age=31536000, immutable''"
  using immutable_label_not_kept [OF mem_r2_laws _ ex_cas_route _ _ ex_authorized _ _ ex_authorized _
      ex_cas_run _ _ mem_put_run ex_cas_run_replaced, of ex_cas_path]
  by (simp add: ex_cas_response_def)

section \<open>Authorization\<close>

lemma join_values_comma: "1 < length vs \<Longrightarrow> CHR 0x2C \<in> set (join_values vs)"
  by (cases vs rule: join_values.cases) auto

text \<open>
  C12.  The token can be presented at all exactly when the header value it needs survives
  the normalisation of header values: an empty token, or one that ends in a blank (a
  secret stored with its newline), locks every client out.
\<close>

theorem token_presentable_iff:
  assumes "CHR 0x2C \<notin> set (bazel_cache_token en)"
  shows "(\<exists>rq. headers_inv (req_headers rq) \<and> authorized rq en) \<longleftrightarrow>
    normalize_value (bearer en) = bearer en \<and> valid_value (bearer en)"
proof
  assume "\<exists>rq. headers_inv (req_headers rq) \<and> authorized rq en"
  then obtain rq where inv: "headers_inv (req_headers rq)" and a: "authorized rq en" by blast
  define vs where "vs = map snd (filter (\<lambda>e. fst e = ''authorization'') (req_headers rq))"
  from a have vs: "vs \<noteq> []" "join_values vs = bearer en"
    by (auto simp: authorized_def headers_get_def vs_def Let_def split: if_splits)
  have "CHR 0x2C \<notin> set (bearer en)" using assms by (simp add: bearer_def)
  with vs(2) join_values_comma [of vs] have "\<not> 1 < length vs" by auto
  with vs(1) obtain v where v: "vs = [v]" by (cases vs) auto
  then have "v \<in> set vs" by simp
  then obtain n where "(n, v) \<in> set (req_headers rq)" unfolding vs_def by auto
  with inv have "normalize_value v = v \<and> valid_value v"
    unfolding headers_inv_def list_all_iff by auto
  with v vs(2) show "normalize_value (bearer en) = bearer en \<and> valid_value (bearer en)" by simp
next
  assume ok: "normalize_value (bearer en) = bearer en \<and> valid_value (bearer en)"
  let ?rq = "\<lparr>req_method = ''GET'', req_url = [], req_headers = [(''authorization'', bearer en)],
    req_body = None\<rparr>"
  have "headers_inv (req_headers ?rq) \<and> authorized ?rq en"
    using ok by (simp add: headers_inv_def authorized_def headers_get_def)
  then show "\<exists>rq. headers_inv (req_headers rq) \<and> authorized rq en" by blast
qed

theorem token_presentable_iff_witness:
  "\<not> (\<exists>rq. headers_inv (req_headers rq) \<and> authorized rq \<lparr>bazel_cache_token = []\<rparr>)
    \<and> (\<exists>rq. headers_inv (req_headers rq) \<and> authorized rq ex_env)"
  using token_presentable_iff [of "\<lparr>bazel_cache_token = []\<rparr>"] token_presentable_iff [of ex_env]
  by (simp add: bearer_def ex_env_def normalize_value_def http_space_def valid_value_def)

section \<open>What the worker throws\<close>

definition error_of :: "'e + 'a \<Rightarrow> 'e option" where
  "error_of r = (case r of Inl e \<Rightarrow> Some e | Inr _ \<Rightarrow> None)"

lemma error_of_simps [simp]: "error_of (Inl e) = Some e" "error_of (Inr y) = None"
  by (simp_all add: error_of_def)

text \<open>The error a read of an object rejects with.\<close>

definition read_error :: "'b r2_bucket \<Rightarrow> string \<Rightarrow> string \<Rightarrow> 'b \<Rightarrow> js_error option" where
  "read_error R m key b =
     (if m = ''HEAD'' then error_of (fst (bucket_head R key b))
      else error_of (fst (bucket_get R key b)))"

text \<open>
  The exception a request ends with, if it ends with one: that of the URL parser, of the one R2 call
  the route makes, or of \<open>writeHttpMetadata\<close> on the Maven object found.
\<close>

definition thrown ::
  "(string \<Rightarrow> js_error + string) \<Rightarrow> 'b r2_bucket \<Rightarrow> ('b \<Rightarrow> string \<Rightarrow> r2_object_body option) \<Rightarrow> env
     \<Rightarrow> request \<Rightarrow> 'b \<Rightarrow> js_error option" where
  "thrown pathname R contents en rq b =
     (case pathname (req_url rq) of
        Inl e \<Rightarrow> Some e
      | Inr path \<Rightarrow>
          (case route_of path of
             MavenRoute t \<Rightarrow>
               if req_method rq \<noteq> ''GET'' \<and> req_method rq \<noteq> ''HEAD'' \<or> contains ''..'' t then None
               else
                 (case read_error R (req_method rq) (''maven/'' @ t) b of
                    Some e \<Rightarrow> Some e
                  | None \<Rightarrow>
                      (case contents b (''maven/'' @ t) of
                         None \<Rightarrow> None
                       | Some ob \<Rightarrow> error_of (write_http_metadata R (r2_object.truncate ob) [])))
           | CacheRoute k h \<Rightarrow>
               if \<not> authorized rq en then None
               else if req_method rq = ''PUT'' then
                 (case req_body rq of
                    None \<Rightarrow> None
                  | Some v \<Rightarrow> error_of (fst (bucket_put R (k @ ''/'' @ h) v octet_stream_options b)))
               else if req_method rq = ''GET'' \<or> req_method rq = ''HEAD'' then
                 read_error R (req_method rq) (k @ ''/'' @ h) b
               else None
           | OtherRoute \<Rightarrow> None))"

lemma error_of_new_response [simp]: "error_of (new_response bd 200 h) = None"
  by (simp add: new_response_def null_body_status_def)

lemma error_of_built [simp]: "error_of (and_then r (new_response bd 200)) = error_of r"
  by (cases r) simp_all

lemma error_of_text_response:
  "st \<in> {400, 401, 404, 405} \<Longrightarrow> error_of (text_response st t) = None"
  by (auto simp: text_response_def new_response_def null_body_status_def)

lemma show_nat_valid: "valid_value (show_nat n)"
  using show_nat_digits [of _ n] by (force simp: valid_value_def list_all_iff code_in_def)

lemma header_names_valid:
  "valid_name ''content-type''" "valid_name ''content-length''" "valid_name ''etag''"
  "valid_name ''cache-control''"
  by (simp_all add: valid_name_def token_char_def code_in_def)

lemma header_values_valid:
  "valid_value ''application/octet-stream''" "valid_value ''private, max-age=31536000, immutable''"
  "valid_value ''public, max-age=300''" "valid_value ''text/plain''"
  by (simp_all add: valid_value_def)

lemmas headers_valid = header_names_valid header_values_valid show_nat_valid

lemma cacheObjectHeaders_total:
  "valid_value (normalize_value (r2_httpEtag ob)) \<Longrightarrow> error_of (cacheObjectHeaders ob) = None"
  by (simp add: cacheObjectHeaders_def new_headers_def headers_append_def Let_def headers_valid)

lemma mavenObjectHeaders_error:
  "valid_value (normalize_value (r2_httpEtag ob)) \<Longrightarrow>
     error_of (mavenObjectHeaders R ob) = error_of (write_http_metadata R ob [])"
  by (cases "write_http_metadata R ob []")
    (simp_all add: mavenObjectHeaders_def headers_set_def Let_def headers_valid)

lemma stored_etag_valid:
  "r2_laws R contents \<Longrightarrow> contents b k = Some e
    \<Longrightarrow> valid_value (normalize_value (r2_httpEtag (r2_object.truncate e)))"
  by (drule (1) r2_well_stored) (simp add: well_stored_def r2_object.defs)

lemma maven_thrown:
  assumes laws: "r2_laws R contents" and m: "req_method rq = ''GET'' \<or> req_method rq = ''HEAD''"
    and d: "\<not> contains ''..'' t"
  shows "error_of (fst (handleMavenRepository R rq t b)) =
    (case read_error R (req_method rq) (''maven/'' @ t) b of
       Some e \<Rightarrow> Some e
     | None \<Rightarrow> (case contents b (''maven/'' @ t) of
         None \<Rightarrow> None
       | Some ob \<Rightarrow> error_of (write_http_metadata R (r2_object.truncate ob) [])))"
proof (cases "req_method rq = ''HEAD''")
  case True
  obtain r b' where run: "bucket_head R (''maven/'' @ t) b = (r, b')" by (rule prod.exhaust)
  show ?thesis
  proof (cases r)
    case (Inl e)
    with run d True show ?thesis by (simp add: handleMavenRepository_def read_error_def)
  next
    case (Inr ob)
    from r2_head_law [OF laws run] Inr have ob: "ob = map_option r2_object.truncate (contents b (''maven/'' @ t))"
      by simp
    show ?thesis
      using run d True Inr ob stored_etag_valid [OF laws]
      by (cases "contents b (''maven/'' @ t)")
        (simp_all add: handleMavenRepository_def read_error_def error_of_text_response
          mavenObjectHeaders_error)
  qed
next
  case False
  with m have g: "req_method rq = ''GET''" by simp
  obtain r b' where run: "bucket_get R (''maven/'' @ t) b = (r, b')" by (rule prod.exhaust)
  show ?thesis
  proof (cases r)
    case (Inl e)
    with run d g show ?thesis by (simp add: handleMavenRepository_def read_error_def)
  next
    case (Inr ob)
    from r2_get_law [OF laws run] Inr have ob: "ob = contents b (''maven/'' @ t)" by simp
    show ?thesis
      using run d g Inr ob stored_etag_valid [OF laws]
      by (cases "contents b (''maven/'' @ t)")
        (simp_all add: handleMavenRepository_def read_error_def error_of_text_response
          mavenObjectHeaders_error)
  qed
qed

lemma cache_thrown:
  assumes laws: "r2_laws R contents"
  shows "error_of (fst (handleBazelCache R rq m b)) =
    (if req_method rq = ''PUT'' then
       (case req_body rq of
          None \<Rightarrow> None
        | Some v \<Rightarrow> error_of (fst (bucket_put R (cache_key m) v octet_stream_options b)))
     else if req_method rq = ''GET'' \<or> req_method rq = ''HEAD'' then
       read_error R (req_method rq) (cache_key m) b
     else None)"
proof -
  obtain r1 b1 where put: "bucket_put R (cache_key m) v octet_stream_options b = (r1 v, b1 v)" for v
    using that [of "\<lambda>v. fst (bucket_put R (cache_key m) v octet_stream_options b)"
        "\<lambda>v. snd (bucket_put R (cache_key m) v octet_stream_options b)"] by simp
  obtain r2 b2 where get: "bucket_get R (cache_key m) b = (r2, b2)" by (rule prod.exhaust)
  obtain r3 b3 where head: "bucket_head R (cache_key m) b = (r3, b3)" by (rule prod.exhaust)
  have g: "r2 = Inr (Some e) \<Longrightarrow> error_of (cacheObjectHeaders (r2_object.truncate e)) = None" for e
    using r2_get_law [OF laws get] stored_etag_valid [OF laws] cacheObjectHeaders_total by force
  have h: "r3 = Inr (Some e) \<Longrightarrow> error_of (cacheObjectHeaders e) = None" for e
  proof -
    assume "r3 = Inr (Some e)"
    with r2_head_law [OF laws head] obtain ob where
      "contents b (cache_key m) = Some ob" "e = r2_object.truncate ob"
      by (cases "contents b (cache_key m)") auto
    with stored_etag_valid [OF laws, of b "cache_key m" ob] cacheObjectHeaders_total [of e]
    show "error_of (cacheObjectHeaders e) = None" by simp
  qed
  show ?thesis
    using g h
    by (auto simp: handleBazelCache_def Let_def put get head read_error_def error_of_text_response
        split: sum.split option.split)
qed

text \<open>
  C15.  No exception of its own: a request ends with an exception exactly when \<open>thrown\<close> says so, with
  that exception, so only the URL parser, the R2 call of the route and \<open>writeHttpMetadata\<close> can make
  the worker fail; every status, header and body it builds itself is one the platform accepts.
\<close>

theorem fetch_throws_iff:
  assumes "r2_laws R contents"
  shows "fst (fetch pathname R en rq b) = Inl x \<longleftrightarrow> thrown pathname R contents en rq b = Some x"
proof -
  have "error_of (fst (fetch pathname R en rq b)) = thrown pathname R contents en rq b"
  proof (cases "pathname (req_url rq)")
    case (Inl e)
    then show ?thesis by (simp add: fetch_route thrown_def)
  next
    case (Inr path)
    show ?thesis
    proof (cases "route_of path")
      case (MavenRoute t)
      then show ?thesis
        using Inr maven_thrown [OF assms, of rq t b]
        by (auto simp: fetch_route thrown_def handleMavenRepository_def error_of_text_response)
    next
      case (CacheRoute k h)
      have key: "cache_key [(2, h), (1, k)] = k @ ''/'' @ h"
        unfolding cache_key_def by (simp only: capture_simps)
      show ?thesis
        using Inr CacheRoute cache_thrown [OF assms, of rq "[(2, h), (1, k)]" b, unfolded key]
        by (simp add: fetch_route thrown_def error_of_text_response split: option.split)
    next
      case OtherRoute
      with Inr show ?thesis by (simp add: fetch_route thrown_def error_of_text_response)
    qed
  qed
  then show ?thesis by (cases "fst (fetch pathname R en rq b)") auto
qed

theorem fetch_throws_iff_witness:
  "fst (fetch (\<lambda>_. Inl (TypeError ''Invalid URL'')) mem_r2 ex_env (ex_anonymous ''GET'' []) [])
      = Inl (TypeError ''Invalid URL'')
    \<and> fst (fetch Inr mem_r2 ex_env (ex_request ''PUT'' ex_cas_path (Some [7])) []) \<noteq> Inl (R2Error [])"
  unfolding fetch_throws_iff [OF mem_r2_laws] by (simp add: thrown_def mem_r2_def)

end
