(* ===== verification/Typing.thy ===== *)
theory Typing
  imports Web_Platform
begin

text \<open>
  The data types of \<^verbatim>\<open>worker-configuration.d.ts\<close> as values.  A type declaration of the file
  (an interface, a type alias) whose members are data becomes a value of \<^verbatim>\<open>ts_type\<close>;
  \<^verbatim>\<open>conforms\<close> says when a JavaScript value has a declared type, and \<^verbatim>\<open>subtype\<close>
  is a decision procedure for inclusion between declared types that is sound for it.
\<close>

section \<open>Values and types\<close>

text \<open>
  A JavaScript value as far as the declarations describe it.  A number is the bit pattern of its
  double, an object the list of its own properties (the first of two equal names counts), and
  an object made by the platform is known by the name of its class.
\<close>

datatype js_value =
    JUndefined
  | JNull
  | JBool bool
  | JNum "64 word"
  | JStr string
  | JArr "js_value list"
  | JObj "(string \<times> js_value) list"
  | JHost string

text \<open>
  The type expressions the declarations use.  A member of an object type carries its name, whether
  it is optional (written with a question mark in the source) and its type; \<^verbatim>\<open>extends\<close>
  and the ampersand are intersections, \<^verbatim>\<open>Record\<close> and index signatures are \<^verbatim>\<open>TRecord\<close>.
\<close>

datatype ts_type =
    TAny
  | TNever
  | TUndefined
  | TNull
  | TBoolean
  | TNumber
  | TString
  | TObject
  | THost string
  | TTrue
  | TFalse
  | TNumLit "64 word"
  | TStrLit string
  | TArr ts_type
  | TRecord ts_type
  | TUnion "ts_type list"
  | TInter "ts_type list"
  | TObj "(string \<times> bool \<times> ts_type) list"

abbreviation req :: "string \<Rightarrow> ts_type \<Rightarrow> string \<times> bool \<times> ts_type" where
  "req k t \<equiv> (k, False, t)"

abbreviation opt :: "string \<Rightarrow> ts_type \<Rightarrow> string \<times> bool \<times> ts_type" where
  "opt k t \<equiv> (k, True, t)"

lemma size_member [termination_simp]:
  "(k, o', t) \<in> set ps \<Longrightarrow> size t < Suc (size_list (\<lambda>(_, _, t). Suc (Suc (size t))) ps)"
  by (induction ps) auto

fun conforms :: "ts_type \<Rightarrow> js_value \<Rightarrow> bool" where
  "conforms TAny v = True"
| "conforms TNever v = False"
| "conforms TUndefined v = (case v of JUndefined \<Rightarrow> True | _ \<Rightarrow> False)"
| "conforms TNull v = (case v of JNull \<Rightarrow> True | _ \<Rightarrow> False)"
| "conforms TBoolean v = (case v of JBool _ \<Rightarrow> True | _ \<Rightarrow> False)"
| "conforms TNumber v = (case v of JNum _ \<Rightarrow> True | _ \<Rightarrow> False)"
| "conforms TString v = (case v of JStr _ \<Rightarrow> True | _ \<Rightarrow> False)"
| "conforms TObject v = (case v of JArr _ \<Rightarrow> True | JObj _ \<Rightarrow> True | JHost _ \<Rightarrow> True | _ \<Rightarrow> False)"
| "conforms (THost c) v = (case v of JHost d \<Rightarrow> c = d | _ \<Rightarrow> False)"
| "conforms TTrue v = (case v of JBool b \<Rightarrow> b | _ \<Rightarrow> False)"
| "conforms TFalse v = (case v of JBool b \<Rightarrow> \<not> b | _ \<Rightarrow> False)"
| "conforms (TNumLit n) v = (case v of JNum m \<Rightarrow> n = m | _ \<Rightarrow> False)"
| "conforms (TStrLit s) v = (case v of JStr r \<Rightarrow> s = r | _ \<Rightarrow> False)"
| "conforms (TArr t) v = (case v of JArr vs \<Rightarrow> list_all (conforms t) vs | _ \<Rightarrow> False)"
| "conforms (TRecord t) v =
    (case v of JObj kvs \<Rightarrow> list_all (conforms t) (map snd kvs) | _ \<Rightarrow> False)"
| "conforms (TUnion ts) v = list_ex (\<lambda>t. conforms t v) ts"
| "conforms (TInter ts) v = list_all (\<lambda>t. conforms t v) ts"
| "conforms (TObj ps) v =
    (case v of
       JObj kvs \<Rightarrow> list_all (\<lambda>(k, o', t).
         case map_of kvs k of
           None \<Rightarrow> o'
         | Some w \<Rightarrow> (o' \<and> w = JUndefined) \<or> conforms t w) ps
     | _ \<Rightarrow> False)"

text \<open>
  Inclusion of types.  It is stricter than the compiler in one place: an optional member that the
  source type does not mention is not accepted, since a value of the source type may hold
  anything there.
\<close>

definition atom_subtype :: "ts_type \<Rightarrow> ts_type \<Rightarrow> bool" where
  "atom_subtype s t =
    (case s of
       TUndefined \<Rightarrow> (case t of TUndefined \<Rightarrow> True | _ \<Rightarrow> False)
     | TNull \<Rightarrow> (case t of TNull \<Rightarrow> True | _ \<Rightarrow> False)
     | TBoolean \<Rightarrow> (case t of TBoolean \<Rightarrow> True | _ \<Rightarrow> False)
     | TTrue \<Rightarrow> (case t of TTrue \<Rightarrow> True | TBoolean \<Rightarrow> True | _ \<Rightarrow> False)
     | TFalse \<Rightarrow> (case t of TFalse \<Rightarrow> True | TBoolean \<Rightarrow> True | _ \<Rightarrow> False)
     | TNumber \<Rightarrow> (case t of TNumber \<Rightarrow> True | _ \<Rightarrow> False)
     | TNumLit n \<Rightarrow> (case t of TNumLit m \<Rightarrow> n = m | TNumber \<Rightarrow> True | _ \<Rightarrow> False)
     | TString \<Rightarrow> (case t of TString \<Rightarrow> True | _ \<Rightarrow> False)
     | TStrLit r \<Rightarrow> (case t of TStrLit q \<Rightarrow> r = q | TString \<Rightarrow> True | _ \<Rightarrow> False)
     | THost c \<Rightarrow> (case t of THost d \<Rightarrow> c = d | TObject \<Rightarrow> True | _ \<Rightarrow> False)
     | TObject \<Rightarrow> (case t of TObject \<Rightarrow> True | _ \<Rightarrow> False)
     | TArr _ \<Rightarrow> (case t of TObject \<Rightarrow> True | _ \<Rightarrow> False)
     | TRecord _ \<Rightarrow> (case t of TObject \<Rightarrow> True | _ \<Rightarrow> False)
     | TObj _ \<Rightarrow> (case t of TObject \<Rightarrow> True | _ \<Rightarrow> False)
     | _ \<Rightarrow> False)"

lemma atom_subtype_sound: "atom_subtype s t \<Longrightarrow> conforms s v \<Longrightarrow> conforms t v"
  by (cases s; cases t; cases v) (simp_all add: atom_subtype_def)

lemma size_map_of [termination_simp]:
  "map_of ps k = Some (o', t) \<Longrightarrow> size t < Suc (size_list (\<lambda>(_, _, t). Suc (Suc (size t))) ps)"
  by (rule size_member [OF map_of_SomeD])

definition alternatives :: "ts_type \<Rightarrow> ts_type list option" where
  "alternatives t = (case t of TNever \<Rightarrow> Some [] | TUnion ts \<Rightarrow> Some ts | _ \<Rightarrow> None)"

definition factors :: "ts_type \<Rightarrow> ts_type list option" where
  "factors t = (case t of TInter ts \<Rightarrow> Some ts | _ \<Rightarrow> None)"

definition members :: "ts_type \<Rightarrow> (string \<times> bool \<times> ts_type) list option" where
  "members t = (case t of TObj ps \<Rightarrow> Some ps | _ \<Rightarrow> None)"

definition contents :: "ts_type \<Rightarrow> ts_type \<Rightarrow> (ts_type \<times> ts_type) option" where
  "contents s t =
    (case s of
       TArr s' \<Rightarrow> (case t of TArr t' \<Rightarrow> Some (s', t') | _ \<Rightarrow> None)
     | TRecord s' \<Rightarrow> (case t of TRecord t' \<Rightarrow> Some (s', t') | _ \<Rightarrow> None)
     | _ \<Rightarrow> None)"

lemma alternatives_Some:
  "alternatives t = Some ts \<Longrightarrow> conforms t v = list_ex (\<lambda>t. conforms t v) ts"
  by (cases t) (auto simp: alternatives_def)

lemma factors_Some: "factors t = Some ts \<longleftrightarrow> t = TInter ts"
  by (cases t) (auto simp: factors_def)

lemma members_Some: "members t = Some ps \<longleftrightarrow> t = TObj ps"
  by (cases t) (auto simp: members_def)

lemma contents_Some:
  assumes "contents s t = Some (s', t')"
  shows "(s = TArr s' \<and> t = TArr t') \<or> (s = TRecord s' \<and> t = TRecord t')"
  using assms by (cases s; cases t) (auto simp: contents_def)

lemma size_in_list: "t \<in> set ts \<Longrightarrow> size t < Suc (size_list size ts)"
  by (induction ts) auto

lemma size_alternatives:
  "alternatives t = Some ts \<Longrightarrow> t' \<in> set ts \<Longrightarrow> size t' < size t"
  by (cases t) (auto simp: alternatives_def size_in_list)

lemma size_factors: "factors t = Some ts \<Longrightarrow> t' \<in> set ts \<Longrightarrow> size t' < size t"
  by (auto simp: factors_Some size_in_list)

lemma size_members: "members t = Some ps \<Longrightarrow> (k, o', t') \<in> set ps \<Longrightarrow> size t' < size t"
proof -
  have "(k, o', t') \<in> set ps \<Longrightarrow> size t' < size (TObj ps)" for ps by (induction ps) auto
  then show "members t = Some ps \<Longrightarrow> (k, o', t') \<in> set ps \<Longrightarrow> size t' < size t"
    by (simp add: members_Some)
qed

lemma size_single: "members t = Some ps \<Longrightarrow> p \<in> set ps \<Longrightarrow> size (TObj [p]) \<le> size t"
proof -
  have "p \<in> set ps \<Longrightarrow> size (TObj [p]) \<le> size (TObj ps)" by (induction ps) auto
  then show "members t = Some ps \<Longrightarrow> p \<in> set ps \<Longrightarrow> size (TObj [p]) \<le> size t"
    by (simp add: members_Some)
qed

lemma size_contents: "contents s t = Some (s', t') \<Longrightarrow> size s' + size t' < size s + size t"
  by (drule contents_Some) auto

lemma size_single_less:
  "factors s = Some ss \<Longrightarrow> members t = Some ps \<Longrightarrow> p \<in> set ps \<Longrightarrow> s' \<in> set ss
    \<Longrightarrow> size s' + size (TObj [p]) < size s + size t"
  using size_factors size_single by (meson add_less_le_mono)

function subtype :: "ts_type \<Rightarrow> ts_type \<Rightarrow> bool" where
  "subtype s t =
    (case alternatives s of
       Some ss \<Rightarrow> \<forall>s' \<in> set ss. subtype s' t
     | None \<Rightarrow>
    (case alternatives t of
       Some ts \<Rightarrow> \<exists>t' \<in> set ts. subtype s t'
     | None \<Rightarrow>
    (case factors t of
       Some ts \<Rightarrow> \<forall>t' \<in> set ts. subtype s t'
     | None \<Rightarrow>
    (case factors s of
       Some ss \<Rightarrow> t = TAny
         \<or> (\<exists>s' \<in> set ss. subtype s' t)
         \<or> (case members t of
              Some ps \<Rightarrow> ps \<noteq> [] \<and> (\<forall>p \<in> set ps. \<exists>s' \<in> set ss. subtype s' (TObj [p]))
            | None \<Rightarrow> False)
     | None \<Rightarrow>
    (case (members s, members t) of
       (Some qs, Some ps) \<Rightarrow>
          \<forall>(k, o', t') \<in> set ps.
            (case map_of qs k of
               None \<Rightarrow> False
             | Some (o'', s') \<Rightarrow> (o'' \<longrightarrow> o') \<and> subtype s' t')
     | _ \<Rightarrow>
    (case contents s t of
       Some (s', t') \<Rightarrow> subtype s' t'
     | None \<Rightarrow> t = TAny \<or> atom_subtype s t))))))"
  by pat_completeness auto

termination
  by (relation "measure (\<lambda>(s, t). size s + size t)")
    (auto simp: size_alternatives size_factors size_single_less [simplified]
       dest: size_contents size_members map_of_SomeD
       dest!: size_members [OF sym] intro: add_less_mono)

declare subtype.simps [simp del]

lemma conforms_single:
  "ps \<noteq> [] \<Longrightarrow> \<forall>p \<in> set ps. conforms (TObj [p]) v \<Longrightarrow> conforms (TObj ps) v"
  by (cases v; cases ps) (auto simp: list_all_iff)

lemma subtype_sound:
  "subtype s t \<Longrightarrow> conforms s v \<Longrightarrow> conforms t v"
proof (induction s t arbitrary: v rule: subtype.induct)
  case (1 s t)
  note step = "1.prems"(1) [unfolded subtype.simps [of s t]] and cv = "1.prems"(2)
  show ?case
  proof (cases "alternatives s")
    case (Some ss)
    with cv obtain s' where "s' \<in> set ss" "conforms s' v"
      by (auto simp: alternatives_Some list_ex_iff)
    with Some step show ?thesis by (auto intro: "1.IH"(8) [OF Some])
  next
    case as: None
    show ?thesis
    proof (cases "alternatives t")
      case (Some ts)
      with as step obtain t' where "t' \<in> set ts" "subtype s t'" by auto
      with as Some cv show ?thesis
        by (auto simp: alternatives_Some [OF Some] list_ex_iff intro!: bexI [of _ t'] "1.IH"(7))
    next
      case at: None
      show ?thesis
      proof (cases "factors t")
        case (Some ts)
        with as at step have "\<forall>t' \<in> set ts. subtype s t'" by simp
        with as at Some cv show ?thesis
          by (auto simp: factors_Some list_all_iff intro!: "1.IH"(6) [OF as at Some])
      next
        case ft: None
        show ?thesis
        proof (cases "factors s")
          case (Some ss)
          have each: "conforms s' v" if "s' \<in> set ss" for s'
            using cv that Some by (auto simp: factors_Some list_all_iff)
          from Some as at ft step consider "t = TAny"
            | s' where "s' \<in> set ss" "subtype s' t"
            | ps where "members t = Some ps" "ps \<noteq> []"
                "\<forall>p \<in> set ps. \<exists>s' \<in> set ss. subtype s' (TObj [p])"
            by (auto split: option.splits)
          then show ?thesis
          proof cases
            case 2
            with "1.IH"(4) [OF as at ft Some] each show ?thesis by blast
          next
            case 3
            from 3 have "conforms (TObj [p]) v" if "p \<in> set ps" for p
              using "1.IH"(5) [OF as at ft Some 3(1) that] each that by blast
            then have "conforms (TObj ps) v" by (intro conforms_single [OF 3(2)] ballI)
            with 3(1) show ?thesis by (simp only: members_Some)
          qed simp
        next
          case fs: None
          show ?thesis
          proof (cases "\<exists>qs ps. members s = Some qs \<and> members t = Some ps")
            case True
            then obtain qs ps where m: "members s = Some qs" "members t = Some ps" by blast
            then have st: "s = TObj qs" "t = TObj ps" by (simp_all add: members_Some)
            with cv obtain kvs where v: "v = JObj kvs" by (cases v) auto
            have "case map_of kvs k of None \<Rightarrow> o' | Some w \<Rightarrow> o' \<and> w = JUndefined \<or> conforms t' w"
              if p: "(k, o', t') \<in> set ps" for k o' t'
            proof -
              from step as at ft fs m p obtain o'' s' where
                q: "map_of qs k = Some (o'', s')" "o'' \<longrightarrow> o'" "subtype s' t'"
                by (auto split: option.splits)
              with cv st v have "case map_of kvs k of None \<Rightarrow> o''
                  | Some w \<Rightarrow> o'' \<and> w = JUndefined \<or> conforms s' w"
                by (auto simp: list_all_iff dest!: map_of_SomeD)
              moreover have "conforms t' w" if "conforms s' w" for w
                by (rule "1.IH"(3) [OF as at ft fs refl m p refl refl q(1) refl q(3) that])
              ultimately show ?thesis using q(2) by (cases "map_of kvs k") auto
            qed
            with st v show ?thesis by (auto simp: list_all_iff)
          next
            case no: False
            then have mm: "(case (members s, members t) of (Some qs, Some ps) \<Rightarrow> A qs ps | _ \<Rightarrow> B) = B"
              for A :: "_ \<Rightarrow> _ \<Rightarrow> bool" and B
              by (auto split: option.splits)
            show ?thesis
            proof (cases "contents s t")
              case (Some st)
              obtain s' t' where st: "st = (s', t')" by (cases st)
              with step as at ft fs mm Some have "subtype s' t'" by simp
              moreover have "subtype s' t' \<Longrightarrow> conforms s' w \<Longrightarrow> conforms t' w" for w
                using "1.IH"(1) [OF as at ft fs refl _ Some st [symmetric]]
                  "1.IH"(2) [OF as at ft fs refl _ _ Some st [symmetric]] no
                by (cases "members s"; cases "members t") blast+
              ultimately show ?thesis
                using contents_Some [OF Some [unfolded st]] cv
                by (cases v) (auto simp: list_all_iff)
            next
              case None
              with step as at ft fs mm have "t = TAny \<or> atom_subtype s t" by simp
              with cv show ?thesis using atom_subtype_sound by auto
            qed
          qed
        qed
      qed
    qed
  qed
qed

section \<open>Members an object must have\<close>

text \<open>
  The member names a declaration asks an object for: an object of the type has all the names of one
  of the entries.  Types that no object literal has give no entry.
\<close>

definition products :: "'a list list list \<Rightarrow> 'a list list" where
  "products xsss = foldr (\<lambda>xss acc. [xs @ ys. xs \<leftarrow> xss, ys \<leftarrow> acc]) xsss [[]]"

fun required :: "ts_type \<Rightarrow> string list list" where
  "required (TObj ps) = [map fst (filter (\<lambda>(k, o', t). \<not> o') ps)]"
| "required (TUnion ts) = concat (map required ts)"
| "required (TInter ts) = products (map required ts)"
| "required TAny = [[]]"
| "required TObject = [[]]"
| "required (TRecord _) = [[]]"
| "required _ = []"

lemma products_choice:
  "\<forall>xss \<in> set xsss. \<exists>xs \<in> set xss. set xs \<subseteq> K \<Longrightarrow> \<exists>xs \<in> set (products xsss). set xs \<subseteq> K"
proof (induction xsss)
  case Nil
  then show ?case by (simp add: products_def)
next
  case (Cons xss xsss)
  from Cons.prems obtain xs where xs: "xs \<in> set xss" "set xs \<subseteq> K" by auto
  from Cons obtain ys where ys: "ys \<in> set (products xsss)" "set ys \<subseteq> K" by auto
  from xs(1) ys(1) have "xs @ ys \<in> set (products (xss # xsss))" by (auto simp: products_def)
  with xs(2) ys(2) show ?case by (intro bexI [of _ "xs @ ys"]) auto
qed

lemma required_members:
  "conforms t (JObj kvs) \<Longrightarrow> \<exists>ks \<in> set (required t). set ks \<subseteq> fst ` set kvs"
proof (induction t)
  case (TUnion ts)
  then obtain t where "t \<in> set ts" "conforms t (JObj kvs)" by (auto simp: list_ex_iff)
  with TUnion.IH show ?case by fastforce
next
  case (TInter ts)
  then have "\<forall>xss \<in> set (map required ts). \<exists>xs \<in> set xss. set xs \<subseteq> fst ` set kvs"
    by (auto simp: list_all_iff)
  then show ?case by (simp only: required.simps products_choice)
next
  case (TObj ps)
  have "k \<in> fst ` set kvs" if "(k, False, t) \<in> set ps" for k t
  proof (rule ccontr)
    assume "k \<notin> fst ` set kvs"
    then have "map_of kvs k = None" by (simp add: map_of_eq_None_iff)
    with that TObj.prems show False by (auto simp: list_all_iff)
  qed
  then show ?case by auto
qed simp_all

section \<open>A smallest value of a type\<close>

text \<open>
  A value of the first alternative of a type with the members it requires and no other, and for
  every alternative that has objects the members of such an object.
\<close>

fun sample :: "ts_type \<Rightarrow> js_value" where
  "sample TAny = JUndefined"
| "sample TNever = JUndefined"
| "sample TUndefined = JUndefined"
| "sample TNull = JNull"
| "sample TBoolean = JBool False"
| "sample TNumber = JNum 0"
| "sample TString = JStr []"
| "sample TObject = JObj []"
| "sample (THost c) = JHost c"
| "sample TTrue = JBool True"
| "sample TFalse = JBool False"
| "sample (TNumLit n) = JNum n"
| "sample (TStrLit s) = JStr s"
| "sample (TArr t) = JArr []"
| "sample (TRecord t) = JObj []"
| "sample (TUnion ts) = (case ts of [] \<Rightarrow> JUndefined | t # _ \<Rightarrow> sample t)"
| "sample (TInter ts) =
    JObj (concat (map (\<lambda>t. case sample t of JObj kvs \<Rightarrow> kvs | _ \<Rightarrow> []) ts))"
| "sample (TObj ps) = JObj (map (\<lambda>(k, o', t). (k, sample t)) (filter (\<lambda>(k, o', t). \<not> o') ps))"

fun samples :: "ts_type \<Rightarrow> (string \<times> js_value) list list" where
  "samples (TObj ps) = [map (\<lambda>(k, o', t). (k, sample t)) (filter (\<lambda>(k, o', t). \<not> o') ps)]"
| "samples (TUnion ts) = concat (map samples ts)"
| "samples (TInter ts) = products (map samples ts)"
| "samples TAny = [[]]"
| "samples TObject = [[]]"
| "samples (TRecord _) = [[]]"
| "samples _ = []"

text \<open>
  A table of alternatives is exact for a type when every alternative the type asks for contains one
  of the table and every one of the table is realised by a value with no further member.
\<close>

definition exact_members :: "ts_type \<Rightarrow> string list list \<Rightarrow> bool" where
  "exact_members t kss \<longleftrightarrow>
     list_all (\<lambda>rs. list_ex (\<lambda>ks. set ks \<subseteq> set rs) kss) (required t)
   \<and> list_all (\<lambda>ks. list_ex (\<lambda>kvs. set (map fst kvs) \<subseteq> set ks \<and> conforms t (JObj kvs))
       (samples t)) kss"

lemma exact_members_iff:
  assumes "exact_members t kss"
  shows "(\<exists>kvs. conforms t (JObj kvs) \<and> fst ` set kvs \<subseteq> K) \<longleftrightarrow> (\<exists>ks \<in> set kss. set ks \<subseteq> K)"
proof
  assume "\<exists>kvs. conforms t (JObj kvs) \<and> fst ` set kvs \<subseteq> K"
  then obtain kvs where c: "conforms t (JObj kvs)" and k: "fst ` set kvs \<subseteq> K" by blast
  from required_members [OF c] obtain rs where rs: "rs \<in> set (required t)" "set rs \<subseteq> fst ` set kvs"
    by blast
  from assms rs(1) obtain ks where "ks \<in> set kss" "set ks \<subseteq> set rs"
    by (auto simp: exact_members_def list_all_iff list_ex_iff)
  with rs(2) k show "\<exists>ks \<in> set kss. set ks \<subseteq> K" by blast
next
  assume "\<exists>ks \<in> set kss. set ks \<subseteq> K"
  then obtain ks where ks: "ks \<in> set kss" "set ks \<subseteq> K" by blast
  from assms ks(1) obtain kvs where "fst ` set kvs \<subseteq> set ks" "conforms t (JObj kvs)"
    by (force simp: exact_members_def list_all_iff list_ex_iff)
  with ks(2) show "\<exists>kvs. conforms t (JObj kvs) \<and> fst ` set kvs \<subseteq> K" by blast
qed

end
