(* ===== verification/R2_Types.thy ===== *)
theory R2_Types
  imports Typing
begin

text \<open>
  Lines 2006 to 2140 of \<^verbatim>\<open>worker-configuration.d.ts\<close>: the options, metadata
  and listing types of the R2 bucket binding.
  Each declaration whose members are data is a definition of the same name, its members in the
  order of the source.  R2Object, R2ObjectBody and R2Bucket, which have methods, are records of the
  platform theory, and R2Objects (line 2126), a list of such objects, is left out.
\<close>

definition R2ListOptions :: ts_type where
  "R2ListOptions =
    TObj
      [opt ''limit'' TNumber,
       opt ''prefix'' TString,
       opt ''cursor'' TString,
       opt ''delimiter'' TString,
       opt ''startAfter'' TString,
       opt ''include'' (TArr (TUnion [TStrLit ''httpMetadata'', TStrLit ''customMetadata'']))]"

definition R2UploadedPart :: ts_type where
  "R2UploadedPart =
    TObj [req ''partNumber'' TNumber, req ''etag'' TString]"

definition R2Range :: ts_type where
  "R2Range =
    TUnion
      [TObj [req ''offset'' TNumber, opt ''length'' TNumber],
       TObj [opt ''offset'' TNumber, req ''length'' TNumber],
       TObj [req ''suffix'' TNumber]]"

definition R2Conditional :: ts_type where
  "R2Conditional =
    TObj
      [opt ''etagMatches'' TString,
       opt ''etagDoesNotMatch'' TString,
       opt ''uploadedBefore'' (THost ''Date''),
       opt ''uploadedAfter'' (THost ''Date''),
       opt ''secondsGranularity'' TBoolean]"

definition R2GetOptions :: ts_type where
  "R2GetOptions =
    TObj
      [opt ''onlyIf'' (TUnion [R2Conditional, THost ''Headers'']),
       opt ''range'' (TUnion [R2Range, THost ''Headers'']),
       opt ''ssecKey'' (TUnion [THost ''ArrayBuffer'', TString])]"

definition R2HTTPMetadata :: ts_type where
  "R2HTTPMetadata =
    TObj
      [opt ''contentType'' TString,
       opt ''contentLanguage'' TString,
       opt ''contentDisposition'' TString,
       opt ''contentEncoding'' TString,
       opt ''cacheControl'' TString,
       opt ''cacheExpiry'' (THost ''Date'')]"

definition R2PutOptions :: ts_type where
  "R2PutOptions =
    TObj
      [opt ''onlyIf'' (TUnion [R2Conditional, THost ''Headers'']),
       opt ''httpMetadata'' (TUnion [R2HTTPMetadata, THost ''Headers'']),
       opt ''customMetadata'' (TRecord TString),
       opt ''md5'' (TUnion [TUnion [THost ''ArrayBuffer'', THost ''ArrayBufferView''], TString]),
       opt ''sha1'' (TUnion [TUnion [THost ''ArrayBuffer'', THost ''ArrayBufferView''], TString]),
       opt ''sha256'' (TUnion [TUnion [THost ''ArrayBuffer'', THost ''ArrayBufferView''], TString]),
       opt ''sha384'' (TUnion [TUnion [THost ''ArrayBuffer'', THost ''ArrayBufferView''], TString]),
       opt ''sha512'' (TUnion [TUnion [THost ''ArrayBuffer'', THost ''ArrayBufferView''], TString]),
       opt ''storageClass'' TString,
       opt ''ssecKey'' (TUnion [THost ''ArrayBuffer'', TString])]"

definition R2MultipartOptions :: ts_type where
  "R2MultipartOptions =
    TObj
      [opt ''httpMetadata'' (TUnion [R2HTTPMetadata, THost ''Headers'']),
       opt ''customMetadata'' (TRecord TString),
       opt ''storageClass'' TString,
       opt ''ssecKey'' (TUnion [THost ''ArrayBuffer'', TString])]"

definition R2StringChecksums :: ts_type where
  "R2StringChecksums =
    TObj
      [opt ''md5'' TString,
       opt ''sha1'' TString,
       opt ''sha256'' TString,
       opt ''sha384'' TString,
       opt ''sha512'' TString]"

definition R2UploadPartOptions :: ts_type where
  "R2UploadPartOptions =
    TObj [opt ''ssecKey'' (TUnion [THost ''ArrayBuffer'', TString])]"

end
