(* ===== verification/Ai_Chat_Types.thy ===== *)
theory Ai_Chat_Types
  imports Typing
begin

text \<open>
  Lines 4205 to 5212 of \<^verbatim>\<open>worker-configuration.d.ts\<close>: the task types of the AI binding, the chat completion types and the response and streaming event types.
  Each declaration whose members are data is a definition of the same name, its members in the
  order of the source; the ones built with \<^verbatim>\<open>NonNullable\<close> are in the theory of the model classes.
\<close>

definition AiImageClassificationInput :: ts_type where
  "AiImageClassificationInput =
    TObj [req ''image'' (TArr TNumber)]"

definition AiImageClassificationOutput :: ts_type where
  "AiImageClassificationOutput =
    TArr (TObj [opt ''score'' TNumber, opt ''label'' TString])"

definition AiImageToTextOutput :: ts_type where
  "AiImageToTextOutput =
    TObj [req ''description'' TString]"

definition AiImageTextToTextOutput :: ts_type where
  "AiImageTextToTextOutput =
    TObj [req ''description'' TString]"

definition AiMultimodalEmbeddingsInput :: ts_type where
  "AiMultimodalEmbeddingsInput =
    TObj [req ''image'' TString, req ''text'' (TArr TString)]"

definition AiIMultimodalEmbeddingsOutput :: ts_type where
  "AiIMultimodalEmbeddingsOutput =
    TObj [req ''data'' (TArr (TArr TNumber)), req ''shape'' (TArr TNumber)]"

definition AiObjectDetectionInput :: ts_type where
  "AiObjectDetectionInput =
    TObj [req ''image'' (TArr TNumber)]"

definition AiObjectDetectionOutput :: ts_type where
  "AiObjectDetectionOutput =
    TArr (TObj [opt ''score'' TNumber, opt ''label'' TString])"

definition AiSentenceSimilarityInput :: ts_type where
  "AiSentenceSimilarityInput =
    TObj [req ''source'' TString, req ''sentences'' (TArr TString)]"

definition AiSentenceSimilarityOutput :: ts_type where
  "AiSentenceSimilarityOutput =
    TArr TNumber"

definition AiAutomaticSpeechRecognitionInput :: ts_type where
  "AiAutomaticSpeechRecognitionInput =
    TObj [req ''audio'' (TArr TNumber)]"

definition AiAutomaticSpeechRecognitionOutput :: ts_type where
  "AiAutomaticSpeechRecognitionOutput =
    TObj
      [opt ''text'' TString,
       opt ''words'' (TArr (TObj [req ''word'' TString, req ''start'' TNumber, req ''end'' TNumber])),
       opt ''vtt'' TString]"

definition AiSummarizationInput :: ts_type where
  "AiSummarizationInput =
    TObj [req ''input_text'' TString, opt ''max_length'' TNumber]"

definition AiSummarizationOutput :: ts_type where
  "AiSummarizationOutput =
    TObj [req ''summary'' TString]"

definition AiTextClassificationInput :: ts_type where
  "AiTextClassificationInput =
    TObj [req ''text'' TString]"

definition AiTextClassificationOutput :: ts_type where
  "AiTextClassificationOutput =
    TArr (TObj [opt ''score'' TNumber, opt ''label'' TString])"

definition AiTextEmbeddingsInput :: ts_type where
  "AiTextEmbeddingsInput =
    TObj [req ''text'' (TUnion [TString, TArr TString])]"

definition AiTextEmbeddingsOutput :: ts_type where
  "AiTextEmbeddingsOutput =
    TObj [req ''shape'' (TArr TNumber), req ''data'' (TArr (TArr TNumber))]"

definition AiTextGenerationFunctionsInput :: ts_type where
  "AiTextGenerationFunctionsInput =
    TObj [req ''name'' TString, req ''code'' TString]"

definition AiTextGenerationResponseFormat :: ts_type where
  "AiTextGenerationResponseFormat =
    TObj [req ''type'' TString, opt ''json_schema'' TAny]"

definition AiTextGenerationToolLegacyOutput :: ts_type where
  "AiTextGenerationToolLegacyOutput =
    TObj [req ''name'' TString, req ''arguments'' TAny]"

definition AiTextGenerationToolOutput :: ts_type where
  "AiTextGenerationToolOutput =
    TObj
      [req ''id'' TString,
       req ''type'' (TStrLit ''function''),
       req ''function'' (TObj [req ''name'' TString, req ''arguments'' TString])]"

definition UsageTags :: ts_type where
  "UsageTags =
    TObj
      [req ''prompt_tokens'' TNumber,
       req ''completion_tokens'' TNumber,
       req ''total_tokens'' TNumber]"

definition AiTextGenerationOutput :: ts_type where
  "AiTextGenerationOutput =
    TObj
      [opt ''response'' TString,
       opt ''tool_calls'' (TInter [TArr AiTextGenerationToolLegacyOutput, TArr AiTextGenerationToolOutput]),
       opt ''usage'' UsageTags]"

definition AiTextToSpeechInput :: ts_type where
  "AiTextToSpeechInput =
    TObj [req ''prompt'' TString, opt ''lang'' TString]"

definition AiTextToSpeechOutput :: ts_type where
  "AiTextToSpeechOutput =
    TUnion [THost ''Uint8Array'', TObj [req ''audio'' TString]]"

definition AiTextToImageInput :: ts_type where
  "AiTextToImageInput =
    TObj
      [req ''prompt'' TString,
       opt ''negative_prompt'' TString,
       opt ''height'' TNumber,
       opt ''width'' TNumber,
       opt ''image'' (TArr TNumber),
       opt ''image_b64'' TString,
       opt ''mask'' (TArr TNumber),
       opt ''num_steps'' TNumber,
       opt ''strength'' TNumber,
       opt ''guidance'' TNumber,
       opt ''seed'' TNumber]"

definition AiTranslationInput :: ts_type where
  "AiTranslationInput =
    TObj [req ''text'' TString, req ''target_lang'' TString, opt ''source_lang'' TString]"

definition AiTranslationOutput :: ts_type where
  "AiTranslationOutput =
    TObj [opt ''translated_text'' TString]"

definition ChatCompletionContentPartText :: ts_type where
  "ChatCompletionContentPartText =
    TObj [req ''type'' (TStrLit ''text''), req ''text'' TString]"

definition ChatCompletionContentPartImage :: ts_type where
  "ChatCompletionContentPartImage =
    TObj
      [req ''type'' (TStrLit ''image_url''),
       req ''image_url'' (TObj
           [req ''url'' TString,
            opt ''detail'' (TUnion [TStrLit ''auto'', TStrLit ''low'', TStrLit ''high''])])]"

definition ChatCompletionContentPartInputAudio :: ts_type where
  "ChatCompletionContentPartInputAudio =
    TObj
      [req ''type'' (TStrLit ''input_audio''),
       req ''input_audio'' (TObj
           [req ''data'' TString,
            req ''format'' (TUnion [TStrLit ''wav'', TStrLit ''mp3''])])]"

definition ChatCompletionContentPartFile :: ts_type where
  "ChatCompletionContentPartFile =
    TObj
      [req ''type'' (TStrLit ''file''),
       req ''file'' (TObj [opt ''file_data'' TString, opt ''file_id'' TString, opt ''filename'' TString])]"

definition ChatCompletionContentPartRefusal :: ts_type where
  "ChatCompletionContentPartRefusal =
    TObj [req ''type'' (TStrLit ''refusal''), req ''refusal'' TString]"

definition ChatCompletionContentPart :: ts_type where
  "ChatCompletionContentPart =
    TUnion
      [ChatCompletionContentPartText,
       ChatCompletionContentPartImage,
       ChatCompletionContentPartInputAudio,
       ChatCompletionContentPartFile]"

definition FunctionDefinition :: ts_type where
  "FunctionDefinition =
    TObj
      [req ''name'' TString,
       opt ''description'' TString,
       opt ''parameters'' (TRecord TAny),
       opt ''strict'' (TUnion [TBoolean, TNull])]"

definition ChatCompletionFunctionTool :: ts_type where
  "ChatCompletionFunctionTool =
    TObj [req ''type'' (TStrLit ''function''), req ''function'' FunctionDefinition]"

definition ChatCompletionCustomToolGrammarFormat :: ts_type where
  "ChatCompletionCustomToolGrammarFormat =
    TObj
      [req ''type'' (TStrLit ''grammar''),
       req ''grammar'' (TObj
           [req ''definition'' TString,
            req ''syntax'' (TUnion [TStrLit ''lark'', TStrLit ''regex''])])]"

definition ChatCompletionCustomToolTextFormat :: ts_type where
  "ChatCompletionCustomToolTextFormat =
    TObj [req ''type'' (TStrLit ''text'')]"

definition ChatCompletionCustomToolFormat :: ts_type where
  "ChatCompletionCustomToolFormat =
    TUnion [ChatCompletionCustomToolTextFormat, ChatCompletionCustomToolGrammarFormat]"

definition ChatCompletionCustomTool :: ts_type where
  "ChatCompletionCustomTool =
    TObj
      [req ''type'' (TStrLit ''custom''),
       req ''custom'' (TObj
           [req ''name'' TString,
            opt ''description'' TString,
            opt ''format'' ChatCompletionCustomToolFormat])]"

definition ChatCompletionTool :: ts_type where
  "ChatCompletionTool =
    TUnion [ChatCompletionFunctionTool, ChatCompletionCustomTool]"

definition ChatCompletionMessageFunctionToolCall :: ts_type where
  "ChatCompletionMessageFunctionToolCall =
    TObj
      [req ''id'' TString,
       req ''type'' (TStrLit ''function''),
       req ''function'' (TObj [req ''name'' TString, req ''arguments'' TString])]"

definition ChatCompletionMessageCustomToolCall :: ts_type where
  "ChatCompletionMessageCustomToolCall =
    TObj
      [req ''id'' TString,
       req ''type'' (TStrLit ''custom''),
       req ''custom'' (TObj [req ''name'' TString, req ''input'' TString])]"

definition ChatCompletionMessageToolCall :: ts_type where
  "ChatCompletionMessageToolCall =
    TUnion [ChatCompletionMessageFunctionToolCall, ChatCompletionMessageCustomToolCall]"

definition ChatCompletionToolChoiceFunction :: ts_type where
  "ChatCompletionToolChoiceFunction =
    TObj [req ''type'' (TStrLit ''function''), req ''function'' (TObj [req ''name'' TString])]"

definition ChatCompletionToolChoiceCustom :: ts_type where
  "ChatCompletionToolChoiceCustom =
    TObj [req ''type'' (TStrLit ''custom''), req ''custom'' (TObj [req ''name'' TString])]"

definition ChatCompletionToolChoiceAllowedTools :: ts_type where
  "ChatCompletionToolChoiceAllowedTools =
    TObj
      [req ''type'' (TStrLit ''allowed_tools''),
       req ''allowed_tools'' (TObj
           [req ''mode'' (TUnion [TStrLit ''auto'', TStrLit ''required'']),
            req ''tools'' (TArr (TRecord TAny))])]"

definition ChatCompletionToolChoiceOption :: ts_type where
  "ChatCompletionToolChoiceOption =
    TUnion
      [TStrLit ''none'',
       TStrLit ''auto'',
       TStrLit ''required'',
       ChatCompletionToolChoiceFunction,
       ChatCompletionToolChoiceCustom,
       ChatCompletionToolChoiceAllowedTools]"

definition DeveloperMessage :: ts_type where
  "DeveloperMessage =
    TObj
      [req ''role'' (TStrLit ''developer''),
       req ''content'' (TUnion [TString, TArr (TObj [req ''type'' (TStrLit ''text''), req ''text'' TString])]),
       opt ''name'' TString]"

definition SystemMessage :: ts_type where
  "SystemMessage =
    TObj
      [req ''role'' (TStrLit ''system''),
       req ''content'' (TUnion [TString, TArr (TObj [req ''type'' (TStrLit ''text''), req ''text'' TString])]),
       opt ''name'' TString]"

definition UserMessageContentPart :: ts_type where
  "UserMessageContentPart =
    TObj
      [req ''type'' (TUnion
           [TStrLit ''text'',
            TStrLit ''image_url'',
            TStrLit ''input_audio'',
            TStrLit ''file'']),
       opt ''text'' TString,
       opt ''image_url'' (TObj
           [opt ''url'' TString,
            opt ''detail'' (TUnion [TStrLit ''auto'', TStrLit ''low'', TStrLit ''high''])]),
       opt ''input_audio'' (TObj
           [opt ''data'' TString,
            opt ''format'' (TUnion [TStrLit ''wav'', TStrLit ''mp3''])]),
       opt ''file'' (TObj [opt ''file_data'' TString, opt ''file_id'' TString, opt ''filename'' TString])]"

definition UserMessage :: ts_type where
  "UserMessage =
    TObj
      [req ''role'' (TStrLit ''user''),
       req ''content'' (TUnion [TString, TArr UserMessageContentPart]),
       opt ''name'' TString]"

definition AssistantMessageContentPart :: ts_type where
  "AssistantMessageContentPart =
    TObj
      [req ''type'' (TUnion [TStrLit ''text'', TStrLit ''refusal'']),
       opt ''text'' TString,
       opt ''refusal'' TString]"

definition AssistantMessage :: ts_type where
  "AssistantMessage =
    TObj
      [req ''role'' (TStrLit ''assistant''),
       opt ''content'' (TUnion [TString, TNull, TArr AssistantMessageContentPart]),
       opt ''refusal'' (TUnion [TString, TNull]),
       opt ''name'' TString,
       opt ''audio'' (TObj [req ''id'' TString]),
       opt ''tool_calls'' (TArr ChatCompletionMessageToolCall),
       opt ''function_call'' (TObj [req ''name'' TString, req ''arguments'' TString])]"

definition ToolMessage :: ts_type where
  "ToolMessage =
    TObj
      [req ''role'' (TStrLit ''tool''),
       req ''content'' (TUnion [TString, TArr (TObj [req ''type'' (TStrLit ''text''), req ''text'' TString])]),
       req ''tool_call_id'' TString]"

definition FunctionMessage :: ts_type where
  "FunctionMessage =
    TObj [req ''role'' (TStrLit ''function''), req ''content'' TString, req ''name'' TString]"

definition ChatCompletionMessageParam :: ts_type where
  "ChatCompletionMessageParam =
    TUnion
      [DeveloperMessage,
       SystemMessage,
       UserMessage,
       AssistantMessage,
       ToolMessage,
       FunctionMessage]"

definition ChatCompletionsResponseFormatText :: ts_type where
  "ChatCompletionsResponseFormatText =
    TObj [req ''type'' (TStrLit ''text'')]"

definition ChatCompletionsResponseFormatJSONObject :: ts_type where
  "ChatCompletionsResponseFormatJSONObject =
    TObj [req ''type'' (TStrLit ''json_object'')]"

definition ResponseFormatJSONSchema :: ts_type where
  "ResponseFormatJSONSchema =
    TObj
      [req ''type'' (TStrLit ''json_schema''),
       req ''json_schema'' (TObj
           [req ''name'' TString,
            opt ''description'' TString,
            opt ''schema'' (TRecord TAny),
            opt ''strict'' (TUnion [TBoolean, TNull])])]"

definition ResponseFormat :: ts_type where
  "ResponseFormat =
    TUnion
      [ChatCompletionsResponseFormatText,
       ChatCompletionsResponseFormatJSONObject,
       ResponseFormatJSONSchema]"

definition ChatCompletionsStreamOptions :: ts_type where
  "ChatCompletionsStreamOptions =
    TObj [opt ''include_usage'' TBoolean, opt ''include_obfuscation'' TBoolean]"

definition PredictionContent :: ts_type where
  "PredictionContent =
    TObj
      [req ''type'' (TStrLit ''content''),
       req ''content'' (TUnion [TString, TArr (TObj [req ''type'' (TStrLit ''text''), req ''text'' TString])])]"

definition AudioParams :: ts_type where
  "AudioParams =
    TObj
      [req ''voice'' (TUnion [TString, TObj [req ''id'' TString]]),
       req ''format'' (TUnion
           [TStrLit ''wav'',
            TStrLit ''aac'',
            TStrLit ''mp3'',
            TStrLit ''flac'',
            TStrLit ''opus'',
            TStrLit ''pcm16''])]"

definition WebSearchUserLocation :: ts_type where
  "WebSearchUserLocation =
    TObj
      [req ''type'' (TStrLit ''approximate''),
       req ''approximate'' (TObj
           [opt ''city'' TString,
            opt ''country'' TString,
            opt ''region'' TString,
            opt ''timezone'' TString])]"

definition WebSearchOptions :: ts_type where
  "WebSearchOptions =
    TObj
      [opt ''search_context_size'' (TUnion [TStrLit ''low'', TStrLit ''medium'', TStrLit ''high'']),
       opt ''user_location'' WebSearchUserLocation]"

definition ChatTemplateKwargs :: ts_type where
  "ChatTemplateKwargs =
    TObj [opt ''enable_thinking'' TBoolean, opt ''clear_thinking'' TBoolean]"

definition ChatCompletionsCommonOptions :: ts_type where
  "ChatCompletionsCommonOptions =
    TObj
      [opt ''model'' TString,
       opt ''audio'' AudioParams,
       opt ''frequency_penalty'' (TUnion [TNumber, TNull]),
       opt ''logit_bias'' (TUnion [TRecord TAny, TNull]),
       opt ''logprobs'' (TUnion [TBoolean, TNull]),
       opt ''top_logprobs'' (TUnion [TNumber, TNull]),
       opt ''max_tokens'' (TUnion [TNumber, TNull]),
       opt ''max_completion_tokens'' (TUnion [TNumber, TNull]),
       opt ''metadata'' (TUnion [TRecord TAny, TNull]),
       opt ''modalities'' (TUnion [TArr (TUnion [TStrLit ''text'', TStrLit ''audio'']), TNull]),
       opt ''n'' (TUnion [TNumber, TNull]),
       opt ''parallel_tool_calls'' TBoolean,
       opt ''prediction'' PredictionContent,
       opt ''presence_penalty'' (TUnion [TNumber, TNull]),
       opt ''reasoning_effort'' (TUnion [TStrLit ''low'', TStrLit ''medium'', TStrLit ''high'', TNull]),
       opt ''chat_template_kwargs'' ChatTemplateKwargs,
       opt ''response_format'' ResponseFormat,
       opt ''seed'' (TUnion [TNumber, TNull]),
       opt ''service_tier'' (TUnion
           [TStrLit ''auto'',
            TStrLit ''default'',
            TStrLit ''flex'',
            TStrLit ''scale'',
            TStrLit ''priority'',
            TNull]),
       opt ''stop'' (TUnion [TString, TArr TString, TNull]),
       opt ''store'' (TUnion [TBoolean, TNull]),
       opt ''stream'' (TUnion [TBoolean, TNull]),
       opt ''stream_options'' ChatCompletionsStreamOptions,
       opt ''temperature'' (TUnion [TNumber, TNull]),
       opt ''tool_choice'' ChatCompletionToolChoiceOption,
       opt ''tools'' (TArr ChatCompletionTool),
       opt ''top_p'' (TUnion [TNumber, TNull]),
       opt ''user'' TString,
       opt ''web_search_options'' WebSearchOptions,
       opt ''function_call'' (TUnion [TStrLit ''none'', TStrLit ''auto'', TObj [req ''name'' TString]]),
       opt ''functions'' (TArr FunctionDefinition)]"

definition PromptTokensDetails :: ts_type where
  "PromptTokensDetails =
    TObj [opt ''cached_tokens'' TNumber, opt ''audio_tokens'' TNumber]"

definition CompletionTokensDetails :: ts_type where
  "CompletionTokensDetails =
    TObj
      [opt ''reasoning_tokens'' TNumber,
       opt ''audio_tokens'' TNumber,
       opt ''accepted_prediction_tokens'' TNumber,
       opt ''rejected_prediction_tokens'' TNumber]"

definition CompletionUsage :: ts_type where
  "CompletionUsage =
    TObj
      [req ''prompt_tokens'' TNumber,
       req ''completion_tokens'' TNumber,
       req ''total_tokens'' TNumber,
       opt ''prompt_tokens_details'' PromptTokensDetails,
       opt ''completion_tokens_details'' CompletionTokensDetails]"

definition ChatCompletionTopLogprob :: ts_type where
  "ChatCompletionTopLogprob =
    TObj
      [req ''token'' TString,
       req ''logprob'' TNumber,
       req ''bytes'' (TUnion [TArr TNumber, TNull])]"

definition ChatCompletionTokenLogprob :: ts_type where
  "ChatCompletionTokenLogprob =
    TObj
      [req ''token'' TString,
       req ''logprob'' TNumber,
       req ''bytes'' (TUnion [TArr TNumber, TNull]),
       req ''top_logprobs'' (TArr ChatCompletionTopLogprob)]"

definition ChatCompletionAudio :: ts_type where
  "ChatCompletionAudio =
    TObj
      [req ''id'' TString,
       req ''data'' TString,
       req ''expires_at'' TNumber,
       req ''transcript'' TString]"

definition ChatCompletionUrlCitation :: ts_type where
  "ChatCompletionUrlCitation =
    TObj
      [req ''type'' (TStrLit ''url_citation''),
       req ''url_citation'' (TObj
           [req ''url'' TString,
            req ''title'' TString,
            req ''start_index'' TNumber,
            req ''end_index'' TNumber])]"

definition ChatCompletionResponseMessage :: ts_type where
  "ChatCompletionResponseMessage =
    TObj
      [req ''role'' (TStrLit ''assistant''),
       req ''content'' (TUnion [TString, TNull]),
       req ''refusal'' (TUnion [TString, TNull]),
       opt ''annotations'' (TArr ChatCompletionUrlCitation),
       opt ''audio'' ChatCompletionAudio,
       opt ''tool_calls'' (TArr ChatCompletionMessageToolCall),
       opt ''function_call'' (TUnion [TObj [req ''name'' TString, req ''arguments'' TString], TNull])]"

definition ChatCompletionLogprobs :: ts_type where
  "ChatCompletionLogprobs =
    TObj
      [req ''content'' (TUnion [TArr ChatCompletionTokenLogprob, TNull]),
       opt ''refusal'' (TUnion [TArr ChatCompletionTokenLogprob, TNull])]"

definition ChatCompletionChoice :: ts_type where
  "ChatCompletionChoice =
    TObj
      [req ''index'' TNumber,
       req ''message'' ChatCompletionResponseMessage,
       req ''finish_reason'' (TUnion
           [TStrLit ''stop'',
            TStrLit ''length'',
            TStrLit ''tool_calls'',
            TStrLit ''content_filter'',
            TStrLit ''function_call'']),
       req ''logprobs'' (TUnion [ChatCompletionLogprobs, TNull])]"

definition ChatCompletionsPromptInput :: ts_type where
  "ChatCompletionsPromptInput =
    TInter [TObj [req ''prompt'' TString], ChatCompletionsCommonOptions]"

definition ChatCompletionsMessagesInput :: ts_type where
  "ChatCompletionsMessagesInput =
    TInter
      [TObj [req ''messages'' (TArr ChatCompletionMessageParam)],
       ChatCompletionsCommonOptions]"

definition ChatCompletionsOutput :: ts_type where
  "ChatCompletionsOutput =
    TObj
      [req ''id'' TString,
       req ''object'' TString,
       req ''created'' TNumber,
       req ''model'' TString,
       req ''choices'' (TArr ChatCompletionChoice),
       opt ''usage'' CompletionUsage,
       opt ''system_fingerprint'' (TUnion [TString, TNull]),
       opt ''service_tier'' (TUnion
           [TStrLit ''auto'',
            TStrLit ''default'',
            TStrLit ''flex'',
            TStrLit ''scale'',
            TStrLit ''priority'',
            TNull])]"

definition ReasoningEffort :: ts_type where
  "ReasoningEffort =
    TUnion [TStrLit ''minimal'', TStrLit ''low'', TStrLit ''medium'', TStrLit ''high'', TNull]"

definition Reasoning :: ts_type where
  "Reasoning =
    TObj
      [opt ''effort'' (TUnion [ReasoningEffort, TNull]),
       opt ''generate_summary'' (TUnion [TStrLit ''auto'', TStrLit ''concise'', TStrLit ''detailed'', TNull]),
       opt ''summary'' (TUnion [TStrLit ''auto'', TStrLit ''concise'', TStrLit ''detailed'', TNull])]"

definition ResponseConversationParam :: ts_type where
  "ResponseConversationParam =
    TObj [req ''id'' TString]"

definition ResponseIncludable :: ts_type where
  "ResponseIncludable =
    TUnion
      [TStrLit ''message.input_image.image_url'',
       TStrLit ''message.output_text.logprobs'']"

definition ResponseInputImage :: ts_type where
  "ResponseInputImage =
    TObj
      [req ''detail'' (TUnion [TStrLit ''low'', TStrLit ''high'', TStrLit ''auto'']),
       req ''type'' (TStrLit ''input_image''),
       opt ''image_url'' (TUnion [TString, TNull])]"

definition ResponseInputText :: ts_type where
  "ResponseInputText =
    TObj [req ''text'' TString, req ''type'' (TStrLit ''input_text'')]"

definition ResponseInputContent :: ts_type where
  "ResponseInputContent =
    TUnion [ResponseInputText, ResponseInputImage]"

definition ResponseInputMessageContentList :: ts_type where
  "ResponseInputMessageContentList =
    TArr ResponseInputContent"

definition EasyInputMessage :: ts_type where
  "EasyInputMessage =
    TObj
      [req ''content'' (TUnion [TString, ResponseInputMessageContentList]),
       req ''role'' (TUnion
           [TStrLit ''user'',
            TStrLit ''assistant'',
            TStrLit ''system'',
            TStrLit ''developer'']),
       opt ''type'' (TStrLit ''message'')]"

definition ResponseFunctionToolCall :: ts_type where
  "ResponseFunctionToolCall =
    TObj
      [req ''arguments'' TString,
       req ''call_id'' TString,
       req ''name'' TString,
       req ''type'' (TStrLit ''function_call''),
       opt ''id'' TString,
       opt ''status'' (TUnion [TStrLit ''in_progress'', TStrLit ''completed'', TStrLit ''incomplete''])]"

definition ResponseInputImageContent :: ts_type where
  "ResponseInputImageContent =
    TObj
      [req ''type'' (TStrLit ''input_image''),
       opt ''detail'' (TUnion [TStrLit ''low'', TStrLit ''high'', TStrLit ''auto'', TNull]),
       opt ''image_url'' (TUnion [TString, TNull])]"

definition ResponseInputTextContent :: ts_type where
  "ResponseInputTextContent =
    TObj [req ''text'' TString, req ''type'' (TStrLit ''input_text'')]"

definition ResponseFunctionCallOutputItem :: ts_type where
  "ResponseFunctionCallOutputItem =
    TUnion [ResponseInputTextContent, ResponseInputImageContent]"

definition ResponseFunctionCallOutputItemList :: ts_type where
  "ResponseFunctionCallOutputItemList =
    TArr ResponseFunctionCallOutputItem"

definition ResponseInputItemFunctionCallOutput :: ts_type where
  "ResponseInputItemFunctionCallOutput =
    TObj
      [req ''call_id'' TString,
       req ''output'' (TUnion [TString, ResponseFunctionCallOutputItemList]),
       req ''type'' (TStrLit ''function_call_output''),
       opt ''id'' (TUnion [TString, TNull]),
       opt ''status'' (TUnion [TStrLit ''in_progress'', TStrLit ''completed'', TStrLit ''incomplete'', TNull])]"

definition ResponseInputItemMessage :: ts_type where
  "ResponseInputItemMessage =
    TObj
      [req ''content'' ResponseInputMessageContentList,
       req ''role'' (TUnion [TStrLit ''user'', TStrLit ''system'', TStrLit ''developer'']),
       opt ''status'' (TUnion [TStrLit ''in_progress'', TStrLit ''completed'', TStrLit ''incomplete'']),
       opt ''type'' (TStrLit ''message'')]"

definition ResponseOutputRefusal :: ts_type where
  "ResponseOutputRefusal =
    TObj [req ''refusal'' TString, req ''type'' (TStrLit ''refusal'')]"

definition TopLogprob :: ts_type where
  "TopLogprob =
    TObj [opt ''token'' TString, opt ''logprob'' TNumber]"

definition Logprob :: ts_type where
  "Logprob =
    TObj
      [req ''token'' TString,
       req ''logprob'' TNumber,
       opt ''top_logprobs'' (TArr TopLogprob)]"

definition ResponseOutputText :: ts_type where
  "ResponseOutputText =
    TObj
      [req ''text'' TString,
       req ''type'' (TStrLit ''output_text''),
       opt ''logprobs'' (TArr Logprob)]"

definition ResponseOutputMessage :: ts_type where
  "ResponseOutputMessage =
    TObj
      [req ''id'' TString,
       req ''content'' (TArr (TUnion [ResponseOutputText, ResponseOutputRefusal])),
       req ''role'' (TStrLit ''assistant''),
       req ''status'' (TUnion [TStrLit ''in_progress'', TStrLit ''completed'', TStrLit ''incomplete'']),
       req ''type'' (TStrLit ''message'')]"

definition ResponseReasoningSummaryItem :: ts_type where
  "ResponseReasoningSummaryItem =
    TObj [req ''text'' TString, req ''type'' (TStrLit ''summary_text'')]"

definition ResponseReasoningContentItem :: ts_type where
  "ResponseReasoningContentItem =
    TObj [req ''text'' TString, req ''type'' (TStrLit ''reasoning_text'')]"

definition ResponseReasoningItem :: ts_type where
  "ResponseReasoningItem =
    TObj
      [req ''id'' TString,
       req ''summary'' (TArr ResponseReasoningSummaryItem),
       req ''type'' (TStrLit ''reasoning''),
       opt ''content'' (TArr ResponseReasoningContentItem),
       opt ''encrypted_content'' (TUnion [TString, TNull]),
       opt ''status'' (TUnion [TStrLit ''in_progress'', TStrLit ''completed'', TStrLit ''incomplete''])]"

definition ResponseInputItem :: ts_type where
  "ResponseInputItem =
    TUnion
      [EasyInputMessage,
       ResponseInputItemMessage,
       ResponseOutputMessage,
       ResponseFunctionToolCall,
       ResponseInputItemFunctionCallOutput,
       ResponseReasoningItem]"

definition ResponseInput :: ts_type where
  "ResponseInput =
    TArr ResponseInputItem"

definition ResponseFormatText :: ts_type where
  "ResponseFormatText =
    TObj [req ''type'' (TStrLit ''text'')]"

definition ResponseFormatJSONObject :: ts_type where
  "ResponseFormatJSONObject =
    TObj [req ''type'' (TStrLit ''json_object'')]"

definition ResponseFormatTextJSONSchemaConfig :: ts_type where
  "ResponseFormatTextJSONSchemaConfig =
    TObj
      [req ''name'' TString,
       req ''schema'' (TRecord TAny),
       req ''type'' (TStrLit ''json_schema''),
       opt ''description'' TString,
       opt ''strict'' (TUnion [TBoolean, TNull])]"

definition ResponseFormatTextConfig :: ts_type where
  "ResponseFormatTextConfig =
    TUnion [ResponseFormatText, ResponseFormatTextJSONSchemaConfig, ResponseFormatJSONObject]"

definition ResponseTextConfig :: ts_type where
  "ResponseTextConfig =
    TObj
      [opt ''format'' ResponseFormatTextConfig,
       opt ''verbosity'' (TUnion [TStrLit ''low'', TStrLit ''medium'', TStrLit ''high'', TNull])]"

definition ResponsesFunctionTool :: ts_type where
  "ResponsesFunctionTool =
    TObj
      [req ''name'' TString,
       req ''parameters'' (TUnion [TRecord TAny, TNull]),
       req ''strict'' (TUnion [TBoolean, TNull]),
       req ''type'' (TStrLit ''function''),
       opt ''description'' (TUnion [TString, TNull])]"

definition Tool :: ts_type where
  "Tool =
    ResponsesFunctionTool"

definition ToolChoiceFunction :: ts_type where
  "ToolChoiceFunction =
    TObj [req ''name'' TString, req ''type'' (TStrLit ''function'')]"

definition ToolChoiceOptions :: ts_type where
  "ToolChoiceOptions =
    TStrLit ''none''"

definition StreamOptions :: ts_type where
  "StreamOptions =
    TObj [opt ''include_obfuscation'' TBoolean]"

definition ResponsesInput :: ts_type where
  "ResponsesInput =
    TObj
      [opt ''background'' (TUnion [TBoolean, TNull]),
       opt ''conversation'' (TUnion [TString, ResponseConversationParam, TNull]),
       opt ''include'' (TUnion [TArr ResponseIncludable, TNull]),
       opt ''input'' (TUnion [TString, ResponseInput]),
       opt ''instructions'' (TUnion [TString, TNull]),
       opt ''max_output_tokens'' (TUnion [TNumber, TNull]),
       opt ''parallel_tool_calls'' (TUnion [TBoolean, TNull]),
       opt ''previous_response_id'' (TUnion [TString, TNull]),
       opt ''prompt_cache_key'' TString,
       opt ''reasoning'' (TUnion [Reasoning, TNull]),
       opt ''safety_identifier'' TString,
       opt ''service_tier'' (TUnion
           [TStrLit ''auto'',
            TStrLit ''default'',
            TStrLit ''flex'',
            TStrLit ''scale'',
            TStrLit ''priority'',
            TNull]),
       opt ''stream'' (TUnion [TBoolean, TNull]),
       opt ''stream_options'' (TUnion [StreamOptions, TNull]),
       opt ''temperature'' (TUnion [TNumber, TNull]),
       opt ''text'' ResponseTextConfig,
       opt ''tool_choice'' (TUnion [ToolChoiceOptions, ToolChoiceFunction]),
       opt ''tools'' (TArr Tool),
       opt ''top_p'' (TUnion [TNumber, TNull]),
       opt ''truncation'' (TUnion [TStrLit ''auto'', TStrLit ''disabled'', TNull])]"

definition ResponseIncompleteDetails :: ts_type where
  "ResponseIncompleteDetails =
    TObj [opt ''reason'' (TUnion [TStrLit ''max_output_tokens'', TStrLit ''content_filter''])]"

definition ResponsePrompt :: ts_type where
  "ResponsePrompt =
    TObj
      [req ''id'' TString,
       opt ''variables'' (TUnion [TRecord (TUnion [TString, ResponseInputText, ResponseInputImage]), TNull]),
       opt ''version'' (TUnion [TString, TNull])]"

definition ResponseError :: ts_type where
  "ResponseError =
    TObj
      [req ''code'' (TUnion
           [TStrLit ''server_error'',
            TStrLit ''rate_limit_exceeded'',
            TStrLit ''invalid_prompt'',
            TStrLit ''vector_store_timeout'',
            TStrLit ''invalid_image'',
            TStrLit ''invalid_image_format'',
            TStrLit ''invalid_base64_image'',
            TStrLit ''invalid_image_url'',
            TStrLit ''image_too_large'',
            TStrLit ''image_too_small'',
            TStrLit ''image_parse_error'',
            TStrLit ''image_content_policy_violation'',
            TStrLit ''invalid_image_mode'',
            TStrLit ''image_file_too_large'',
            TStrLit ''unsupported_image_media_type'',
            TStrLit ''empty_image_file'',
            TStrLit ''failed_to_download_image'',
            TStrLit ''image_file_not_found'']),
       req ''message'' TString]"

definition ResponseOutputItem :: ts_type where
  "ResponseOutputItem =
    TUnion [ResponseOutputMessage, ResponseFunctionToolCall, ResponseReasoningItem]"

definition ResponseStatus :: ts_type where
  "ResponseStatus =
    TUnion
      [TStrLit ''completed'',
       TStrLit ''failed'',
       TStrLit ''in_progress'',
       TStrLit ''cancelled'',
       TStrLit ''queued'',
       TStrLit ''incomplete'']"

definition ResponseUsage :: ts_type where
  "ResponseUsage =
    TObj
      [req ''input_tokens'' TNumber,
       req ''output_tokens'' TNumber,
       req ''total_tokens'' TNumber]"

definition ResponsesOutput :: ts_type where
  "ResponsesOutput =
    TObj
      [opt ''id'' TString,
       opt ''created_at'' TNumber,
       opt ''output_text'' TString,
       opt ''error'' (TUnion [ResponseError, TNull]),
       opt ''incomplete_details'' (TUnion [ResponseIncompleteDetails, TNull]),
       opt ''instructions'' (TUnion [TString, TArr ResponseInputItem, TNull]),
       opt ''object'' (TStrLit ''response''),
       opt ''output'' (TArr ResponseOutputItem),
       opt ''parallel_tool_calls'' TBoolean,
       opt ''temperature'' (TUnion [TNumber, TNull]),
       opt ''tool_choice'' (TUnion [ToolChoiceOptions, ToolChoiceFunction]),
       opt ''tools'' (TArr Tool),
       opt ''top_p'' (TUnion [TNumber, TNull]),
       opt ''max_output_tokens'' (TUnion [TNumber, TNull]),
       opt ''previous_response_id'' (TUnion [TString, TNull]),
       opt ''prompt'' (TUnion [ResponsePrompt, TNull]),
       opt ''reasoning'' (TUnion [Reasoning, TNull]),
       opt ''safety_identifier'' TString,
       opt ''service_tier'' (TUnion
           [TStrLit ''auto'',
            TStrLit ''default'',
            TStrLit ''flex'',
            TStrLit ''scale'',
            TStrLit ''priority'',
            TNull]),
       opt ''status'' ResponseStatus,
       opt ''text'' ResponseTextConfig,
       opt ''truncation'' (TUnion [TStrLit ''auto'', TStrLit ''disabled'', TNull]),
       opt ''usage'' ResponseUsage]"

definition ResponseContentReasoningText :: ts_type where
  "ResponseContentReasoningText =
    TObj [req ''text'' TString, req ''type'' (TStrLit ''reasoning_text'')]"

definition ResponseContent :: ts_type where
  "ResponseContent =
    TUnion
      [ResponseInputText,
       ResponseInputImage,
       ResponseOutputText,
       ResponseOutputRefusal,
       ResponseContentReasoningText]"

definition ResponseCreatedEvent :: ts_type where
  "ResponseCreatedEvent =
    TObj
      [req ''response'' (THost ''Response''),
       req ''sequence_number'' TNumber,
       req ''type'' (TStrLit ''response.created'')]"

definition ResponseCustomToolCallOutput :: ts_type where
  "ResponseCustomToolCallOutput =
    TObj
      [req ''call_id'' TString,
       req ''output'' (TUnion [TString, TArr (TUnion [ResponseInputText, ResponseInputImage])]),
       req ''type'' (TStrLit ''custom_tool_call_output''),
       opt ''id'' TString]"

definition ResponseErrorEvent :: ts_type where
  "ResponseErrorEvent =
    TObj
      [req ''code'' (TUnion [TString, TNull]),
       req ''message'' TString,
       req ''param'' (TUnion [TString, TNull]),
       req ''sequence_number'' TNumber,
       req ''type'' (TStrLit ''error'')]"

definition ResponseFailedEvent :: ts_type where
  "ResponseFailedEvent =
    TObj
      [req ''response'' (THost ''Response''),
       req ''sequence_number'' TNumber,
       req ''type'' (TStrLit ''response.failed'')]"

definition ResponseFunctionCallArgumentsDeltaEvent :: ts_type where
  "ResponseFunctionCallArgumentsDeltaEvent =
    TObj
      [req ''delta'' TString,
       req ''item_id'' TString,
       req ''output_index'' TNumber,
       req ''sequence_number'' TNumber,
       req ''type'' (TStrLit ''response.function_call_arguments.delta'')]"

definition ResponseFunctionCallArgumentsDoneEvent :: ts_type where
  "ResponseFunctionCallArgumentsDoneEvent =
    TObj
      [req ''arguments'' TString,
       req ''item_id'' TString,
       req ''name'' TString,
       req ''output_index'' TNumber,
       req ''sequence_number'' TNumber,
       req ''type'' (TStrLit ''response.function_call_arguments.done'')]"

definition ResponseFunctionToolCallItem :: ts_type where
  "ResponseFunctionToolCallItem =
    TInter [ResponseFunctionToolCall, TObj [req ''id'' TString]]"

definition ResponseFunctionToolCallOutputItem :: ts_type where
  "ResponseFunctionToolCallOutputItem =
    TObj
      [req ''id'' TString,
       req ''call_id'' TString,
       req ''output'' (TUnion [TString, TArr (TUnion [ResponseInputText, ResponseInputImage])]),
       req ''type'' (TStrLit ''function_call_output''),
       opt ''status'' (TUnion [TStrLit ''in_progress'', TStrLit ''completed'', TStrLit ''incomplete''])]"

definition ResponseIncompleteEvent :: ts_type where
  "ResponseIncompleteEvent =
    TObj
      [req ''response'' (THost ''Response''),
       req ''sequence_number'' TNumber,
       req ''type'' (TStrLit ''response.incomplete'')]"

definition ResponseInputMessageItem :: ts_type where
  "ResponseInputMessageItem =
    TObj
      [req ''id'' TString,
       req ''content'' ResponseInputMessageContentList,
       req ''role'' (TUnion [TStrLit ''user'', TStrLit ''system'', TStrLit ''developer'']),
       opt ''status'' (TUnion [TStrLit ''in_progress'', TStrLit ''completed'', TStrLit ''incomplete'']),
       opt ''type'' (TStrLit ''message'')]"

definition ResponseItem :: ts_type where
  "ResponseItem =
    TUnion
      [ResponseInputMessageItem,
       ResponseOutputMessage,
       ResponseFunctionToolCallItem,
       ResponseFunctionToolCallOutputItem]"

definition ResponseOutputItemAddedEvent :: ts_type where
  "ResponseOutputItemAddedEvent =
    TObj
      [req ''item'' ResponseOutputItem,
       req ''output_index'' TNumber,
       req ''sequence_number'' TNumber,
       req ''type'' (TStrLit ''response.output_item.added'')]"

definition ResponseOutputItemDoneEvent :: ts_type where
  "ResponseOutputItemDoneEvent =
    TObj
      [req ''item'' ResponseOutputItem,
       req ''output_index'' TNumber,
       req ''sequence_number'' TNumber,
       req ''type'' (TStrLit ''response.output_item.done'')]"

definition ResponseReasoningTextDeltaEvent :: ts_type where
  "ResponseReasoningTextDeltaEvent =
    TObj
      [req ''content_index'' TNumber,
       req ''delta'' TString,
       req ''item_id'' TString,
       req ''output_index'' TNumber,
       req ''sequence_number'' TNumber,
       req ''type'' (TStrLit ''response.reasoning_text.delta'')]"

definition ResponseReasoningTextDoneEvent :: ts_type where
  "ResponseReasoningTextDoneEvent =
    TObj
      [req ''content_index'' TNumber,
       req ''item_id'' TString,
       req ''output_index'' TNumber,
       req ''sequence_number'' TNumber,
       req ''text'' TString,
       req ''type'' (TStrLit ''response.reasoning_text.done'')]"

definition ResponseRefusalDeltaEvent :: ts_type where
  "ResponseRefusalDeltaEvent =
    TObj
      [req ''content_index'' TNumber,
       req ''delta'' TString,
       req ''item_id'' TString,
       req ''output_index'' TNumber,
       req ''sequence_number'' TNumber,
       req ''type'' (TStrLit ''response.refusal.delta'')]"

definition ResponseRefusalDoneEvent :: ts_type where
  "ResponseRefusalDoneEvent =
    TObj
      [req ''content_index'' TNumber,
       req ''item_id'' TString,
       req ''output_index'' TNumber,
       req ''refusal'' TString,
       req ''sequence_number'' TNumber,
       req ''type'' (TStrLit ''response.refusal.done'')]"

definition ResponseCompletedEvent :: ts_type where
  "ResponseCompletedEvent =
    TObj
      [req ''response'' (THost ''Response''),
       req ''sequence_number'' TNumber,
       req ''type'' (TStrLit ''response.completed'')]"

definition ResponseTextDeltaEvent :: ts_type where
  "ResponseTextDeltaEvent =
    TObj
      [req ''content_index'' TNumber,
       req ''delta'' TString,
       req ''item_id'' TString,
       req ''logprobs'' (TArr Logprob),
       req ''output_index'' TNumber,
       req ''sequence_number'' TNumber,
       req ''type'' (TStrLit ''response.output_text.delta'')]"

definition ResponseTextDoneEvent :: ts_type where
  "ResponseTextDoneEvent =
    TObj
      [req ''content_index'' TNumber,
       req ''item_id'' TString,
       req ''logprobs'' (TArr Logprob),
       req ''output_index'' TNumber,
       req ''sequence_number'' TNumber,
       req ''text'' TString,
       req ''type'' (TStrLit ''response.output_text.done'')]"

definition ResponseStreamEvent :: ts_type where
  "ResponseStreamEvent =
    TUnion
      [ResponseCompletedEvent,
       ResponseCreatedEvent,
       ResponseErrorEvent,
       ResponseFunctionCallArgumentsDeltaEvent,
       ResponseFunctionCallArgumentsDoneEvent,
       ResponseFailedEvent,
       ResponseIncompleteEvent,
       ResponseOutputItemAddedEvent,
       ResponseOutputItemDoneEvent,
       ResponseReasoningTextDeltaEvent,
       ResponseReasoningTextDoneEvent,
       ResponseRefusalDeltaEvent,
       ResponseRefusalDoneEvent,
       ResponseTextDeltaEvent,
       ResponseTextDoneEvent]"

end
