(* ===== verification/Ai_Model_Types.thy ===== *)
theory Ai_Model_Types
  imports Typing
begin

text \<open>
  Lines 5213 to 7415 of \<^verbatim>\<open>worker-configuration.d.ts\<close>: the inputs and outputs of the models from the BGE embeddings to Gemma 3.
  Each declaration whose members are data is a definition of the same name, its members in the
  order of the source; the four built with \<^verbatim>\<open>NonNullable\<close> (lines 5412, 5737, 5738 and 5789) are in
  the theory of the model classes.
\<close>

definition Ai_Cf_Baai_Bge_Base_En_V1_5_Input :: ts_type where
  "Ai_Cf_Baai_Bge_Base_En_V1_5_Input =
    TUnion
      [TObj
         [req ''text'' (TUnion [TString, TArr TString]),
          opt ''pooling'' (TUnion [TStrLit ''mean'', TStrLit ''cls''])],
       TObj
         [req ''requests'' (TArr (TObj
                    [req ''text'' (TUnion [TString, TArr TString]),
                     opt ''pooling'' (TUnion [TStrLit ''mean'', TStrLit ''cls''])]))]]"

definition Ai_Cf_Baai_Bge_Base_En_V1_5_AsyncResponse :: ts_type where
  "Ai_Cf_Baai_Bge_Base_En_V1_5_AsyncResponse =
    TObj [opt ''request_id'' TString]"

definition Ai_Cf_Baai_Bge_Base_En_V1_5_Output :: ts_type where
  "Ai_Cf_Baai_Bge_Base_En_V1_5_Output =
    TUnion
      [TObj
         [opt ''shape'' (TArr TNumber),
          opt ''data'' (TArr (TArr TNumber)),
          opt ''pooling'' (TUnion [TStrLit ''mean'', TStrLit ''cls''])],
       Ai_Cf_Baai_Bge_Base_En_V1_5_AsyncResponse]"

definition Ai_Cf_Openai_Whisper_Input :: ts_type where
  "Ai_Cf_Openai_Whisper_Input =
    TUnion [TString, TObj [req ''audio'' (TArr TNumber)]]"

definition Ai_Cf_Openai_Whisper_Output :: ts_type where
  "Ai_Cf_Openai_Whisper_Output =
    TObj
      [req ''text'' TString,
       opt ''word_count'' TNumber,
       opt ''words'' (TArr (TObj [opt ''word'' TString, opt ''start'' TNumber, opt ''end'' TNumber])),
       opt ''vtt'' TString]"

definition Ai_Cf_Meta_M2M100_1_2B_Input :: ts_type where
  "Ai_Cf_Meta_M2M100_1_2B_Input =
    TUnion
      [TObj [req ''text'' TString, opt ''source_lang'' TString, req ''target_lang'' TString],
       TObj
         [req ''requests'' (TArr (TObj
                    [req ''text'' TString,
                     opt ''source_lang'' TString,
                     req ''target_lang'' TString]))]]"

definition Ai_Cf_Meta_M2M100_1_2B_AsyncResponse :: ts_type where
  "Ai_Cf_Meta_M2M100_1_2B_AsyncResponse =
    TObj [opt ''request_id'' TString]"

definition Ai_Cf_Meta_M2M100_1_2B_Output :: ts_type where
  "Ai_Cf_Meta_M2M100_1_2B_Output =
    TUnion [TObj [opt ''translated_text'' TString], Ai_Cf_Meta_M2M100_1_2B_AsyncResponse]"

definition Ai_Cf_Baai_Bge_Small_En_V1_5_Input :: ts_type where
  "Ai_Cf_Baai_Bge_Small_En_V1_5_Input =
    TUnion
      [TObj
         [req ''text'' (TUnion [TString, TArr TString]),
          opt ''pooling'' (TUnion [TStrLit ''mean'', TStrLit ''cls''])],
       TObj
         [req ''requests'' (TArr (TObj
                    [req ''text'' (TUnion [TString, TArr TString]),
                     opt ''pooling'' (TUnion [TStrLit ''mean'', TStrLit ''cls''])]))]]"

definition Ai_Cf_Baai_Bge_Small_En_V1_5_AsyncResponse :: ts_type where
  "Ai_Cf_Baai_Bge_Small_En_V1_5_AsyncResponse =
    TObj [opt ''request_id'' TString]"

definition Ai_Cf_Baai_Bge_Small_En_V1_5_Output :: ts_type where
  "Ai_Cf_Baai_Bge_Small_En_V1_5_Output =
    TUnion
      [TObj
         [opt ''shape'' (TArr TNumber),
          opt ''data'' (TArr (TArr TNumber)),
          opt ''pooling'' (TUnion [TStrLit ''mean'', TStrLit ''cls''])],
       Ai_Cf_Baai_Bge_Small_En_V1_5_AsyncResponse]"

definition Ai_Cf_Baai_Bge_Large_En_V1_5_Input :: ts_type where
  "Ai_Cf_Baai_Bge_Large_En_V1_5_Input =
    TUnion
      [TObj
         [req ''text'' (TUnion [TString, TArr TString]),
          opt ''pooling'' (TUnion [TStrLit ''mean'', TStrLit ''cls''])],
       TObj
         [req ''requests'' (TArr (TObj
                    [req ''text'' (TUnion [TString, TArr TString]),
                     opt ''pooling'' (TUnion [TStrLit ''mean'', TStrLit ''cls''])]))]]"

definition Ai_Cf_Baai_Bge_Large_En_V1_5_AsyncResponse :: ts_type where
  "Ai_Cf_Baai_Bge_Large_En_V1_5_AsyncResponse =
    TObj [opt ''request_id'' TString]"

definition Ai_Cf_Baai_Bge_Large_En_V1_5_Output :: ts_type where
  "Ai_Cf_Baai_Bge_Large_En_V1_5_Output =
    TUnion
      [TObj
         [opt ''shape'' (TArr TNumber),
          opt ''data'' (TArr (TArr TNumber)),
          opt ''pooling'' (TUnion [TStrLit ''mean'', TStrLit ''cls''])],
       Ai_Cf_Baai_Bge_Large_En_V1_5_AsyncResponse]"

definition Ai_Cf_Unum_Uform_Gen2_Qwen_500M_Output :: ts_type where
  "Ai_Cf_Unum_Uform_Gen2_Qwen_500M_Output =
    TObj [opt ''description'' TString]"

definition Ai_Cf_Openai_Whisper_Tiny_En_Input :: ts_type where
  "Ai_Cf_Openai_Whisper_Tiny_En_Input =
    TUnion [TString, TObj [req ''audio'' (TArr TNumber)]]"

definition Ai_Cf_Openai_Whisper_Tiny_En_Output :: ts_type where
  "Ai_Cf_Openai_Whisper_Tiny_En_Output =
    TObj
      [req ''text'' TString,
       opt ''word_count'' TNumber,
       opt ''words'' (TArr (TObj [opt ''word'' TString, opt ''start'' TNumber, opt ''end'' TNumber])),
       opt ''vtt'' TString]"

definition Ai_Cf_Openai_Whisper_Large_V3_Turbo_Input :: ts_type where
  "Ai_Cf_Openai_Whisper_Large_V3_Turbo_Input =
    TObj
      [req ''audio'' (TUnion [TString, TObj [opt ''body'' TObject, opt ''contentType'' TString]]),
       opt ''task'' TString,
       opt ''language'' TString,
       opt ''vad_filter'' TBoolean,
       opt ''initial_prompt'' TString,
       opt ''prefix'' TString,
       opt ''beam_size'' TNumber,
       opt ''condition_on_previous_text'' TBoolean,
       opt ''no_speech_threshold'' TNumber,
       opt ''compression_ratio_threshold'' TNumber,
       opt ''log_prob_threshold'' TNumber,
       opt ''hallucination_silence_threshold'' TNumber]"

definition Ai_Cf_Openai_Whisper_Large_V3_Turbo_Output :: ts_type where
  "Ai_Cf_Openai_Whisper_Large_V3_Turbo_Output =
    TObj
      [opt ''transcription_info'' (TObj
           [opt ''language'' TString,
            opt ''language_probability'' TNumber,
            opt ''duration'' TNumber,
            opt ''duration_after_vad'' TNumber]),
       req ''text'' TString,
       opt ''word_count'' TNumber,
       opt ''segments'' (TArr (TObj
                 [opt ''start'' TNumber,
                  opt ''end'' TNumber,
                  opt ''text'' TString,
                  opt ''temperature'' TNumber,
                  opt ''avg_logprob'' TNumber,
                  opt ''compression_ratio'' TNumber,
                  opt ''no_speech_prob'' TNumber,
                  opt ''words'' (TArr (TObj
                            [opt ''word'' TString,
                             opt ''start'' TNumber,
                             opt ''end'' TNumber]))])),
       opt ''vtt'' TString]"

definition Ai_Cf_Baai_Bge_M3_Input_QueryAnd_Contexts :: ts_type where
  "Ai_Cf_Baai_Bge_M3_Input_QueryAnd_Contexts =
    TObj
      [opt ''query'' TString,
       req ''contexts'' (TArr (TObj [opt ''text'' TString])),
       opt ''truncate_inputs'' TBoolean]"

definition Ai_Cf_Baai_Bge_M3_Input_Embedding :: ts_type where
  "Ai_Cf_Baai_Bge_M3_Input_Embedding =
    TObj [req ''text'' (TUnion [TString, TArr TString]), opt ''truncate_inputs'' TBoolean]"

definition Ai_Cf_Baai_Bge_M3_Input_QueryAnd_Contexts_1 :: ts_type where
  "Ai_Cf_Baai_Bge_M3_Input_QueryAnd_Contexts_1 =
    TObj
      [opt ''query'' TString,
       req ''contexts'' (TArr (TObj [opt ''text'' TString])),
       opt ''truncate_inputs'' TBoolean]"

definition Ai_Cf_Baai_Bge_M3_Input_Embedding_1 :: ts_type where
  "Ai_Cf_Baai_Bge_M3_Input_Embedding_1 =
    TObj [req ''text'' (TUnion [TString, TArr TString]), opt ''truncate_inputs'' TBoolean]"

definition Ai_Cf_Baai_Bge_M3_Input :: ts_type where
  "Ai_Cf_Baai_Bge_M3_Input =
    TUnion
      [Ai_Cf_Baai_Bge_M3_Input_QueryAnd_Contexts,
       Ai_Cf_Baai_Bge_M3_Input_Embedding,
       TObj
         [req ''requests'' (TArr (TUnion
                    [Ai_Cf_Baai_Bge_M3_Input_QueryAnd_Contexts_1,
                     Ai_Cf_Baai_Bge_M3_Input_Embedding_1]))]]"

definition Ai_Cf_Baai_Bge_M3_Output_Query :: ts_type where
  "Ai_Cf_Baai_Bge_M3_Output_Query =
    TObj [opt ''response'' (TArr (TObj [opt ''id'' TNumber, opt ''score'' TNumber]))]"

definition Ai_Cf_Baai_Bge_M3_Output_EmbeddingFor_Contexts :: ts_type where
  "Ai_Cf_Baai_Bge_M3_Output_EmbeddingFor_Contexts =
    TObj
      [opt ''response'' (TArr (TArr TNumber)),
       opt ''shape'' (TArr TNumber),
       opt ''pooling'' (TUnion [TStrLit ''mean'', TStrLit ''cls''])]"

definition Ai_Cf_Baai_Bge_M3_Output_Embedding :: ts_type where
  "Ai_Cf_Baai_Bge_M3_Output_Embedding =
    TObj
      [opt ''shape'' (TArr TNumber),
       opt ''data'' (TArr (TArr TNumber)),
       opt ''pooling'' (TUnion [TStrLit ''mean'', TStrLit ''cls''])]"

definition Ai_Cf_Baai_Bge_M3_AsyncResponse :: ts_type where
  "Ai_Cf_Baai_Bge_M3_AsyncResponse =
    TObj [opt ''request_id'' TString]"

definition Ai_Cf_Baai_Bge_M3_Output :: ts_type where
  "Ai_Cf_Baai_Bge_M3_Output =
    TUnion
      [Ai_Cf_Baai_Bge_M3_Output_Query,
       Ai_Cf_Baai_Bge_M3_Output_EmbeddingFor_Contexts,
       Ai_Cf_Baai_Bge_M3_Output_Embedding,
       Ai_Cf_Baai_Bge_M3_AsyncResponse]"

definition Ai_Cf_Black_Forest_Labs_Flux_1_Schnell_Input :: ts_type where
  "Ai_Cf_Black_Forest_Labs_Flux_1_Schnell_Input =
    TObj [req ''prompt'' TString, opt ''steps'' TNumber]"

definition Ai_Cf_Black_Forest_Labs_Flux_1_Schnell_Output :: ts_type where
  "Ai_Cf_Black_Forest_Labs_Flux_1_Schnell_Output =
    TObj [opt ''image'' TString]"

definition Ai_Cf_Meta_Llama_3_2_11B_Vision_Instruct_Output :: ts_type where
  "Ai_Cf_Meta_Llama_3_2_11B_Vision_Instruct_Output =
    TObj
      [opt ''response'' TString,
       opt ''tool_calls'' (TArr (TObj [opt ''arguments'' TObject, opt ''name'' TString]))]"

definition Ai_Cf_Meta_Llama_3_3_70B_Instruct_Fp8_Fast_JSON_Mode :: ts_type where
  "Ai_Cf_Meta_Llama_3_3_70B_Instruct_Fp8_Fast_JSON_Mode =
    TObj
      [opt ''type'' (TUnion [TStrLit ''json_object'', TStrLit ''json_schema'']),
       opt ''json_schema'' TAny]"

definition Ai_Cf_Meta_Llama_3_3_70B_Instruct_Fp8_Fast_Prompt :: ts_type where
  "Ai_Cf_Meta_Llama_3_3_70B_Instruct_Fp8_Fast_Prompt =
    TObj
      [req ''prompt'' TString,
       opt ''lora'' TString,
       opt ''response_format'' Ai_Cf_Meta_Llama_3_3_70B_Instruct_Fp8_Fast_JSON_Mode,
       opt ''raw'' TBoolean,
       opt ''stream'' TBoolean,
       opt ''max_tokens'' TNumber,
       opt ''temperature'' TNumber,
       opt ''top_p'' TNumber,
       opt ''top_k'' TNumber,
       opt ''seed'' TNumber,
       opt ''repetition_penalty'' TNumber,
       opt ''frequency_penalty'' TNumber,
       opt ''presence_penalty'' TNumber]"

definition Ai_Cf_Meta_Llama_3_3_70B_Instruct_Fp8_Fast_JSON_Mode_1 :: ts_type where
  "Ai_Cf_Meta_Llama_3_3_70B_Instruct_Fp8_Fast_JSON_Mode_1 =
    TObj
      [opt ''type'' (TUnion [TStrLit ''json_object'', TStrLit ''json_schema'']),
       opt ''json_schema'' TAny]"

definition Ai_Cf_Meta_Llama_3_3_70B_Instruct_Fp8_Fast_Messages :: ts_type where
  "Ai_Cf_Meta_Llama_3_3_70B_Instruct_Fp8_Fast_Messages =
    TObj
      [req ''messages'' (TArr (TObj
                 [req ''role'' TString,
                  req ''content'' (TUnion [TString, TArr (TObj [opt ''type'' TString, opt ''text'' TString])])])),
       opt ''functions'' (TArr (TObj [req ''name'' TString, req ''code'' TString])),
       opt ''tools'' (TArr (TUnion
                 [TObj
                    [req ''name'' TString,
                     req ''description'' TString,
                     req ''parameters'' (TObj
                         [req ''type'' TString,
                          opt ''required'' (TArr TString),
                          req ''properties'' (TRecord (TObj [req ''type'' TString, req ''description'' TString]))])],
                  TObj
                    [req ''type'' TString,
                     req ''function'' (TObj
                         [req ''name'' TString,
                          req ''description'' TString,
                          req ''parameters'' (TObj
                              [req ''type'' TString,
                               opt ''required'' (TArr TString),
                               req ''properties'' (TRecord (TObj
                                            [req ''type'' TString,
                                             req ''description'' TString]))])])]])),
       opt ''response_format'' Ai_Cf_Meta_Llama_3_3_70B_Instruct_Fp8_Fast_JSON_Mode_1,
       opt ''raw'' TBoolean,
       opt ''stream'' TBoolean,
       opt ''max_tokens'' TNumber,
       opt ''temperature'' TNumber,
       opt ''top_p'' TNumber,
       opt ''top_k'' TNumber,
       opt ''seed'' TNumber,
       opt ''repetition_penalty'' TNumber,
       opt ''frequency_penalty'' TNumber,
       opt ''presence_penalty'' TNumber]"

definition Ai_Cf_Meta_Llama_3_3_70B_Instruct_Fp8_Fast_JSON_Mode_2 :: ts_type where
  "Ai_Cf_Meta_Llama_3_3_70B_Instruct_Fp8_Fast_JSON_Mode_2 =
    TObj
      [opt ''type'' (TUnion [TStrLit ''json_object'', TStrLit ''json_schema'']),
       opt ''json_schema'' TAny]"

definition Ai_Cf_Meta_Llama_3_3_70B_Instruct_Fp8_Fast_Async_Batch :: ts_type where
  "Ai_Cf_Meta_Llama_3_3_70B_Instruct_Fp8_Fast_Async_Batch =
    TObj
      [opt ''requests'' (TArr (TObj
                 [opt ''external_reference'' TString,
                  opt ''prompt'' TString,
                  opt ''stream'' TBoolean,
                  opt ''max_tokens'' TNumber,
                  opt ''temperature'' TNumber,
                  opt ''top_p'' TNumber,
                  opt ''seed'' TNumber,
                  opt ''repetition_penalty'' TNumber,
                  opt ''frequency_penalty'' TNumber,
                  opt ''presence_penalty'' TNumber,
                  opt ''response_format'' Ai_Cf_Meta_Llama_3_3_70B_Instruct_Fp8_Fast_JSON_Mode_2]))]"

definition Ai_Cf_Meta_Llama_3_3_70B_Instruct_Fp8_Fast_Input :: ts_type where
  "Ai_Cf_Meta_Llama_3_3_70B_Instruct_Fp8_Fast_Input =
    TUnion
      [Ai_Cf_Meta_Llama_3_3_70B_Instruct_Fp8_Fast_Prompt,
       Ai_Cf_Meta_Llama_3_3_70B_Instruct_Fp8_Fast_Messages,
       Ai_Cf_Meta_Llama_3_3_70B_Instruct_Fp8_Fast_Async_Batch]"

definition Ai_Cf_Meta_Llama_3_3_70B_Instruct_Fp8_Fast_AsyncResponse :: ts_type where
  "Ai_Cf_Meta_Llama_3_3_70B_Instruct_Fp8_Fast_AsyncResponse =
    TObj [opt ''request_id'' TString]"

definition Ai_Cf_Meta_Llama_3_3_70B_Instruct_Fp8_Fast_Output :: ts_type where
  "Ai_Cf_Meta_Llama_3_3_70B_Instruct_Fp8_Fast_Output =
    TUnion
      [TObj
         [req ''response'' TString,
          opt ''usage'' (TObj
              [opt ''prompt_tokens'' TNumber,
               opt ''completion_tokens'' TNumber,
               opt ''total_tokens'' TNumber]),
          opt ''tool_calls'' (TArr (TObj [opt ''arguments'' TObject, opt ''name'' TString]))],
       TString,
       Ai_Cf_Meta_Llama_3_3_70B_Instruct_Fp8_Fast_AsyncResponse]"

definition Ai_Cf_Meta_Llama_Guard_3_8B_Input :: ts_type where
  "Ai_Cf_Meta_Llama_Guard_3_8B_Input =
    TObj
      [req ''messages'' (TArr (TObj
                 [req ''role'' (TUnion [TStrLit ''user'', TStrLit ''assistant'']),
                  req ''content'' TString])),
       opt ''max_tokens'' TNumber,
       opt ''temperature'' TNumber,
       opt ''response_format'' (TObj [opt ''type'' TString])]"

definition Ai_Cf_Meta_Llama_Guard_3_8B_Output :: ts_type where
  "Ai_Cf_Meta_Llama_Guard_3_8B_Output =
    TObj
      [opt ''response'' (TUnion [TString, TObj [opt ''safe'' TBoolean, opt ''categories'' (TArr TString)]]),
       opt ''usage'' (TObj
           [opt ''prompt_tokens'' TNumber,
            opt ''completion_tokens'' TNumber,
            opt ''total_tokens'' TNumber])]"

definition Ai_Cf_Baai_Bge_Reranker_Base_Input :: ts_type where
  "Ai_Cf_Baai_Bge_Reranker_Base_Input =
    TObj [opt ''top_k'' TNumber, req ''contexts'' (TArr (TObj [opt ''text'' TString]))]"

definition Ai_Cf_Baai_Bge_Reranker_Base_Output :: ts_type where
  "Ai_Cf_Baai_Bge_Reranker_Base_Output =
    TObj [opt ''response'' (TArr (TObj [opt ''id'' TNumber, opt ''score'' TNumber]))]"

definition Ai_Cf_Qwen_Qwen2_5_Coder_32B_Instruct_JSON_Mode :: ts_type where
  "Ai_Cf_Qwen_Qwen2_5_Coder_32B_Instruct_JSON_Mode =
    TObj
      [opt ''type'' (TUnion [TStrLit ''json_object'', TStrLit ''json_schema'']),
       opt ''json_schema'' TAny]"

definition Ai_Cf_Qwen_Qwen2_5_Coder_32B_Instruct_Prompt :: ts_type where
  "Ai_Cf_Qwen_Qwen2_5_Coder_32B_Instruct_Prompt =
    TObj
      [req ''prompt'' TString,
       opt ''lora'' TString,
       opt ''response_format'' Ai_Cf_Qwen_Qwen2_5_Coder_32B_Instruct_JSON_Mode,
       opt ''raw'' TBoolean,
       opt ''stream'' TBoolean,
       opt ''max_tokens'' TNumber,
       opt ''temperature'' TNumber,
       opt ''top_p'' TNumber,
       opt ''top_k'' TNumber,
       opt ''seed'' TNumber,
       opt ''repetition_penalty'' TNumber,
       opt ''frequency_penalty'' TNumber,
       opt ''presence_penalty'' TNumber]"

definition Ai_Cf_Qwen_Qwen2_5_Coder_32B_Instruct_JSON_Mode_1 :: ts_type where
  "Ai_Cf_Qwen_Qwen2_5_Coder_32B_Instruct_JSON_Mode_1 =
    TObj
      [opt ''type'' (TUnion [TStrLit ''json_object'', TStrLit ''json_schema'']),
       opt ''json_schema'' TAny]"

definition Ai_Cf_Qwen_Qwen2_5_Coder_32B_Instruct_Messages :: ts_type where
  "Ai_Cf_Qwen_Qwen2_5_Coder_32B_Instruct_Messages =
    TObj
      [req ''messages'' (TArr (TObj [req ''role'' TString, req ''content'' TString])),
       opt ''functions'' (TArr (TObj [req ''name'' TString, req ''code'' TString])),
       opt ''tools'' (TArr (TUnion
                 [TObj
                    [req ''name'' TString,
                     req ''description'' TString,
                     req ''parameters'' (TObj
                         [req ''type'' TString,
                          opt ''required'' (TArr TString),
                          req ''properties'' (TRecord (TObj [req ''type'' TString, req ''description'' TString]))])],
                  TObj
                    [req ''type'' TString,
                     req ''function'' (TObj
                         [req ''name'' TString,
                          req ''description'' TString,
                          req ''parameters'' (TObj
                              [req ''type'' TString,
                               opt ''required'' (TArr TString),
                               req ''properties'' (TRecord (TObj
                                            [req ''type'' TString,
                                             req ''description'' TString]))])])]])),
       opt ''response_format'' Ai_Cf_Qwen_Qwen2_5_Coder_32B_Instruct_JSON_Mode_1,
       opt ''raw'' TBoolean,
       opt ''stream'' TBoolean,
       opt ''max_tokens'' TNumber,
       opt ''temperature'' TNumber,
       opt ''top_p'' TNumber,
       opt ''top_k'' TNumber,
       opt ''seed'' TNumber,
       opt ''repetition_penalty'' TNumber,
       opt ''frequency_penalty'' TNumber,
       opt ''presence_penalty'' TNumber]"

definition Ai_Cf_Qwen_Qwen2_5_Coder_32B_Instruct_Input :: ts_type where
  "Ai_Cf_Qwen_Qwen2_5_Coder_32B_Instruct_Input =
    TUnion
      [Ai_Cf_Qwen_Qwen2_5_Coder_32B_Instruct_Prompt,
       Ai_Cf_Qwen_Qwen2_5_Coder_32B_Instruct_Messages]"

definition Ai_Cf_Qwen_Qwen2_5_Coder_32B_Instruct_Output :: ts_type where
  "Ai_Cf_Qwen_Qwen2_5_Coder_32B_Instruct_Output =
    TObj
      [req ''response'' TString,
       opt ''usage'' (TObj
           [opt ''prompt_tokens'' TNumber,
            opt ''completion_tokens'' TNumber,
            opt ''total_tokens'' TNumber]),
       opt ''tool_calls'' (TArr (TObj [opt ''arguments'' TObject, opt ''name'' TString]))]"

definition Ai_Cf_Qwen_Qwq_32B_Prompt :: ts_type where
  "Ai_Cf_Qwen_Qwq_32B_Prompt =
    TObj
      [req ''prompt'' TString,
       opt ''guided_json'' TObject,
       opt ''raw'' TBoolean,
       opt ''stream'' TBoolean,
       opt ''max_tokens'' TNumber,
       opt ''temperature'' TNumber,
       opt ''top_p'' TNumber,
       opt ''top_k'' TNumber,
       opt ''seed'' TNumber,
       opt ''repetition_penalty'' TNumber,
       opt ''frequency_penalty'' TNumber,
       opt ''presence_penalty'' TNumber]"

definition Ai_Cf_Qwen_Qwq_32B_Messages :: ts_type where
  "Ai_Cf_Qwen_Qwq_32B_Messages =
    TObj
      [req ''messages'' (TArr (TObj
                 [opt ''role'' TString,
                  opt ''tool_call_id'' TString,
                  opt ''content'' (TUnion
                      [TString,
                       TArr (TObj
                               [opt ''type'' TString,
                                opt ''text'' TString,
                                opt ''image_url'' (TObj [opt ''url'' TString])]),
                       TObj
                         [opt ''type'' TString,
                          opt ''text'' TString,
                          opt ''image_url'' (TObj [opt ''url'' TString])]])])),
       opt ''functions'' (TArr (TObj [req ''name'' TString, req ''code'' TString])),
       opt ''tools'' (TArr (TUnion
                 [TObj
                    [req ''name'' TString,
                     req ''description'' TString,
                     req ''parameters'' (TObj
                         [req ''type'' TString,
                          opt ''required'' (TArr TString),
                          req ''properties'' (TRecord (TObj [req ''type'' TString, req ''description'' TString]))])],
                  TObj
                    [req ''type'' TString,
                     req ''function'' (TObj
                         [req ''name'' TString,
                          req ''description'' TString,
                          req ''parameters'' (TObj
                              [req ''type'' TString,
                               opt ''required'' (TArr TString),
                               req ''properties'' (TRecord (TObj
                                            [req ''type'' TString,
                                             req ''description'' TString]))])])]])),
       opt ''guided_json'' TObject,
       opt ''raw'' TBoolean,
       opt ''stream'' TBoolean,
       opt ''max_tokens'' TNumber,
       opt ''temperature'' TNumber,
       opt ''top_p'' TNumber,
       opt ''top_k'' TNumber,
       opt ''seed'' TNumber,
       opt ''repetition_penalty'' TNumber,
       opt ''frequency_penalty'' TNumber,
       opt ''presence_penalty'' TNumber]"

definition Ai_Cf_Qwen_Qwq_32B_Input :: ts_type where
  "Ai_Cf_Qwen_Qwq_32B_Input =
    TUnion [Ai_Cf_Qwen_Qwq_32B_Prompt, Ai_Cf_Qwen_Qwq_32B_Messages]"

definition Ai_Cf_Qwen_Qwq_32B_Output :: ts_type where
  "Ai_Cf_Qwen_Qwq_32B_Output =
    TObj
      [req ''response'' TString,
       opt ''usage'' (TObj
           [opt ''prompt_tokens'' TNumber,
            opt ''completion_tokens'' TNumber,
            opt ''total_tokens'' TNumber]),
       opt ''tool_calls'' (TArr (TObj [opt ''arguments'' TObject, opt ''name'' TString]))]"

definition Ai_Cf_Mistralai_Mistral_Small_3_1_24B_Instruct_Prompt :: ts_type where
  "Ai_Cf_Mistralai_Mistral_Small_3_1_24B_Instruct_Prompt =
    TObj
      [req ''prompt'' TString,
       opt ''guided_json'' TObject,
       opt ''raw'' TBoolean,
       opt ''stream'' TBoolean,
       opt ''max_tokens'' TNumber,
       opt ''temperature'' TNumber,
       opt ''top_p'' TNumber,
       opt ''top_k'' TNumber,
       opt ''seed'' TNumber,
       opt ''repetition_penalty'' TNumber,
       opt ''frequency_penalty'' TNumber,
       opt ''presence_penalty'' TNumber]"

definition Ai_Cf_Mistralai_Mistral_Small_3_1_24B_Instruct_Messages :: ts_type where
  "Ai_Cf_Mistralai_Mistral_Small_3_1_24B_Instruct_Messages =
    TObj
      [req ''messages'' (TArr (TObj
                 [opt ''role'' TString,
                  opt ''tool_call_id'' TString,
                  opt ''content'' (TUnion
                      [TString,
                       TArr (TObj
                               [opt ''type'' TString,
                                opt ''text'' TString,
                                opt ''image_url'' (TObj [opt ''url'' TString])]),
                       TObj
                         [opt ''type'' TString,
                          opt ''text'' TString,
                          opt ''image_url'' (TObj [opt ''url'' TString])]])])),
       opt ''functions'' (TArr (TObj [req ''name'' TString, req ''code'' TString])),
       opt ''tools'' (TArr (TUnion
                 [TObj
                    [req ''name'' TString,
                     req ''description'' TString,
                     req ''parameters'' (TObj
                         [req ''type'' TString,
                          opt ''required'' (TArr TString),
                          req ''properties'' (TRecord (TObj [req ''type'' TString, req ''description'' TString]))])],
                  TObj
                    [req ''type'' TString,
                     req ''function'' (TObj
                         [req ''name'' TString,
                          req ''description'' TString,
                          req ''parameters'' (TObj
                              [req ''type'' TString,
                               opt ''required'' (TArr TString),
                               req ''properties'' (TRecord (TObj
                                            [req ''type'' TString,
                                             req ''description'' TString]))])])]])),
       opt ''guided_json'' TObject,
       opt ''raw'' TBoolean,
       opt ''stream'' TBoolean,
       opt ''max_tokens'' TNumber,
       opt ''temperature'' TNumber,
       opt ''top_p'' TNumber,
       opt ''top_k'' TNumber,
       opt ''seed'' TNumber,
       opt ''repetition_penalty'' TNumber,
       opt ''frequency_penalty'' TNumber,
       opt ''presence_penalty'' TNumber]"

definition Ai_Cf_Mistralai_Mistral_Small_3_1_24B_Instruct_Input :: ts_type where
  "Ai_Cf_Mistralai_Mistral_Small_3_1_24B_Instruct_Input =
    TUnion
      [Ai_Cf_Mistralai_Mistral_Small_3_1_24B_Instruct_Prompt,
       Ai_Cf_Mistralai_Mistral_Small_3_1_24B_Instruct_Messages]"

definition Ai_Cf_Mistralai_Mistral_Small_3_1_24B_Instruct_Output :: ts_type where
  "Ai_Cf_Mistralai_Mistral_Small_3_1_24B_Instruct_Output =
    TObj
      [req ''response'' TString,
       opt ''usage'' (TObj
           [opt ''prompt_tokens'' TNumber,
            opt ''completion_tokens'' TNumber,
            opt ''total_tokens'' TNumber]),
       opt ''tool_calls'' (TArr (TObj [opt ''arguments'' TObject, opt ''name'' TString]))]"

definition Ai_Cf_Google_Gemma_3_12B_It_Prompt :: ts_type where
  "Ai_Cf_Google_Gemma_3_12B_It_Prompt =
    TObj
      [req ''prompt'' TString,
       opt ''guided_json'' TObject,
       opt ''raw'' TBoolean,
       opt ''stream'' TBoolean,
       opt ''max_tokens'' TNumber,
       opt ''temperature'' TNumber,
       opt ''top_p'' TNumber,
       opt ''top_k'' TNumber,
       opt ''seed'' TNumber,
       opt ''repetition_penalty'' TNumber,
       opt ''frequency_penalty'' TNumber,
       opt ''presence_penalty'' TNumber]"

definition Ai_Cf_Google_Gemma_3_12B_It_Messages :: ts_type where
  "Ai_Cf_Google_Gemma_3_12B_It_Messages =
    TObj
      [req ''messages'' (TArr (TObj
                 [opt ''role'' TString,
                  opt ''content'' (TUnion
                      [TString,
                       TArr (TObj
                               [opt ''type'' TString,
                                opt ''text'' TString,
                                opt ''image_url'' (TObj [opt ''url'' TString])])])])),
       opt ''functions'' (TArr (TObj [req ''name'' TString, req ''code'' TString])),
       opt ''tools'' (TArr (TUnion
                 [TObj
                    [req ''name'' TString,
                     req ''description'' TString,
                     req ''parameters'' (TObj
                         [req ''type'' TString,
                          opt ''required'' (TArr TString),
                          req ''properties'' (TRecord (TObj [req ''type'' TString, req ''description'' TString]))])],
                  TObj
                    [req ''type'' TString,
                     req ''function'' (TObj
                         [req ''name'' TString,
                          req ''description'' TString,
                          req ''parameters'' (TObj
                              [req ''type'' TString,
                               opt ''required'' (TArr TString),
                               req ''properties'' (TRecord (TObj
                                            [req ''type'' TString,
                                             req ''description'' TString]))])])]])),
       opt ''guided_json'' TObject,
       opt ''raw'' TBoolean,
       opt ''stream'' TBoolean,
       opt ''max_tokens'' TNumber,
       opt ''temperature'' TNumber,
       opt ''top_p'' TNumber,
       opt ''top_k'' TNumber,
       opt ''seed'' TNumber,
       opt ''repetition_penalty'' TNumber,
       opt ''frequency_penalty'' TNumber,
       opt ''presence_penalty'' TNumber]"

definition Ai_Cf_Google_Gemma_3_12B_It_Input :: ts_type where
  "Ai_Cf_Google_Gemma_3_12B_It_Input =
    TUnion [Ai_Cf_Google_Gemma_3_12B_It_Prompt, Ai_Cf_Google_Gemma_3_12B_It_Messages]"

definition Ai_Cf_Google_Gemma_3_12B_It_Output :: ts_type where
  "Ai_Cf_Google_Gemma_3_12B_It_Output =
    TObj
      [req ''response'' TString,
       opt ''usage'' (TObj
           [opt ''prompt_tokens'' TNumber,
            opt ''completion_tokens'' TNumber,
            opt ''total_tokens'' TNumber]),
       opt ''tool_calls'' (TArr (TObj [opt ''arguments'' TObject, opt ''name'' TString]))]"

end
