(* ===== verification/Ai_Model_Types_2.thy ===== *)
theory Ai_Model_Types_2
  imports Typing
begin

text \<open>
  Lines 7416 to 9757 of \<^verbatim>\<open>worker-configuration.d.ts\<close>: the inputs and outputs of the models from Llama 4 Scout to Flux 2.
  Each declaration whose members are data is a definition of the same name, its members in the
  order of the source; the output of Plamo (line 9519), which has a tuple type, is left out.
\<close>

definition Ai_Cf_Meta_Llama_4_Scout_17B_16E_Instruct_JSON_Mode :: ts_type where
  "Ai_Cf_Meta_Llama_4_Scout_17B_16E_Instruct_JSON_Mode =
    TObj
      [opt ''type'' (TUnion [TStrLit ''json_object'', TStrLit ''json_schema'']),
       opt ''json_schema'' TAny]"

definition Ai_Cf_Meta_Llama_4_Scout_17B_16E_Instruct_Prompt :: ts_type where
  "Ai_Cf_Meta_Llama_4_Scout_17B_16E_Instruct_Prompt =
    TObj
      [req ''prompt'' TString,
       opt ''guided_json'' TObject,
       opt ''response_format'' Ai_Cf_Meta_Llama_4_Scout_17B_16E_Instruct_JSON_Mode,
       opt ''raw'' TBoolean,
       opt ''stream'' TBoolean,
       opt ''max_tokens'' TNumber,
       opt ''temperature'' TNumber,
       opt ''top_p'' TNumber,
       opt ''top_k'' TNumber,
       opt ''seed'' TNumber,
       opt ''repetition_penalty'' TNumber,
       opt ''frequency_penalty'' TNumber,
       opt ''presence_penalty'' TNumber]"

definition Ai_Cf_Meta_Llama_4_Scout_17B_16E_Instruct_Messages :: ts_type where
  "Ai_Cf_Meta_Llama_4_Scout_17B_16E_Instruct_Messages =
    TObj
      [req ''messages'' (TArr (TObj
                 [opt ''role'' TString,
                  opt ''tool_call_id'' TString,
                  opt ''content'' (TUnion
                      [TString,
                       TArr (TObj
                               [opt ''type'' TString,
                                opt ''text'' TString,
                                opt ''image_url'' (TObj [opt ''url'' TString])]),
                       TObj
                         [opt ''type'' TString,
                          opt ''text'' TString,
                          opt ''image_url'' (TObj [opt ''url'' TString])]])])),
       opt ''functions'' (TArr (TObj [req ''name'' TString, req ''code'' TString])),
       opt ''tools'' (TArr (TUnion
                 [TObj
                    [req ''name'' TString,
                     req ''description'' TString,
                     req ''parameters'' (TObj
                         [req ''type'' TString,
                          opt ''required'' (TArr TString),
                          req ''properties'' (TRecord (TObj [req ''type'' TString, req ''description'' TString]))])],
                  TObj
                    [req ''type'' TString,
                     req ''function'' (TObj
                         [req ''name'' TString,
                          req ''description'' TString,
                          req ''parameters'' (TObj
                              [req ''type'' TString,
                               opt ''required'' (TArr TString),
                               req ''properties'' (TRecord (TObj
                                            [req ''type'' TString,
                                             req ''description'' TString]))])])]])),
       opt ''response_format'' Ai_Cf_Meta_Llama_4_Scout_17B_16E_Instruct_JSON_Mode,
       opt ''guided_json'' TObject,
       opt ''raw'' TBoolean,
       opt ''stream'' TBoolean,
       opt ''max_tokens'' TNumber,
       opt ''temperature'' TNumber,
       opt ''top_p'' TNumber,
       opt ''top_k'' TNumber,
       opt ''seed'' TNumber,
       opt ''repetition_penalty'' TNumber,
       opt ''frequency_penalty'' TNumber,
       opt ''presence_penalty'' TNumber]"

definition Ai_Cf_Meta_Llama_4_Scout_17B_16E_Instruct_Prompt_Inner :: ts_type where
  "Ai_Cf_Meta_Llama_4_Scout_17B_16E_Instruct_Prompt_Inner =
    TObj
      [req ''prompt'' TString,
       opt ''guided_json'' TObject,
       opt ''response_format'' Ai_Cf_Meta_Llama_4_Scout_17B_16E_Instruct_JSON_Mode,
       opt ''raw'' TBoolean,
       opt ''stream'' TBoolean,
       opt ''max_tokens'' TNumber,
       opt ''temperature'' TNumber,
       opt ''top_p'' TNumber,
       opt ''top_k'' TNumber,
       opt ''seed'' TNumber,
       opt ''repetition_penalty'' TNumber,
       opt ''frequency_penalty'' TNumber,
       opt ''presence_penalty'' TNumber]"

definition Ai_Cf_Meta_Llama_4_Scout_17B_16E_Instruct_Messages_Inner :: ts_type where
  "Ai_Cf_Meta_Llama_4_Scout_17B_16E_Instruct_Messages_Inner =
    TObj
      [req ''messages'' (TArr (TObj
                 [opt ''role'' TString,
                  opt ''tool_call_id'' TString,
                  opt ''content'' (TUnion
                      [TString,
                       TArr (TObj
                               [opt ''type'' TString,
                                opt ''text'' TString,
                                opt ''image_url'' (TObj [opt ''url'' TString])]),
                       TObj
                         [opt ''type'' TString,
                          opt ''text'' TString,
                          opt ''image_url'' (TObj [opt ''url'' TString])]])])),
       opt ''functions'' (TArr (TObj [req ''name'' TString, req ''code'' TString])),
       opt ''tools'' (TArr (TUnion
                 [TObj
                    [req ''name'' TString,
                     req ''description'' TString,
                     req ''parameters'' (TObj
                         [req ''type'' TString,
                          opt ''required'' (TArr TString),
                          req ''properties'' (TRecord (TObj [req ''type'' TString, req ''description'' TString]))])],
                  TObj
                    [req ''type'' TString,
                     req ''function'' (TObj
                         [req ''name'' TString,
                          req ''description'' TString,
                          req ''parameters'' (TObj
                              [req ''type'' TString,
                               opt ''required'' (TArr TString),
                               req ''properties'' (TRecord (TObj
                                            [req ''type'' TString,
                                             req ''description'' TString]))])])]])),
       opt ''response_format'' Ai_Cf_Meta_Llama_4_Scout_17B_16E_Instruct_JSON_Mode,
       opt ''guided_json'' TObject,
       opt ''raw'' TBoolean,
       opt ''stream'' TBoolean,
       opt ''max_tokens'' TNumber,
       opt ''temperature'' TNumber,
       opt ''top_p'' TNumber,
       opt ''top_k'' TNumber,
       opt ''seed'' TNumber,
       opt ''repetition_penalty'' TNumber,
       opt ''frequency_penalty'' TNumber,
       opt ''presence_penalty'' TNumber]"

definition Ai_Cf_Meta_Llama_4_Scout_17B_16E_Instruct_Async_Batch :: ts_type where
  "Ai_Cf_Meta_Llama_4_Scout_17B_16E_Instruct_Async_Batch =
    TObj
      [req ''requests'' (TArr (TUnion
                 [Ai_Cf_Meta_Llama_4_Scout_17B_16E_Instruct_Prompt_Inner,
                  Ai_Cf_Meta_Llama_4_Scout_17B_16E_Instruct_Messages_Inner]))]"

definition Ai_Cf_Meta_Llama_4_Scout_17B_16E_Instruct_Input :: ts_type where
  "Ai_Cf_Meta_Llama_4_Scout_17B_16E_Instruct_Input =
    TUnion
      [Ai_Cf_Meta_Llama_4_Scout_17B_16E_Instruct_Prompt,
       Ai_Cf_Meta_Llama_4_Scout_17B_16E_Instruct_Messages,
       Ai_Cf_Meta_Llama_4_Scout_17B_16E_Instruct_Async_Batch]"

definition Ai_Cf_Meta_Llama_4_Scout_17B_16E_Instruct_Output :: ts_type where
  "Ai_Cf_Meta_Llama_4_Scout_17B_16E_Instruct_Output =
    TObj
      [req ''response'' TString,
       opt ''usage'' (TObj
           [opt ''prompt_tokens'' TNumber,
            opt ''completion_tokens'' TNumber,
            opt ''total_tokens'' TNumber]),
       opt ''tool_calls'' (TArr (TObj
                 [opt ''id'' TString,
                  opt ''type'' TString,
                  opt ''function'' (TObj [opt ''name'' TString, opt ''arguments'' TObject])]))]"

definition Ai_Cf_Qwen_Qwen3_30B_A3B_Fp8_JSON_Mode :: ts_type where
  "Ai_Cf_Qwen_Qwen3_30B_A3B_Fp8_JSON_Mode =
    TObj
      [opt ''type'' (TUnion [TStrLit ''json_object'', TStrLit ''json_schema'']),
       opt ''json_schema'' TAny]"

definition Ai_Cf_Qwen_Qwen3_30B_A3B_Fp8_Prompt :: ts_type where
  "Ai_Cf_Qwen_Qwen3_30B_A3B_Fp8_Prompt =
    TObj
      [req ''prompt'' TString,
       opt ''lora'' TString,
       opt ''response_format'' Ai_Cf_Qwen_Qwen3_30B_A3B_Fp8_JSON_Mode,
       opt ''raw'' TBoolean,
       opt ''stream'' TBoolean,
       opt ''max_tokens'' TNumber,
       opt ''temperature'' TNumber,
       opt ''top_p'' TNumber,
       opt ''top_k'' TNumber,
       opt ''seed'' TNumber,
       opt ''repetition_penalty'' TNumber,
       opt ''frequency_penalty'' TNumber,
       opt ''presence_penalty'' TNumber]"

definition Ai_Cf_Qwen_Qwen3_30B_A3B_Fp8_JSON_Mode_1 :: ts_type where
  "Ai_Cf_Qwen_Qwen3_30B_A3B_Fp8_JSON_Mode_1 =
    TObj
      [opt ''type'' (TUnion [TStrLit ''json_object'', TStrLit ''json_schema'']),
       opt ''json_schema'' TAny]"

definition Ai_Cf_Qwen_Qwen3_30B_A3B_Fp8_Messages :: ts_type where
  "Ai_Cf_Qwen_Qwen3_30B_A3B_Fp8_Messages =
    TObj
      [req ''messages'' (TArr (TObj
                 [req ''role'' TString,
                  req ''content'' (TUnion [TString, TArr (TObj [opt ''type'' TString, opt ''text'' TString])])])),
       opt ''functions'' (TArr (TObj [req ''name'' TString, req ''code'' TString])),
       opt ''tools'' (TArr (TUnion
                 [TObj
                    [req ''name'' TString,
                     req ''description'' TString,
                     req ''parameters'' (TObj
                         [req ''type'' TString,
                          opt ''required'' (TArr TString),
                          req ''properties'' (TRecord (TObj [req ''type'' TString, req ''description'' TString]))])],
                  TObj
                    [req ''type'' TString,
                     req ''function'' (TObj
                         [req ''name'' TString,
                          req ''description'' TString,
                          req ''parameters'' (TObj
                              [req ''type'' TString,
                               opt ''required'' (TArr TString),
                               req ''properties'' (TRecord (TObj
                                            [req ''type'' TString,
                                             req ''description'' TString]))])])]])),
       opt ''response_format'' Ai_Cf_Qwen_Qwen3_30B_A3B_Fp8_JSON_Mode_1,
       opt ''raw'' TBoolean,
       opt ''stream'' TBoolean,
       opt ''max_tokens'' TNumber,
       opt ''temperature'' TNumber,
       opt ''top_p'' TNumber,
       opt ''top_k'' TNumber,
       opt ''seed'' TNumber,
       opt ''repetition_penalty'' TNumber,
       opt ''frequency_penalty'' TNumber,
       opt ''presence_penalty'' TNumber]"

definition Ai_Cf_Qwen_Qwen3_30B_A3B_Fp8_JSON_Mode_2 :: ts_type where
  "Ai_Cf_Qwen_Qwen3_30B_A3B_Fp8_JSON_Mode_2 =
    TObj
      [opt ''type'' (TUnion [TStrLit ''json_object'', TStrLit ''json_schema'']),
       opt ''json_schema'' TAny]"

definition Ai_Cf_Qwen_Qwen3_30B_A3B_Fp8_Prompt_1 :: ts_type where
  "Ai_Cf_Qwen_Qwen3_30B_A3B_Fp8_Prompt_1 =
    TObj
      [req ''prompt'' TString,
       opt ''lora'' TString,
       opt ''response_format'' Ai_Cf_Qwen_Qwen3_30B_A3B_Fp8_JSON_Mode_2,
       opt ''raw'' TBoolean,
       opt ''stream'' TBoolean,
       opt ''max_tokens'' TNumber,
       opt ''temperature'' TNumber,
       opt ''top_p'' TNumber,
       opt ''top_k'' TNumber,
       opt ''seed'' TNumber,
       opt ''repetition_penalty'' TNumber,
       opt ''frequency_penalty'' TNumber,
       opt ''presence_penalty'' TNumber]"

definition Ai_Cf_Qwen_Qwen3_30B_A3B_Fp8_JSON_Mode_3 :: ts_type where
  "Ai_Cf_Qwen_Qwen3_30B_A3B_Fp8_JSON_Mode_3 =
    TObj
      [opt ''type'' (TUnion [TStrLit ''json_object'', TStrLit ''json_schema'']),
       opt ''json_schema'' TAny]"

definition Ai_Cf_Qwen_Qwen3_30B_A3B_Fp8_Messages_1 :: ts_type where
  "Ai_Cf_Qwen_Qwen3_30B_A3B_Fp8_Messages_1 =
    TObj
      [req ''messages'' (TArr (TObj
                 [req ''role'' TString,
                  req ''content'' (TUnion [TString, TArr (TObj [opt ''type'' TString, opt ''text'' TString])])])),
       opt ''functions'' (TArr (TObj [req ''name'' TString, req ''code'' TString])),
       opt ''tools'' (TArr (TUnion
                 [TObj
                    [req ''name'' TString,
                     req ''description'' TString,
                     req ''parameters'' (TObj
                         [req ''type'' TString,
                          opt ''required'' (TArr TString),
                          req ''properties'' (TRecord (TObj [req ''type'' TString, req ''description'' TString]))])],
                  TObj
                    [req ''type'' TString,
                     req ''function'' (TObj
                         [req ''name'' TString,
                          req ''description'' TString,
                          req ''parameters'' (TObj
                              [req ''type'' TString,
                               opt ''required'' (TArr TString),
                               req ''properties'' (TRecord (TObj
                                            [req ''type'' TString,
                                             req ''description'' TString]))])])]])),
       opt ''response_format'' Ai_Cf_Qwen_Qwen3_30B_A3B_Fp8_JSON_Mode_3,
       opt ''raw'' TBoolean,
       opt ''stream'' TBoolean,
       opt ''max_tokens'' TNumber,
       opt ''temperature'' TNumber,
       opt ''top_p'' TNumber,
       opt ''top_k'' TNumber,
       opt ''seed'' TNumber,
       opt ''repetition_penalty'' TNumber,
       opt ''frequency_penalty'' TNumber,
       opt ''presence_penalty'' TNumber]"

definition Ai_Cf_Qwen_Qwen3_30B_A3B_Fp8_Async_Batch :: ts_type where
  "Ai_Cf_Qwen_Qwen3_30B_A3B_Fp8_Async_Batch =
    TObj
      [req ''requests'' (TArr (TUnion
                 [Ai_Cf_Qwen_Qwen3_30B_A3B_Fp8_Prompt_1,
                  Ai_Cf_Qwen_Qwen3_30B_A3B_Fp8_Messages_1]))]"

definition Ai_Cf_Qwen_Qwen3_30B_A3B_Fp8_Input :: ts_type where
  "Ai_Cf_Qwen_Qwen3_30B_A3B_Fp8_Input =
    TUnion
      [Ai_Cf_Qwen_Qwen3_30B_A3B_Fp8_Prompt,
       Ai_Cf_Qwen_Qwen3_30B_A3B_Fp8_Messages,
       Ai_Cf_Qwen_Qwen3_30B_A3B_Fp8_Async_Batch]"

definition Ai_Cf_Qwen_Qwen3_30B_A3B_Fp8_Chat_Completion_Response :: ts_type where
  "Ai_Cf_Qwen_Qwen3_30B_A3B_Fp8_Chat_Completion_Response =
    TObj
      [opt ''id'' TString,
       opt ''object'' (TStrLit ''chat.completion''),
       opt ''created'' TNumber,
       opt ''model'' TString,
       opt ''choices'' (TArr (TObj
                 [opt ''index'' TNumber,
                  opt ''message'' (TObj
                      [req ''role'' TString,
                       req ''content'' TString,
                       opt ''reasoning_content'' TString,
                       opt ''tool_calls'' (TArr (TObj
                                 [req ''id'' TString,
                                  req ''type'' (TStrLit ''function''),
                                  req ''function'' (TObj [req ''name'' TString, req ''arguments'' TString])]))]),
                  opt ''finish_reason'' TString,
                  opt ''stop_reason'' (TUnion [TString, TNull]),
                  opt ''logprobs'' (TUnion [TObj [], TNull])])),
       opt ''usage'' (TObj
           [opt ''prompt_tokens'' TNumber,
            opt ''completion_tokens'' TNumber,
            opt ''total_tokens'' TNumber]),
       opt ''prompt_logprobs'' (TUnion [TObj [], TNull])]"

definition Ai_Cf_Qwen_Qwen3_30B_A3B_Fp8_Text_Completion_Response :: ts_type where
  "Ai_Cf_Qwen_Qwen3_30B_A3B_Fp8_Text_Completion_Response =
    TObj
      [opt ''id'' TString,
       opt ''object'' (TStrLit ''text_completion''),
       opt ''created'' TNumber,
       opt ''model'' TString,
       opt ''choices'' (TArr (TObj
                 [req ''index'' TNumber,
                  req ''text'' TString,
                  req ''finish_reason'' TString,
                  opt ''stop_reason'' (TUnion [TString, TNull]),
                  opt ''logprobs'' (TUnion [TObj [], TNull]),
                  opt ''prompt_logprobs'' (TUnion [TObj [], TNull])])),
       opt ''usage'' (TObj
           [opt ''prompt_tokens'' TNumber,
            opt ''completion_tokens'' TNumber,
            opt ''total_tokens'' TNumber])]"

definition Ai_Cf_Qwen_Qwen3_30B_A3B_Fp8_AsyncResponse :: ts_type where
  "Ai_Cf_Qwen_Qwen3_30B_A3B_Fp8_AsyncResponse =
    TObj [opt ''request_id'' TString]"

definition Ai_Cf_Qwen_Qwen3_30B_A3B_Fp8_Output :: ts_type where
  "Ai_Cf_Qwen_Qwen3_30B_A3B_Fp8_Output =
    TUnion
      [Ai_Cf_Qwen_Qwen3_30B_A3B_Fp8_Chat_Completion_Response,
       Ai_Cf_Qwen_Qwen3_30B_A3B_Fp8_Text_Completion_Response,
       TString,
       Ai_Cf_Qwen_Qwen3_30B_A3B_Fp8_AsyncResponse]"

definition Ai_Cf_Deepgram_Nova_3_Input :: ts_type where
  "Ai_Cf_Deepgram_Nova_3_Input =
    TObj
      [req ''audio'' (TObj [req ''body'' TObject, req ''contentType'' TString]),
       opt ''custom_topic_mode'' (TUnion [TStrLit ''extended'', TStrLit ''strict'']),
       opt ''custom_topic'' TString,
       opt ''custom_intent_mode'' (TUnion [TStrLit ''extended'', TStrLit ''strict'']),
       opt ''custom_intent'' TString,
       opt ''detect_entities'' TBoolean,
       opt ''detect_language'' TBoolean,
       opt ''diarize'' TBoolean,
       opt ''dictation'' TBoolean,
       opt ''encoding'' (TUnion
           [TStrLit ''linear16'',
            TStrLit ''flac'',
            TStrLit ''mulaw'',
            TStrLit ''amr-nb'',
            TStrLit ''amr-wb'',
            TStrLit ''opus'',
            TStrLit ''speex'',
            TStrLit ''g729'']),
       opt ''extra'' TString,
       opt ''filler_words'' TBoolean,
       opt ''keyterm'' TString,
       opt ''keywords'' TString,
       opt ''language'' TString,
       opt ''measurements'' TBoolean,
       opt ''mip_opt_out'' TBoolean,
       opt ''mode'' (TUnion [TStrLit ''general'', TStrLit ''medical'', TStrLit ''finance'']),
       opt ''multichannel'' TBoolean,
       opt ''numerals'' TBoolean,
       opt ''paragraphs'' TBoolean,
       opt ''profanity_filter'' TBoolean,
       opt ''punctuate'' TBoolean,
       opt ''redact'' TString,
       opt ''replace'' TString,
       opt ''search'' TString,
       opt ''sentiment'' TBoolean,
       opt ''smart_format'' TBoolean,
       opt ''topics'' TBoolean,
       opt ''utterances'' TBoolean,
       opt ''utt_split'' TNumber,
       opt ''channels'' TNumber,
       opt ''interim_results'' TBoolean,
       opt ''endpointing'' TString,
       opt ''vad_events'' TBoolean,
       opt ''utterance_end_ms'' TBoolean]"

definition Ai_Cf_Deepgram_Nova_3_Output :: ts_type where
  "Ai_Cf_Deepgram_Nova_3_Output =
    TObj
      [opt ''results'' (TObj
           [opt ''channels'' (TArr (TObj
                      [opt ''alternatives'' (TArr (TObj
                                 [opt ''confidence'' TNumber,
                                  opt ''transcript'' TString,
                                  opt ''words'' (TArr (TObj
                                            [opt ''confidence'' TNumber,
                                             opt ''end'' TNumber,
                                             opt ''start'' TNumber,
                                             opt ''word'' TString]))]))])),
            opt ''summary'' (TObj [opt ''result'' TString, opt ''short'' TString]),
            opt ''sentiments'' (TObj
                [opt ''segments'' (TArr (TObj
                           [opt ''text'' TString,
                            opt ''start_word'' TNumber,
                            opt ''end_word'' TNumber,
                            opt ''sentiment'' TString,
                            opt ''sentiment_score'' TNumber])),
                 opt ''average'' (TObj [opt ''sentiment'' TString, opt ''sentiment_score'' TNumber])])])]"

definition Ai_Cf_Qwen_Qwen3_Embedding_0_6B_Input :: ts_type where
  "Ai_Cf_Qwen_Qwen3_Embedding_0_6B_Input =
    TObj
      [opt ''queries'' (TUnion [TString, TArr TString]),
       opt ''instruction'' TString,
       opt ''documents'' (TUnion [TString, TArr TString]),
       opt ''text'' (TUnion [TString, TArr TString])]"

definition Ai_Cf_Qwen_Qwen3_Embedding_0_6B_Output :: ts_type where
  "Ai_Cf_Qwen_Qwen3_Embedding_0_6B_Output =
    TObj [opt ''data'' (TArr (TArr TNumber)), opt ''shape'' (TArr TNumber)]"

definition Ai_Cf_Pipecat_Ai_Smart_Turn_V2_Input :: ts_type where
  "Ai_Cf_Pipecat_Ai_Smart_Turn_V2_Input =
    TUnion
      [TObj
         [req ''audio'' (TObj [req ''body'' TObject, req ''contentType'' TString]),
          opt ''dtype'' (TUnion [TStrLit ''uint8'', TStrLit ''float32'', TStrLit ''float64''])],
       TObj
         [req ''audio'' TString,
          opt ''dtype'' (TUnion [TStrLit ''uint8'', TStrLit ''float32'', TStrLit ''float64''])]]"

definition Ai_Cf_Pipecat_Ai_Smart_Turn_V2_Output :: ts_type where
  "Ai_Cf_Pipecat_Ai_Smart_Turn_V2_Output =
    TObj [opt ''is_complete'' TBoolean, opt ''probability'' TNumber]"

definition Ai_Cf_Leonardo_Phoenix_1_0_Input :: ts_type where
  "Ai_Cf_Leonardo_Phoenix_1_0_Input =
    TObj
      [req ''prompt'' TString,
       opt ''guidance'' TNumber,
       opt ''seed'' TNumber,
       opt ''height'' TNumber,
       opt ''width'' TNumber,
       opt ''num_steps'' TNumber,
       opt ''negative_prompt'' TString]"

definition Ai_Cf_Leonardo_Phoenix_1_0_Output :: ts_type where
  "Ai_Cf_Leonardo_Phoenix_1_0_Output =
    TString"

definition Ai_Cf_Leonardo_Lucid_Origin_Input :: ts_type where
  "Ai_Cf_Leonardo_Lucid_Origin_Input =
    TObj
      [req ''prompt'' TString,
       opt ''guidance'' TNumber,
       opt ''seed'' TNumber,
       opt ''height'' TNumber,
       opt ''width'' TNumber,
       opt ''num_steps'' TNumber,
       opt ''steps'' TNumber]"

definition Ai_Cf_Leonardo_Lucid_Origin_Output :: ts_type where
  "Ai_Cf_Leonardo_Lucid_Origin_Output =
    TObj [opt ''image'' TString]"

definition Ai_Cf_Deepgram_Aura_1_Input :: ts_type where
  "Ai_Cf_Deepgram_Aura_1_Input =
    TObj
      [opt ''speaker'' (TUnion
           [TStrLit ''angus'',
            TStrLit ''asteria'',
            TStrLit ''arcas'',
            TStrLit ''orion'',
            TStrLit ''orpheus'',
            TStrLit ''athena'',
            TStrLit ''luna'',
            TStrLit ''zeus'',
            TStrLit ''perseus'',
            TStrLit ''helios'',
            TStrLit ''hera'',
            TStrLit ''stella'']),
       opt ''encoding'' (TUnion
           [TStrLit ''linear16'',
            TStrLit ''flac'',
            TStrLit ''mulaw'',
            TStrLit ''alaw'',
            TStrLit ''mp3'',
            TStrLit ''opus'',
            TStrLit ''aac'']),
       opt ''container'' (TUnion [TStrLit ''none'', TStrLit ''wav'', TStrLit ''ogg'']),
       req ''text'' TString,
       opt ''sample_rate'' TNumber,
       opt ''bit_rate'' TNumber]"

definition Ai_Cf_Deepgram_Aura_1_Output :: ts_type where
  "Ai_Cf_Deepgram_Aura_1_Output =
    TString"

definition Ai_Cf_Ai4Bharat_Indictrans2_En_Indic_1B_Input :: ts_type where
  "Ai_Cf_Ai4Bharat_Indictrans2_En_Indic_1B_Input =
    TObj
      [req ''text'' (TUnion [TString, TArr TString]),
       req ''target_language'' (TUnion
           [TStrLit ''asm_Beng'',
            TStrLit ''awa_Deva'',
            TStrLit ''ben_Beng'',
            TStrLit ''bho_Deva'',
            TStrLit ''brx_Deva'',
            TStrLit ''doi_Deva'',
            TStrLit ''eng_Latn'',
            TStrLit ''gom_Deva'',
            TStrLit ''gon_Deva'',
            TStrLit ''guj_Gujr'',
            TStrLit ''hin_Deva'',
            TStrLit ''hne_Deva'',
            TStrLit ''kan_Knda'',
            TStrLit ''kas_Arab'',
            TStrLit ''kas_Deva'',
            TStrLit ''kha_Latn'',
            TStrLit ''lus_Latn'',
            TStrLit ''mag_Deva'',
            TStrLit ''mai_Deva'',
            TStrLit ''mal_Mlym'',
            TStrLit ''mar_Deva'',
            TStrLit ''mni_Beng'',
            TStrLit ''mni_Mtei'',
            TStrLit ''npi_Deva'',
            TStrLit ''ory_Orya'',
            TStrLit ''pan_Guru'',
            TStrLit ''san_Deva'',
            TStrLit ''sat_Olck'',
            TStrLit ''snd_Arab'',
            TStrLit ''snd_Deva'',
            TStrLit ''tam_Taml'',
            TStrLit ''tel_Telu'',
            TStrLit ''urd_Arab'',
            TStrLit ''unr_Deva''])]"

definition Ai_Cf_Ai4Bharat_Indictrans2_En_Indic_1B_Output :: ts_type where
  "Ai_Cf_Ai4Bharat_Indictrans2_En_Indic_1B_Output =
    TObj [req ''translations'' (TArr TString)]"

definition Ai_Cf_Aisingapore_Gemma_Sea_Lion_V4_27B_It_JSON_Mode :: ts_type where
  "Ai_Cf_Aisingapore_Gemma_Sea_Lion_V4_27B_It_JSON_Mode =
    TObj
      [opt ''type'' (TUnion [TStrLit ''json_object'', TStrLit ''json_schema'']),
       opt ''json_schema'' TAny]"

definition Ai_Cf_Aisingapore_Gemma_Sea_Lion_V4_27B_It_Prompt :: ts_type where
  "Ai_Cf_Aisingapore_Gemma_Sea_Lion_V4_27B_It_Prompt =
    TObj
      [req ''prompt'' TString,
       opt ''lora'' TString,
       opt ''response_format'' Ai_Cf_Aisingapore_Gemma_Sea_Lion_V4_27B_It_JSON_Mode,
       opt ''raw'' TBoolean,
       opt ''stream'' TBoolean,
       opt ''max_tokens'' TNumber,
       opt ''temperature'' TNumber,
       opt ''top_p'' TNumber,
       opt ''top_k'' TNumber,
       opt ''seed'' TNumber,
       opt ''repetition_penalty'' TNumber,
       opt ''frequency_penalty'' TNumber,
       opt ''presence_penalty'' TNumber]"

definition Ai_Cf_Aisingapore_Gemma_Sea_Lion_V4_27B_It_JSON_Mode_1 :: ts_type where
  "Ai_Cf_Aisingapore_Gemma_Sea_Lion_V4_27B_It_JSON_Mode_1 =
    TObj
      [opt ''type'' (TUnion [TStrLit ''json_object'', TStrLit ''json_schema'']),
       opt ''json_schema'' TAny]"

definition Ai_Cf_Aisingapore_Gemma_Sea_Lion_V4_27B_It_Messages :: ts_type where
  "Ai_Cf_Aisingapore_Gemma_Sea_Lion_V4_27B_It_Messages =
    TObj
      [req ''messages'' (TArr (TObj
                 [req ''role'' TString,
                  req ''content'' (TUnion [TString, TArr (TObj [opt ''type'' TString, opt ''text'' TString])])])),
       opt ''functions'' (TArr (TObj [req ''name'' TString, req ''code'' TString])),
       opt ''tools'' (TArr (TUnion
                 [TObj
                    [req ''name'' TString,
                     req ''description'' TString,
                     req ''parameters'' (TObj
                         [req ''type'' TString,
                          opt ''required'' (TArr TString),
                          req ''properties'' (TRecord (TObj [req ''type'' TString, req ''description'' TString]))])],
                  TObj
                    [req ''type'' TString,
                     req ''function'' (TObj
                         [req ''name'' TString,
                          req ''description'' TString,
                          req ''parameters'' (TObj
                              [req ''type'' TString,
                               opt ''required'' (TArr TString),
                               req ''properties'' (TRecord (TObj
                                            [req ''type'' TString,
                                             req ''description'' TString]))])])]])),
       opt ''response_format'' Ai_Cf_Aisingapore_Gemma_Sea_Lion_V4_27B_It_JSON_Mode_1,
       opt ''raw'' TBoolean,
       opt ''stream'' TBoolean,
       opt ''max_tokens'' TNumber,
       opt ''temperature'' TNumber,
       opt ''top_p'' TNumber,
       opt ''top_k'' TNumber,
       opt ''seed'' TNumber,
       opt ''repetition_penalty'' TNumber,
       opt ''frequency_penalty'' TNumber,
       opt ''presence_penalty'' TNumber]"

definition Ai_Cf_Aisingapore_Gemma_Sea_Lion_V4_27B_It_JSON_Mode_2 :: ts_type where
  "Ai_Cf_Aisingapore_Gemma_Sea_Lion_V4_27B_It_JSON_Mode_2 =
    TObj
      [opt ''type'' (TUnion [TStrLit ''json_object'', TStrLit ''json_schema'']),
       opt ''json_schema'' TAny]"

definition Ai_Cf_Aisingapore_Gemma_Sea_Lion_V4_27B_It_Prompt_1 :: ts_type where
  "Ai_Cf_Aisingapore_Gemma_Sea_Lion_V4_27B_It_Prompt_1 =
    TObj
      [req ''prompt'' TString,
       opt ''lora'' TString,
       opt ''response_format'' Ai_Cf_Aisingapore_Gemma_Sea_Lion_V4_27B_It_JSON_Mode_2,
       opt ''raw'' TBoolean,
       opt ''stream'' TBoolean,
       opt ''max_tokens'' TNumber,
       opt ''temperature'' TNumber,
       opt ''top_p'' TNumber,
       opt ''top_k'' TNumber,
       opt ''seed'' TNumber,
       opt ''repetition_penalty'' TNumber,
       opt ''frequency_penalty'' TNumber,
       opt ''presence_penalty'' TNumber]"

definition Ai_Cf_Aisingapore_Gemma_Sea_Lion_V4_27B_It_JSON_Mode_3 :: ts_type where
  "Ai_Cf_Aisingapore_Gemma_Sea_Lion_V4_27B_It_JSON_Mode_3 =
    TObj
      [opt ''type'' (TUnion [TStrLit ''json_object'', TStrLit ''json_schema'']),
       opt ''json_schema'' TAny]"

definition Ai_Cf_Aisingapore_Gemma_Sea_Lion_V4_27B_It_Messages_1 :: ts_type where
  "Ai_Cf_Aisingapore_Gemma_Sea_Lion_V4_27B_It_Messages_1 =
    TObj
      [req ''messages'' (TArr (TObj
                 [req ''role'' TString,
                  req ''content'' (TUnion [TString, TArr (TObj [opt ''type'' TString, opt ''text'' TString])])])),
       opt ''functions'' (TArr (TObj [req ''name'' TString, req ''code'' TString])),
       opt ''tools'' (TArr (TUnion
                 [TObj
                    [req ''name'' TString,
                     req ''description'' TString,
                     req ''parameters'' (TObj
                         [req ''type'' TString,
                          opt ''required'' (TArr TString),
                          req ''properties'' (TRecord (TObj [req ''type'' TString, req ''description'' TString]))])],
                  TObj
                    [req ''type'' TString,
                     req ''function'' (TObj
                         [req ''name'' TString,
                          req ''description'' TString,
                          req ''parameters'' (TObj
                              [req ''type'' TString,
                               opt ''required'' (TArr TString),
                               req ''properties'' (TRecord (TObj
                                            [req ''type'' TString,
                                             req ''description'' TString]))])])]])),
       opt ''response_format'' Ai_Cf_Aisingapore_Gemma_Sea_Lion_V4_27B_It_JSON_Mode_3,
       opt ''raw'' TBoolean,
       opt ''stream'' TBoolean,
       opt ''max_tokens'' TNumber,
       opt ''temperature'' TNumber,
       opt ''top_p'' TNumber,
       opt ''top_k'' TNumber,
       opt ''seed'' TNumber,
       opt ''repetition_penalty'' TNumber,
       opt ''frequency_penalty'' TNumber,
       opt ''presence_penalty'' TNumber]"

definition Ai_Cf_Aisingapore_Gemma_Sea_Lion_V4_27B_It_Async_Batch :: ts_type where
  "Ai_Cf_Aisingapore_Gemma_Sea_Lion_V4_27B_It_Async_Batch =
    TObj
      [req ''requests'' (TArr (TUnion
                 [Ai_Cf_Aisingapore_Gemma_Sea_Lion_V4_27B_It_Prompt_1,
                  Ai_Cf_Aisingapore_Gemma_Sea_Lion_V4_27B_It_Messages_1]))]"

definition Ai_Cf_Aisingapore_Gemma_Sea_Lion_V4_27B_It_Input :: ts_type where
  "Ai_Cf_Aisingapore_Gemma_Sea_Lion_V4_27B_It_Input =
    TUnion
      [Ai_Cf_Aisingapore_Gemma_Sea_Lion_V4_27B_It_Prompt,
       Ai_Cf_Aisingapore_Gemma_Sea_Lion_V4_27B_It_Messages,
       Ai_Cf_Aisingapore_Gemma_Sea_Lion_V4_27B_It_Async_Batch]"

definition Ai_Cf_Aisingapore_Gemma_Sea_Lion_V4_27B_It_Chat_Completion_Response :: ts_type where
  "Ai_Cf_Aisingapore_Gemma_Sea_Lion_V4_27B_It_Chat_Completion_Response =
    TObj
      [opt ''id'' TString,
       opt ''object'' (TStrLit ''chat.completion''),
       opt ''created'' TNumber,
       opt ''model'' TString,
       opt ''choices'' (TArr (TObj
                 [opt ''index'' TNumber,
                  opt ''message'' (TObj
                      [req ''role'' TString,
                       req ''content'' TString,
                       opt ''reasoning_content'' TString,
                       opt ''tool_calls'' (TArr (TObj
                                 [req ''id'' TString,
                                  req ''type'' (TStrLit ''function''),
                                  req ''function'' (TObj [req ''name'' TString, req ''arguments'' TString])]))]),
                  opt ''finish_reason'' TString,
                  opt ''stop_reason'' (TUnion [TString, TNull]),
                  opt ''logprobs'' (TUnion [TObj [], TNull])])),
       opt ''usage'' (TObj
           [opt ''prompt_tokens'' TNumber,
            opt ''completion_tokens'' TNumber,
            opt ''total_tokens'' TNumber]),
       opt ''prompt_logprobs'' (TUnion [TObj [], TNull])]"

definition Ai_Cf_Aisingapore_Gemma_Sea_Lion_V4_27B_It_Text_Completion_Response :: ts_type where
  "Ai_Cf_Aisingapore_Gemma_Sea_Lion_V4_27B_It_Text_Completion_Response =
    TObj
      [opt ''id'' TString,
       opt ''object'' (TStrLit ''text_completion''),
       opt ''created'' TNumber,
       opt ''model'' TString,
       opt ''choices'' (TArr (TObj
                 [req ''index'' TNumber,
                  req ''text'' TString,
                  req ''finish_reason'' TString,
                  opt ''stop_reason'' (TUnion [TString, TNull]),
                  opt ''logprobs'' (TUnion [TObj [], TNull]),
                  opt ''prompt_logprobs'' (TUnion [TObj [], TNull])])),
       opt ''usage'' (TObj
           [opt ''prompt_tokens'' TNumber,
            opt ''completion_tokens'' TNumber,
            opt ''total_tokens'' TNumber])]"

definition Ai_Cf_Aisingapore_Gemma_Sea_Lion_V4_27B_It_AsyncResponse :: ts_type where
  "Ai_Cf_Aisingapore_Gemma_Sea_Lion_V4_27B_It_AsyncResponse =
    TObj [opt ''request_id'' TString]"

definition Ai_Cf_Aisingapore_Gemma_Sea_Lion_V4_27B_It_Output :: ts_type where
  "Ai_Cf_Aisingapore_Gemma_Sea_Lion_V4_27B_It_Output =
    TUnion
      [Ai_Cf_Aisingapore_Gemma_Sea_Lion_V4_27B_It_Chat_Completion_Response,
       Ai_Cf_Aisingapore_Gemma_Sea_Lion_V4_27B_It_Text_Completion_Response,
       TString,
       Ai_Cf_Aisingapore_Gemma_Sea_Lion_V4_27B_It_AsyncResponse]"

definition Ai_Cf_Pfnet_Plamo_Embedding_1B_Input :: ts_type where
  "Ai_Cf_Pfnet_Plamo_Embedding_1B_Input =
    TObj [req ''text'' (TUnion [TString, TArr TString])]"

definition Ai_Cf_Deepgram_Flux_Input :: ts_type where
  "Ai_Cf_Deepgram_Flux_Input =
    TObj
      [req ''encoding'' (TStrLit ''linear16''),
       req ''sample_rate'' TString,
       opt ''eager_eot_threshold'' TString,
       opt ''eot_threshold'' TString,
       opt ''eot_timeout_ms'' TString,
       opt ''keyterm'' TString,
       opt ''mip_opt_out'' (TUnion [TStrLit ''true'', TStrLit ''false'']),
       opt ''tag'' TString]"

definition Ai_Cf_Deepgram_Flux_Output :: ts_type where
  "Ai_Cf_Deepgram_Flux_Output =
    TObj
      [opt ''request_id'' TString,
       opt ''sequence_id'' TNumber,
       opt ''event'' (TUnion
           [TStrLit ''Update'',
            TStrLit ''StartOfTurn'',
            TStrLit ''EagerEndOfTurn'',
            TStrLit ''TurnResumed'',
            TStrLit ''EndOfTurn'']),
       opt ''turn_index'' TNumber,
       opt ''audio_window_start'' TNumber,
       opt ''audio_window_end'' TNumber,
       opt ''transcript'' TString,
       opt ''words'' (TArr (TObj [req ''word'' TString, req ''confidence'' TNumber])),
       opt ''end_of_turn_confidence'' TNumber]"

definition Ai_Cf_Deepgram_Aura_2_En_Input :: ts_type where
  "Ai_Cf_Deepgram_Aura_2_En_Input =
    TObj
      [opt ''speaker'' (TUnion
           [TStrLit ''amalthea'',
            TStrLit ''andromeda'',
            TStrLit ''apollo'',
            TStrLit ''arcas'',
            TStrLit ''aries'',
            TStrLit ''asteria'',
            TStrLit ''athena'',
            TStrLit ''atlas'',
            TStrLit ''aurora'',
            TStrLit ''callista'',
            TStrLit ''cora'',
            TStrLit ''cordelia'',
            TStrLit ''delia'',
            TStrLit ''draco'',
            TStrLit ''electra'',
            TStrLit ''harmonia'',
            TStrLit ''helena'',
            TStrLit ''hera'',
            TStrLit ''hermes'',
            TStrLit ''hyperion'',
            TStrLit ''iris'',
            TStrLit ''janus'',
            TStrLit ''juno'',
            TStrLit ''jupiter'',
            TStrLit ''luna'',
            TStrLit ''mars'',
            TStrLit ''minerva'',
            TStrLit ''neptune'',
            TStrLit ''odysseus'',
            TStrLit ''ophelia'',
            TStrLit ''orion'',
            TStrLit ''orpheus'',
            TStrLit ''pandora'',
            TStrLit ''phoebe'',
            TStrLit ''pluto'',
            TStrLit ''saturn'',
            TStrLit ''thalia'',
            TStrLit ''theia'',
            TStrLit ''vesta'',
            TStrLit ''zeus'']),
       opt ''encoding'' (TUnion
           [TStrLit ''linear16'',
            TStrLit ''flac'',
            TStrLit ''mulaw'',
            TStrLit ''alaw'',
            TStrLit ''mp3'',
            TStrLit ''opus'',
            TStrLit ''aac'']),
       opt ''container'' (TUnion [TStrLit ''none'', TStrLit ''wav'', TStrLit ''ogg'']),
       req ''text'' TString,
       opt ''sample_rate'' TNumber,
       opt ''bit_rate'' TNumber]"

definition Ai_Cf_Deepgram_Aura_2_En_Output :: ts_type where
  "Ai_Cf_Deepgram_Aura_2_En_Output =
    TString"

definition Ai_Cf_Deepgram_Aura_2_Es_Input :: ts_type where
  "Ai_Cf_Deepgram_Aura_2_Es_Input =
    TObj
      [opt ''speaker'' (TUnion
           [TStrLit ''sirio'',
            TStrLit ''nestor'',
            TStrLit ''carina'',
            TStrLit ''celeste'',
            TStrLit ''alvaro'',
            TStrLit ''diana'',
            TStrLit ''aquila'',
            TStrLit ''selena'',
            TStrLit ''estrella'',
            TStrLit ''javier'']),
       opt ''encoding'' (TUnion
           [TStrLit ''linear16'',
            TStrLit ''flac'',
            TStrLit ''mulaw'',
            TStrLit ''alaw'',
            TStrLit ''mp3'',
            TStrLit ''opus'',
            TStrLit ''aac'']),
       opt ''container'' (TUnion [TStrLit ''none'', TStrLit ''wav'', TStrLit ''ogg'']),
       req ''text'' TString,
       opt ''sample_rate'' TNumber,
       opt ''bit_rate'' TNumber]"

definition Ai_Cf_Deepgram_Aura_2_Es_Output :: ts_type where
  "Ai_Cf_Deepgram_Aura_2_Es_Output =
    TString"

definition Ai_Cf_Black_Forest_Labs_Flux_2_Dev_Input :: ts_type where
  "Ai_Cf_Black_Forest_Labs_Flux_2_Dev_Input =
    TObj [req ''multipart'' (TObj [opt ''body'' TObject, opt ''contentType'' TString])]"

definition Ai_Cf_Black_Forest_Labs_Flux_2_Dev_Output :: ts_type where
  "Ai_Cf_Black_Forest_Labs_Flux_2_Dev_Output =
    TObj [opt ''image'' TString]"

definition Ai_Cf_Black_Forest_Labs_Flux_2_Klein_4B_Input :: ts_type where
  "Ai_Cf_Black_Forest_Labs_Flux_2_Klein_4B_Input =
    TObj [req ''multipart'' (TObj [opt ''body'' TObject, opt ''contentType'' TString])]"

definition Ai_Cf_Black_Forest_Labs_Flux_2_Klein_4B_Output :: ts_type where
  "Ai_Cf_Black_Forest_Labs_Flux_2_Klein_4B_Output =
    TObj [opt ''image'' TString]"

definition Ai_Cf_Black_Forest_Labs_Flux_2_Klein_9B_Input :: ts_type where
  "Ai_Cf_Black_Forest_Labs_Flux_2_Klein_9B_Input =
    TObj [req ''multipart'' (TObj [opt ''body'' TObject, opt ''contentType'' TString])]"

definition Ai_Cf_Black_Forest_Labs_Flux_2_Klein_9B_Output :: ts_type where
  "Ai_Cf_Black_Forest_Labs_Flux_2_Klein_9B_Output =
    TObj [opt ''image'' TString]"

end
