(* ===== verification/Ai_Models.thy ===== *)
theory Ai_Models
  imports Ai_Chat_Types Ai_Model_Types Ai_Model_Types_2
begin

text \<open>
  The models of the AI binding of \<^verbatim>\<open>worker-configuration.d.ts\<close>: the input types built with the
  file's own type functions (\<^verbatim>\<open>Without\<close>, \<^verbatim>\<open>XOR\<close>) or with \<^verbatim>\<open>NonNullable\<close>, the abstract
  classes that give every model its input type, and the interface \<^verbatim>\<open>AiModels\<close> that gives every
  model name its class.
\<close>

section \<open>Type functions\<close>

text \<open>\<^verbatim>\<open>NonNullable<unknown>\<close>: every value but \<^verbatim>\<open>null\<close> and \<^verbatim>\<open>undefined\<close>.\<close>

definition NonNullable_unknown :: ts_type where
  "NonNullable_unknown = TUnion [TBoolean, TNumber, TString, TObject]"

lemma NonNullable_unknown_conforms:
  "conforms NonNullable_unknown v \<longleftrightarrow> v \<noteq> JNull \<and> v \<noteq> JUndefined"
  by (cases v) (simp_all add: NonNullable_unknown_def)

text \<open>
  \<^verbatim>\<open>keyof\<close>: the members of an object type, of any part of an intersection, and the common ones of
  the alternatives of a union.
\<close>

fun type_keys :: "ts_type \<Rightarrow> string list" where
  "type_keys (TObj ps) = map fst ps"
| "type_keys (TInter ts) = concat (map type_keys ts)"
| "type_keys (TUnion ts) =
    (case map type_keys ts of
       [] \<Rightarrow> []
     | ks # kss \<Rightarrow> filter (\<lambda>k. list_all (\<lambda>ls. k \<in> set ls) kss) ks)"
| "type_keys _ = []"

definition Without :: "ts_type \<Rightarrow> ts_type \<Rightarrow> ts_type" where
  "Without t u = TObj (map (\<lambda>k. opt k TNever) (filter (\<lambda>k. k \<notin> set (type_keys u)) (type_keys t)))"

definition XOR :: "ts_type \<Rightarrow> ts_type \<Rightarrow> ts_type" where
  "XOR t u = TUnion [TInter [t, Without u t], TInter [u, Without t u]]"

text \<open>Whether an object holds a value at a member; \<^verbatim>\<open>undefined\<close> is as good as a missing one.\<close>

definition holds :: "js_value \<Rightarrow> string \<Rightarrow> bool" where
  "holds v k \<longleftrightarrow> (case v of
     JObj kvs \<Rightarrow> (case map_of kvs k of None \<Rightarrow> False | Some w \<Rightarrow> w \<noteq> JUndefined)
   | _ \<Rightarrow> False)"

lemma holds_Nil [simp]: "\<not> holds (JObj []) k"
  by (simp add: holds_def)

lemma holds_Cons [simp]:
  "holds (JObj ((j, w) # kvs)) k \<longleftrightarrow> (if k = j then w \<noteq> JUndefined else holds (JObj kvs) k)"
  by (simp add: holds_def)

lemma Without_conforms:
  "conforms (Without t u) (JObj kvs) \<longleftrightarrow>
     (\<forall>k \<in> set (type_keys t). k \<notin> set (type_keys u) \<longrightarrow> \<not> holds (JObj kvs) k)"
  by (auto simp: Without_def holds_def list_all_iff split: option.splits)

lemma Without_object [simp]:
  "conforms (Without t u) v \<Longrightarrow> \<exists>kvs. v = JObj kvs"
  by (cases v) (simp_all add: Without_def)

lemma Without_keys [simp]: "set (type_keys (Without t u)) = set (type_keys t) - set (type_keys u)"
  by (auto simp: Without_def)

lemma Without_required [simp]: "required (Without t u) = [[]]"
  by (simp add: Without_def filter_empty_conv)

lemma Without_samples [simp]: "samples (Without t u) = [[]]"
  by (simp add: Without_def filter_empty_conv)

lemma XOR_cases:
  assumes "conforms (XOR t u) v"
  shows "(\<exists>kvs. v = JObj kvs)
    \<and> (conforms t v \<and> (\<forall>k \<in> set (type_keys u). k \<notin> set (type_keys t) \<longrightarrow> \<not> holds v k)
     \<or> conforms u v \<and> (\<forall>k \<in> set (type_keys t). k \<notin> set (type_keys u) \<longrightarrow> \<not> holds v k))"
proof -
  from assms have c: "conforms t v \<and> conforms (Without u t) v \<or> conforms u v \<and> conforms (Without t u) v"
    by (simp add: XOR_def)
  then obtain kvs where "v = JObj kvs" using Without_object by blast
  with c show ?thesis by (auto simp: Without_conforms)
qed

lemma XOR_conforms:
  "conforms (XOR t u) (JObj kvs) \<longleftrightarrow>
     conforms t (JObj kvs) \<and> (\<forall>k \<in> set (type_keys u). k \<notin> set (type_keys t) \<longrightarrow> \<not> holds (JObj kvs) k)
   \<or> conforms u (JObj kvs) \<and> (\<forall>k \<in> set (type_keys t). k \<notin> set (type_keys u) \<longrightarrow> \<not> holds (JObj kvs) k)"
  by (simp add: XOR_def Without_conforms)

lemma XOR_keys: "set (type_keys (XOR t u)) = set (type_keys t) \<union> set (type_keys u)"
  by (auto simp: XOR_def)

lemma XOR_required: "required (XOR t u) = required t @ required u"
  by (simp add: XOR_def products_def)

lemma XOR_samples: "samples (XOR t u) = samples t @ samples u"
  by (simp add: XOR_def products_def)

lemma holds_member: "holds (JObj kvs) k \<Longrightarrow> k \<in> fst ` set kvs"
  by (cases "map_of kvs k") (force simp: holds_def dest: map_of_SomeD)+

lemma exact_members_alternative:
  assumes "exact_members t kss" and "ks \<in> set kss"
  shows "\<exists>kvs \<in> set (samples t). fst ` set kvs \<subseteq> set ks \<and> conforms t (JObj kvs)"
  using assms by (auto simp: exact_members_def list_all_iff list_ex_iff)

lemma exact_members_required:
  assumes "exact_members t kss" and "rs \<in> set (required t)"
  shows "\<exists>ks \<in> set kss. set ks \<subseteq> set rs"
  using assms by (auto simp: exact_members_def list_all_iff list_ex_iff)

text \<open>
  Either type, but not both: the alternatives of the two types together, when no member one of them
  asks for is a member of the other only.
\<close>

lemma exact_members_XOR:
  assumes t: "exact_members t A" and u: "exact_members u B"
    and A: "\<forall>ks \<in> set A. \<forall>k \<in> set ks. k \<in> set (type_keys u) \<longrightarrow> k \<in> set (type_keys t)"
    and B: "\<forall>ks \<in> set B. \<forall>k \<in> set ks. k \<in> set (type_keys t) \<longrightarrow> k \<in> set (type_keys u)"
  shows "exact_members (XOR t u) (A @ B)"
proof -
  have "\<exists>kvs \<in> set (samples (XOR t u)). fst ` set kvs \<subseteq> set ks \<and> conforms (XOR t u) (JObj kvs)"
    if ks: "ks \<in> set A \<union> set B" for ks
  proof (cases "ks \<in> set A")
    case True
    from exact_members_alternative [OF t True] obtain kvs where kvs: "kvs \<in> set (samples t)"
      "fst ` set kvs \<subseteq> set ks" "conforms t (JObj kvs)" by blast
    with A True have "conforms (XOR t u) (JObj kvs)" by (auto simp: XOR_conforms dest!: holds_member)
    with kvs show ?thesis by (auto simp: XOR_samples)
  next
    case False
    with ks have ksB: "ks \<in> set B" by blast
    from exact_members_alternative [OF u ksB] obtain kvs where kvs: "kvs \<in> set (samples u)"
      "fst ` set kvs \<subseteq> set ks" "conforms u (JObj kvs)" by blast
    with B ksB have "conforms (XOR t u) (JObj kvs)" by (auto simp: XOR_conforms dest!: holds_member)
    with kvs show ?thesis by (auto simp: XOR_samples)
  qed
  moreover have "\<exists>ks \<in> set A \<union> set B. set ks \<subseteq> set rs" if "rs \<in> set (required (XOR t u))" for rs
    using that exact_members_required [OF t] exact_members_required [OF u]
    by (auto simp: XOR_required bex_Un)
  ultimately show ?thesis by (simp add: exact_members_def list_all_iff list_ex_iff)
qed

section \<open>Inputs\<close>

definition RoleScopedChatInput :: ts_type where
  "RoleScopedChatInput =
    TObj
      [req ''role'' (TUnion
           [TStrLit ''user'',
            TStrLit ''assistant'',
            TStrLit ''system'',
            TStrLit ''tool'',
            TInter [TString, NonNullable_unknown]]),
       req ''content'' TString,
       opt ''name'' TString]"

definition AiImageToTextInput :: ts_type where
  "AiImageToTextInput =
    TObj
      [req ''image'' (TArr TNumber),
       opt ''prompt'' TString,
       opt ''max_tokens'' TNumber,
       opt ''temperature'' TNumber,
       opt ''top_p'' TNumber,
       opt ''top_k'' TNumber,
       opt ''seed'' TNumber,
       opt ''repetition_penalty'' TNumber,
       opt ''frequency_penalty'' TNumber,
       opt ''presence_penalty'' TNumber,
       opt ''raw'' TBoolean,
       opt ''messages'' (TArr RoleScopedChatInput)]"

definition AiImageTextToTextInput :: ts_type where
  "AiImageTextToTextInput =
    TObj
      [req ''image'' TString,
       opt ''prompt'' TString,
       opt ''max_tokens'' TNumber,
       opt ''temperature'' TNumber,
       opt ''ignore_eos'' TBoolean,
       opt ''top_p'' TNumber,
       opt ''top_k'' TNumber,
       opt ''seed'' TNumber,
       opt ''repetition_penalty'' TNumber,
       opt ''frequency_penalty'' TNumber,
       opt ''presence_penalty'' TNumber,
       opt ''raw'' TBoolean,
       opt ''messages'' (TArr RoleScopedChatInput)]"

definition AiTextGenerationToolLegacyInput :: ts_type where
  "AiTextGenerationToolLegacyInput =
    TObj
      [req ''name'' TString,
       req ''description'' TString,
       opt ''parameters'' (TObj
           [req ''type'' (TUnion [TStrLit ''object'', TInter [TString, NonNullable_unknown]]),
            req ''properties'' (TRecord (TObj [req ''type'' TString, opt ''description'' TString])),
            req ''required'' (TArr TString)])]"

definition AiTextGenerationToolInput :: ts_type where
  "AiTextGenerationToolInput =
    TObj
      [req ''type'' (TUnion [TStrLit ''function'', TInter [TString, NonNullable_unknown]]),
       req ''function'' (TObj
           [req ''name'' TString,
            req ''description'' TString,
            opt ''parameters'' (TObj
                [req ''type'' (TUnion [TStrLit ''object'', TInter [TString, NonNullable_unknown]]),
                 req ''properties'' (TRecord (TObj [req ''type'' TString, opt ''description'' TString])),
                 req ''required'' (TArr TString)])])]"

definition AiTextGenerationInput :: ts_type where
  "AiTextGenerationInput =
    TObj
      [opt ''prompt'' TString,
       opt ''raw'' TBoolean,
       opt ''stream'' TBoolean,
       opt ''max_tokens'' TNumber,
       opt ''temperature'' TNumber,
       opt ''top_p'' TNumber,
       opt ''top_k'' TNumber,
       opt ''seed'' TNumber,
       opt ''repetition_penalty'' TNumber,
       opt ''frequency_penalty'' TNumber,
       opt ''presence_penalty'' TNumber,
       opt ''messages'' (TArr RoleScopedChatInput),
       opt ''response_format'' AiTextGenerationResponseFormat,
       opt ''tools'' (TUnion
           [TArr AiTextGenerationToolInput,
            TArr AiTextGenerationToolLegacyInput,
            TInter [TObject, NonNullable_unknown]]),
       opt ''functions'' (TArr AiTextGenerationFunctionsInput)]"

definition Ai_Cf_Unum_Uform_Gen2_Qwen_500M_Input :: ts_type where
  "Ai_Cf_Unum_Uform_Gen2_Qwen_500M_Input =
    TUnion
      [TString,
       TObj
         [opt ''prompt'' TString,
          opt ''raw'' TBoolean,
          opt ''top_p'' TNumber,
          opt ''top_k'' TNumber,
          opt ''seed'' TNumber,
          opt ''repetition_penalty'' TNumber,
          opt ''frequency_penalty'' TNumber,
          opt ''presence_penalty'' TNumber,
          req ''image'' (TUnion [TArr TNumber, TInter [TString, NonNullable_unknown]]),
          opt ''max_tokens'' TNumber]]"

definition Ai_Cf_Meta_Llama_3_2_11B_Vision_Instruct_Prompt :: ts_type where
  "Ai_Cf_Meta_Llama_3_2_11B_Vision_Instruct_Prompt =
    TObj
      [req ''prompt'' TString,
       opt ''image'' (TUnion [TArr TNumber, TInter [TString, NonNullable_unknown]]),
       opt ''raw'' TBoolean,
       opt ''stream'' TBoolean,
       opt ''max_tokens'' TNumber,
       opt ''temperature'' TNumber,
       opt ''top_p'' TNumber,
       opt ''top_k'' TNumber,
       opt ''seed'' TNumber,
       opt ''repetition_penalty'' TNumber,
       opt ''frequency_penalty'' TNumber,
       opt ''presence_penalty'' TNumber,
       opt ''lora'' TString]"

definition Ai_Cf_Meta_Llama_3_2_11B_Vision_Instruct_Messages :: ts_type where
  "Ai_Cf_Meta_Llama_3_2_11B_Vision_Instruct_Messages =
    TObj
      [req ''messages'' (TArr (TObj
                 [opt ''role'' TString,
                  opt ''tool_call_id'' TString,
                  opt ''content'' (TUnion
                      [TString,
                       TArr (TObj
                               [opt ''type'' TString,
                                opt ''text'' TString,
                                opt ''image_url'' (TObj [opt ''url'' TString])]),
                       TObj
                         [opt ''type'' TString,
                          opt ''text'' TString,
                          opt ''image_url'' (TObj [opt ''url'' TString])]])])),
       opt ''image'' (TUnion [TArr TNumber, TInter [TString, NonNullable_unknown]]),
       opt ''functions'' (TArr (TObj [req ''name'' TString, req ''code'' TString])),
       opt ''tools'' (TArr (TUnion
                 [TObj
                    [req ''name'' TString,
                     req ''description'' TString,
                     req ''parameters'' (TObj
                         [req ''type'' TString,
                          opt ''required'' (TArr TString),
                          req ''properties'' (TRecord (TObj [req ''type'' TString, req ''description'' TString]))])],
                  TObj
                    [req ''type'' TString,
                     req ''function'' (TObj
                         [req ''name'' TString,
                          req ''description'' TString,
                          req ''parameters'' (TObj
                              [req ''type'' TString,
                               opt ''required'' (TArr TString),
                               req ''properties'' (TRecord (TObj
                                            [req ''type'' TString,
                                             req ''description'' TString]))])])]])),
       opt ''stream'' TBoolean,
       opt ''max_tokens'' TNumber,
       opt ''temperature'' TNumber,
       opt ''top_p'' TNumber,
       opt ''top_k'' TNumber,
       opt ''seed'' TNumber,
       opt ''repetition_penalty'' TNumber,
       opt ''frequency_penalty'' TNumber,
       opt ''presence_penalty'' TNumber]"

definition Ai_Cf_Meta_Llama_3_2_11B_Vision_Instruct_Input :: ts_type where
  "Ai_Cf_Meta_Llama_3_2_11B_Vision_Instruct_Input =
    TUnion
      [Ai_Cf_Meta_Llama_3_2_11B_Vision_Instruct_Prompt,
       Ai_Cf_Meta_Llama_3_2_11B_Vision_Instruct_Messages]"

definition ChatCompletionsBase :: ts_type where
  "ChatCompletionsBase =
    XOR ChatCompletionsPromptInput ChatCompletionsMessagesInput"

definition ChatCompletionsInput :: ts_type where
  "ChatCompletionsInput =
    XOR ChatCompletionsBase (TObj [req ''requests'' (TArr ChatCompletionsBase)])"

section \<open>Model classes\<close>

text \<open>
  The abstract classes of the models; \<^verbatim>\<open>inputs\<close> is the member of that name every class declares.
\<close>

datatype model_class =
    BaseAiImageClassification
  | BaseAiImageToText
  | BaseAiImageTextToText
  | BaseAiMultimodalEmbeddings
  | BaseAiObjectDetection
  | BaseAiSentenceSimilarity
  | BaseAiAutomaticSpeechRecognition
  | BaseAiSummarization
  | BaseAiTextClassification
  | BaseAiTextEmbeddings
  | BaseAiTextGeneration
  | BaseAiTextToSpeech
  | BaseAiTextToImage
  | BaseAiTranslation
  | Base_Ai_Cf_Baai_Bge_Base_En_V1_5
  | Base_Ai_Cf_Openai_Whisper
  | Base_Ai_Cf_Meta_M2M100_1_2B
  | Base_Ai_Cf_Baai_Bge_Small_En_V1_5
  | Base_Ai_Cf_Baai_Bge_Large_En_V1_5
  | Base_Ai_Cf_Unum_Uform_Gen2_Qwen_500M
  | Base_Ai_Cf_Openai_Whisper_Tiny_En
  | Base_Ai_Cf_Openai_Whisper_Large_V3_Turbo
  | Base_Ai_Cf_Baai_Bge_M3
  | Base_Ai_Cf_Black_Forest_Labs_Flux_1_Schnell
  | Base_Ai_Cf_Meta_Llama_3_2_11B_Vision_Instruct
  | Base_Ai_Cf_Meta_Llama_3_3_70B_Instruct_Fp8_Fast
  | Base_Ai_Cf_Meta_Llama_Guard_3_8B
  | Base_Ai_Cf_Baai_Bge_Reranker_Base
  | Base_Ai_Cf_Qwen_Qwen2_5_Coder_32B_Instruct
  | Base_Ai_Cf_Qwen_Qwq_32B
  | Base_Ai_Cf_Mistralai_Mistral_Small_3_1_24B_Instruct
  | Base_Ai_Cf_Google_Gemma_3_12B_It
  | Base_Ai_Cf_Meta_Llama_4_Scout_17B_16E_Instruct
  | Base_Ai_Cf_Qwen_Qwen3_30B_A3B_Fp8
  | Base_Ai_Cf_Deepgram_Nova_3
  | Base_Ai_Cf_Qwen_Qwen3_Embedding_0_6B
  | Base_Ai_Cf_Pipecat_Ai_Smart_Turn_V2
  | Base_Ai_Cf_Openai_Gpt_Oss_120B
  | Base_Ai_Cf_Openai_Gpt_Oss_20B
  | Base_Ai_Cf_Leonardo_Phoenix_1_0
  | Base_Ai_Cf_Leonardo_Lucid_Origin
  | Base_Ai_Cf_Deepgram_Aura_1
  | Base_Ai_Cf_Ai4Bharat_Indictrans2_En_Indic_1B
  | Base_Ai_Cf_Aisingapore_Gemma_Sea_Lion_V4_27B_It
  | Base_Ai_Cf_Pfnet_Plamo_Embedding_1B
  | Base_Ai_Cf_Deepgram_Flux
  | Base_Ai_Cf_Deepgram_Aura_2_En
  | Base_Ai_Cf_Deepgram_Aura_2_Es
  | Base_Ai_Cf_Black_Forest_Labs_Flux_2_Dev
  | Base_Ai_Cf_Black_Forest_Labs_Flux_2_Klein_4B
  | Base_Ai_Cf_Black_Forest_Labs_Flux_2_Klein_9B
  | Base_Ai_Cf_Zai_Org_Glm_4_7_Flash
  | Base_Ai_Cf_Moonshotai_Kimi_K2_5
  | Base_Ai_Cf_Nvidia_Nemotron_3_120B_A12B
  | Base_Ai_Cf_Google_Gemma_4_26B_A4B_IT

primrec inputs :: "model_class \<Rightarrow> ts_type" where
  "inputs BaseAiImageClassification = AiImageClassificationInput"
| "inputs BaseAiImageToText = AiImageToTextInput"
| "inputs BaseAiImageTextToText = AiImageTextToTextInput"
| "inputs BaseAiMultimodalEmbeddings = AiImageTextToTextInput"
| "inputs BaseAiObjectDetection = AiObjectDetectionInput"
| "inputs BaseAiSentenceSimilarity = AiSentenceSimilarityInput"
| "inputs BaseAiAutomaticSpeechRecognition = AiAutomaticSpeechRecognitionInput"
| "inputs BaseAiSummarization = AiSummarizationInput"
| "inputs BaseAiTextClassification = AiTextClassificationInput"
| "inputs BaseAiTextEmbeddings = AiTextEmbeddingsInput"
| "inputs BaseAiTextGeneration = AiTextGenerationInput"
| "inputs BaseAiTextToSpeech = AiTextToSpeechInput"
| "inputs BaseAiTextToImage = AiTextToImageInput"
| "inputs BaseAiTranslation = AiTranslationInput"
| "inputs Base_Ai_Cf_Baai_Bge_Base_En_V1_5 = Ai_Cf_Baai_Bge_Base_En_V1_5_Input"
| "inputs Base_Ai_Cf_Openai_Whisper = Ai_Cf_Openai_Whisper_Input"
| "inputs Base_Ai_Cf_Meta_M2M100_1_2B = Ai_Cf_Meta_M2M100_1_2B_Input"
| "inputs Base_Ai_Cf_Baai_Bge_Small_En_V1_5 = Ai_Cf_Baai_Bge_Small_En_V1_5_Input"
| "inputs Base_Ai_Cf_Baai_Bge_Large_En_V1_5 = Ai_Cf_Baai_Bge_Large_En_V1_5_Input"
| "inputs Base_Ai_Cf_Unum_Uform_Gen2_Qwen_500M = Ai_Cf_Unum_Uform_Gen2_Qwen_500M_Input"
| "inputs Base_Ai_Cf_Openai_Whisper_Tiny_En = Ai_Cf_Openai_Whisper_Tiny_En_Input"
| "inputs Base_Ai_Cf_Openai_Whisper_Large_V3_Turbo = Ai_Cf_Openai_Whisper_Large_V3_Turbo_Input"
| "inputs Base_Ai_Cf_Baai_Bge_M3 = Ai_Cf_Baai_Bge_M3_Input"
| "inputs Base_Ai_Cf_Black_Forest_Labs_Flux_1_Schnell = Ai_Cf_Black_Forest_Labs_Flux_1_Schnell_Input"
| "inputs Base_Ai_Cf_Meta_Llama_3_2_11B_Vision_Instruct = Ai_Cf_Meta_Llama_3_2_11B_Vision_Instruct_Input"
| "inputs Base_Ai_Cf_Meta_Llama_3_3_70B_Instruct_Fp8_Fast = Ai_Cf_Meta_Llama_3_3_70B_Instruct_Fp8_Fast_Input"
| "inputs Base_Ai_Cf_Meta_Llama_Guard_3_8B = Ai_Cf_Meta_Llama_Guard_3_8B_Input"
| "inputs Base_Ai_Cf_Baai_Bge_Reranker_Base = Ai_Cf_Baai_Bge_Reranker_Base_Input"
| "inputs Base_Ai_Cf_Qwen_Qwen2_5_Coder_32B_Instruct = Ai_Cf_Qwen_Qwen2_5_Coder_32B_Instruct_Input"
| "inputs Base_Ai_Cf_Qwen_Qwq_32B = Ai_Cf_Qwen_Qwq_32B_Input"
| "inputs Base_Ai_Cf_Mistralai_Mistral_Small_3_1_24B_Instruct = Ai_Cf_Mistralai_Mistral_Small_3_1_24B_Instruct_Input"
| "inputs Base_Ai_Cf_Google_Gemma_3_12B_It = Ai_Cf_Google_Gemma_3_12B_It_Input"
| "inputs Base_Ai_Cf_Meta_Llama_4_Scout_17B_16E_Instruct = Ai_Cf_Meta_Llama_4_Scout_17B_16E_Instruct_Input"
| "inputs Base_Ai_Cf_Qwen_Qwen3_30B_A3B_Fp8 = Ai_Cf_Qwen_Qwen3_30B_A3B_Fp8_Input"
| "inputs Base_Ai_Cf_Deepgram_Nova_3 = Ai_Cf_Deepgram_Nova_3_Input"
| "inputs Base_Ai_Cf_Qwen_Qwen3_Embedding_0_6B = Ai_Cf_Qwen_Qwen3_Embedding_0_6B_Input"
| "inputs Base_Ai_Cf_Pipecat_Ai_Smart_Turn_V2 = Ai_Cf_Pipecat_Ai_Smart_Turn_V2_Input"
| "inputs Base_Ai_Cf_Openai_Gpt_Oss_120B = XOR ResponsesInput ChatCompletionsInput"
| "inputs Base_Ai_Cf_Openai_Gpt_Oss_20B = XOR ResponsesInput ChatCompletionsInput"
| "inputs Base_Ai_Cf_Leonardo_Phoenix_1_0 = Ai_Cf_Leonardo_Phoenix_1_0_Input"
| "inputs Base_Ai_Cf_Leonardo_Lucid_Origin = Ai_Cf_Leonardo_Lucid_Origin_Input"
| "inputs Base_Ai_Cf_Deepgram_Aura_1 = Ai_Cf_Deepgram_Aura_1_Input"
| "inputs Base_Ai_Cf_Ai4Bharat_Indictrans2_En_Indic_1B = Ai_Cf_Ai4Bharat_Indictrans2_En_Indic_1B_Input"
| "inputs Base_Ai_Cf_Aisingapore_Gemma_Sea_Lion_V4_27B_It = Ai_Cf_Aisingapore_Gemma_Sea_Lion_V4_27B_It_Input"
| "inputs Base_Ai_Cf_Pfnet_Plamo_Embedding_1B = Ai_Cf_Pfnet_Plamo_Embedding_1B_Input"
| "inputs Base_Ai_Cf_Deepgram_Flux = Ai_Cf_Deepgram_Flux_Input"
| "inputs Base_Ai_Cf_Deepgram_Aura_2_En = Ai_Cf_Deepgram_Aura_2_En_Input"
| "inputs Base_Ai_Cf_Deepgram_Aura_2_Es = Ai_Cf_Deepgram_Aura_2_Es_Input"
| "inputs Base_Ai_Cf_Black_Forest_Labs_Flux_2_Dev = Ai_Cf_Black_Forest_Labs_Flux_2_Dev_Input"
| "inputs Base_Ai_Cf_Black_Forest_Labs_Flux_2_Klein_4B = Ai_Cf_Black_Forest_Labs_Flux_2_Klein_4B_Input"
| "inputs Base_Ai_Cf_Black_Forest_Labs_Flux_2_Klein_9B = Ai_Cf_Black_Forest_Labs_Flux_2_Klein_9B_Input"
| "inputs Base_Ai_Cf_Zai_Org_Glm_4_7_Flash = ChatCompletionsInput"
| "inputs Base_Ai_Cf_Moonshotai_Kimi_K2_5 = ChatCompletionsInput"
| "inputs Base_Ai_Cf_Nvidia_Nemotron_3_120B_A12B = ChatCompletionsInput"
| "inputs Base_Ai_Cf_Google_Gemma_4_26B_A4B_IT = ChatCompletionsInput"

text \<open>The interface \<^verbatim>\<open>AiModels\<close>: the class of every model name.\<close>

definition AiModels :: "(string \<times> model_class) list" where
  "AiModels =
    [(''@cf/huggingface/distilbert-sst-2-int8'', BaseAiTextClassification),
     (''@cf/stabilityai/stable-diffusion-xl-base-1.0'', BaseAiTextToImage),
     (''@cf/runwayml/stable-diffusion-v1-5-inpainting'', BaseAiTextToImage),
     (''@cf/runwayml/stable-diffusion-v1-5-img2img'', BaseAiTextToImage),
     (''@cf/lykon/dreamshaper-8-lcm'', BaseAiTextToImage),
     (''@cf/bytedance/stable-diffusion-xl-lightning'', BaseAiTextToImage),
     (''@cf/myshell-ai/melotts'', BaseAiTextToSpeech),
     (''@cf/google/embeddinggemma-300m'', BaseAiTextEmbeddings),
     (''@cf/microsoft/resnet-50'', BaseAiImageClassification),
     (''@cf/meta/llama-2-7b-chat-int8'', BaseAiTextGeneration),
     (''@cf/mistral/mistral-7b-instruct-v0.1'', BaseAiTextGeneration),
     (''@cf/meta/llama-2-7b-chat-fp16'', BaseAiTextGeneration),
     (''@hf/thebloke/llama-2-13b-chat-awq'', BaseAiTextGeneration),
     (''@hf/thebloke/mistral-7b-instruct-v0.1-awq'', BaseAiTextGeneration),
     (''@hf/thebloke/zephyr-7b-beta-awq'', BaseAiTextGeneration),
     (''@hf/thebloke/openhermes-2.5-mistral-7b-awq'', BaseAiTextGeneration),
     (''@hf/thebloke/neural-chat-7b-v3-1-awq'', BaseAiTextGeneration),
     (''@hf/thebloke/deepseek-coder-6.7b-base-awq'', BaseAiTextGeneration),
     (''@hf/thebloke/deepseek-coder-6.7b-instruct-awq'', BaseAiTextGeneration),
     (''@cf/deepseek-ai/deepseek-math-7b-instruct'', BaseAiTextGeneration),
     (''@cf/defog/sqlcoder-7b-2'', BaseAiTextGeneration),
     (''@cf/openchat/openchat-3.5-0106'', BaseAiTextGeneration),
     (''@cf/tiiuae/falcon-7b-instruct'', BaseAiTextGeneration),
     (''@cf/thebloke/discolm-german-7b-v1-awq'', BaseAiTextGeneration),
     (''@cf/qwen/qwen1.5-0.5b-chat'', BaseAiTextGeneration),
     (''@cf/qwen/qwen1.5-7b-chat-awq'', BaseAiTextGeneration),
     (''@cf/qwen/qwen1.5-14b-chat-awq'', BaseAiTextGeneration),
     (''@cf/tinyllama/tinyllama-1.1b-chat-v1.0'', BaseAiTextGeneration),
     (''@cf/microsoft/phi-2'', BaseAiTextGeneration),
     (''@cf/qwen/qwen1.5-1.8b-chat'', BaseAiTextGeneration),
     (''@cf/mistral/mistral-7b-instruct-v0.2-lora'', BaseAiTextGeneration),
     (''@hf/nousresearch/hermes-2-pro-mistral-7b'', BaseAiTextGeneration),
     (''@hf/nexusflow/starling-lm-7b-beta'', BaseAiTextGeneration),
     (''@hf/google/gemma-7b-it'', BaseAiTextGeneration),
     (''@cf/meta-llama/llama-2-7b-chat-hf-lora'', BaseAiTextGeneration),
     (''@cf/google/gemma-2b-it-lora'', BaseAiTextGeneration),
     (''@cf/google/gemma-7b-it-lora'', BaseAiTextGeneration),
     (''@hf/mistral/mistral-7b-instruct-v0.2'', BaseAiTextGeneration),
     (''@cf/meta/llama-3-8b-instruct'', BaseAiTextGeneration),
     (''@cf/fblgit/una-cybertron-7b-v2-bf16'', BaseAiTextGeneration),
     (''@cf/meta/llama-3-8b-instruct-awq'', BaseAiTextGeneration),
     (''@cf/meta/llama-3.1-8b-instruct-fp8'', BaseAiTextGeneration),
     (''@cf/meta/llama-3.1-8b-instruct-awq'', BaseAiTextGeneration),
     (''@cf/meta/llama-3.2-3b-instruct'', BaseAiTextGeneration),
     (''@cf/meta/llama-3.2-1b-instruct'', BaseAiTextGeneration),
     (''@cf/deepseek-ai/deepseek-r1-distill-qwen-32b'', BaseAiTextGeneration),
     (''@cf/ibm-granite/granite-4.0-h-micro'', BaseAiTextGeneration),
     (''@cf/facebook/bart-large-cnn'', BaseAiSummarization),
     (''@cf/llava-hf/llava-1.5-7b-hf'', BaseAiImageToText),
     (''@cf/baai/bge-base-en-v1.5'', Base_Ai_Cf_Baai_Bge_Base_En_V1_5),
     (''@cf/openai/whisper'', Base_Ai_Cf_Openai_Whisper),
     (''@cf/meta/m2m100-1.2b'', Base_Ai_Cf_Meta_M2M100_1_2B),
     (''@cf/baai/bge-small-en-v1.5'', Base_Ai_Cf_Baai_Bge_Small_En_V1_5),
     (''@cf/baai/bge-large-en-v1.5'', Base_Ai_Cf_Baai_Bge_Large_En_V1_5),
     (''@cf/unum/uform-gen2-qwen-500m'', Base_Ai_Cf_Unum_Uform_Gen2_Qwen_500M),
     (''@cf/openai/whisper-tiny-en'', Base_Ai_Cf_Openai_Whisper_Tiny_En),
     (''@cf/openai/whisper-large-v3-turbo'', Base_Ai_Cf_Openai_Whisper_Large_V3_Turbo),
     (''@cf/baai/bge-m3'', Base_Ai_Cf_Baai_Bge_M3),
     (''@cf/black-forest-labs/flux-1-schnell'', Base_Ai_Cf_Black_Forest_Labs_Flux_1_Schnell),
     (''@cf/meta/llama-3.2-11b-vision-instruct'', Base_Ai_Cf_Meta_Llama_3_2_11B_Vision_Instruct),
     (''@cf/meta/llama-3.3-70b-instruct-fp8-fast'', Base_Ai_Cf_Meta_Llama_3_3_70B_Instruct_Fp8_Fast),
     (''@cf/meta/llama-guard-3-8b'', Base_Ai_Cf_Meta_Llama_Guard_3_8B),
     (''@cf/baai/bge-reranker-base'', Base_Ai_Cf_Baai_Bge_Reranker_Base),
     (''@cf/qwen/qwen2.5-coder-32b-instruct'', Base_Ai_Cf_Qwen_Qwen2_5_Coder_32B_Instruct),
     (''@cf/qwen/qwq-32b'', Base_Ai_Cf_Qwen_Qwq_32B),
     (''@cf/mistralai/mistral-small-3.1-24b-instruct'', Base_Ai_Cf_Mistralai_Mistral_Small_3_1_24B_Instruct),
     (''@cf/google/gemma-3-12b-it'', Base_Ai_Cf_Google_Gemma_3_12B_It),
     (''@cf/meta/llama-4-scout-17b-16e-instruct'', Base_Ai_Cf_Meta_Llama_4_Scout_17B_16E_Instruct),
     (''@cf/qwen/qwen3-30b-a3b-fp8'', Base_Ai_Cf_Qwen_Qwen3_30B_A3B_Fp8),
     (''@cf/deepgram/nova-3'', Base_Ai_Cf_Deepgram_Nova_3),
     (''@cf/qwen/qwen3-embedding-0.6b'', Base_Ai_Cf_Qwen_Qwen3_Embedding_0_6B),
     (''@cf/pipecat-ai/smart-turn-v2'', Base_Ai_Cf_Pipecat_Ai_Smart_Turn_V2),
     (''@cf/openai/gpt-oss-120b'', Base_Ai_Cf_Openai_Gpt_Oss_120B),
     (''@cf/openai/gpt-oss-20b'', Base_Ai_Cf_Openai_Gpt_Oss_20B),
     (''@cf/leonardo/phoenix-1.0'', Base_Ai_Cf_Leonardo_Phoenix_1_0),
     (''@cf/leonardo/lucid-origin'', Base_Ai_Cf_Leonardo_Lucid_Origin),
     (''@cf/deepgram/aura-1'', Base_Ai_Cf_Deepgram_Aura_1),
     (''@cf/ai4bharat/indictrans2-en-indic-1B'', Base_Ai_Cf_Ai4Bharat_Indictrans2_En_Indic_1B),
     (''@cf/aisingapore/gemma-sea-lion-v4-27b-it'', Base_Ai_Cf_Aisingapore_Gemma_Sea_Lion_V4_27B_It),
     (''@cf/pfnet/plamo-embedding-1b'', Base_Ai_Cf_Pfnet_Plamo_Embedding_1B),
     (''@cf/deepgram/flux'', Base_Ai_Cf_Deepgram_Flux),
     (''@cf/deepgram/aura-2-en'', Base_Ai_Cf_Deepgram_Aura_2_En),
     (''@cf/deepgram/aura-2-es'', Base_Ai_Cf_Deepgram_Aura_2_Es),
     (''@cf/black-forest-labs/flux-2-dev'', Base_Ai_Cf_Black_Forest_Labs_Flux_2_Dev),
     (''@cf/black-forest-labs/flux-2-klein-4b'', Base_Ai_Cf_Black_Forest_Labs_Flux_2_Klein_4B),
     (''@cf/black-forest-labs/flux-2-klein-9b'', Base_Ai_Cf_Black_Forest_Labs_Flux_2_Klein_9B),
     (''@cf/zai-org/glm-4.7-flash'', Base_Ai_Cf_Zai_Org_Glm_4_7_Flash),
     (''@cf/moonshotai/kimi-k2.5'', Base_Ai_Cf_Moonshotai_Kimi_K2_5),
     (''@cf/nvidia/nemotron-3-120b-a12b'', Base_Ai_Cf_Nvidia_Nemotron_3_120B_A12B)]"

end
