(* ===== verification/Platform_Typing.thy ===== *)
theory Platform_Typing
  imports R2_Types Ai_Models
begin

text \<open>
  What the data types of \<^verbatim>\<open>worker-configuration.d.ts\<close> mean for a program that uses the AI
  binding: which arm of a tagged union a value belongs to, which requests of one model are requests
  of another, which members a request to every model must have, and which of them exclude each
  other.
\<close>

section \<open>Tagged unions\<close>

text \<open>
  The literal an object type requires of its member \<^verbatim>\<open>k\<close>, when it requires one, and the test that
  the arms of a union require different literals.
\<close>

definition tag :: "string \<Rightarrow> ts_type \<Rightarrow> string option" where
  "tag k t =
    (case t of
       TObj ps \<Rightarrow>
         (case map_of ps k of
            Some (False, TStrLit s) \<Rightarrow> Some s
          | _ \<Rightarrow> None)
     | _ \<Rightarrow> None)"

fun tagged_by :: "string \<Rightarrow> ts_type \<Rightarrow> bool" where
  "tagged_by k (TUnion ts) \<longleftrightarrow> list_all (\<lambda>t. tag k t \<noteq> None) ts \<and> distinct (map (tag k) ts)"
| "tagged_by k _ \<longleftrightarrow> False"

fun arms :: "ts_type \<Rightarrow> ts_type list" where
  "arms (TUnion ts) = ts"
| "arms t = [t]"

lemma tag_value:
  assumes "tag k t = Some s" and "conforms t v"
  shows "\<exists>kvs. v = JObj kvs \<and> map_of kvs k = Some (JStr s)"
proof -
  from assms(1) obtain ps where ps: "t = TObj ps" "map_of ps k = Some (False, TStrLit s)"
    by (auto simp: tag_def split: ts_type.splits option.splits bool.splits)
  with assms(2) obtain kvs where v: "v = JObj kvs" by (cases v) auto
  from ps assms(2) v have "case map_of kvs k of None \<Rightarrow> False | Some w \<Rightarrow> conforms (TStrLit s) w"
    by (force simp: list_all_iff dest: map_of_SomeD [of ps] split: option.splits)
  with v show ?thesis by (auto split: option.splits js_value.splits)
qed

lemma tagged_has_tag: "tagged_by k u \<Longrightarrow> i < length (arms u) \<Longrightarrow> \<exists>s. tag k (arms u ! i) = Some s"
  by (cases u) (auto simp: list_all_length)

lemma tagged_distinct:
  "tagged_by k u \<Longrightarrow> i < length (arms u) \<Longrightarrow> j < length (arms u)
    \<Longrightarrow> tag k (arms u ! i) = tag k (arms u ! j) \<longleftrightarrow> i = j"
proof (cases u)
  case (TUnion ts)
  assume "tagged_by k u" and ij: "i < length (arms u)" "j < length (arms u)"
  with TUnion have "distinct (map (tag k) ts)" by simp
  from nth_eq_iff_index_eq [OF this, of i j] TUnion ij show ?thesis by simp
qed simp_all

lemma tagged_one_arm:
  assumes "tagged_by k u" and "i < length (arms u)" and "j < length (arms u)"
    and "conforms (arms u ! i) v" and "conforms (arms u ! j) v"
  shows "i = j"
proof -
  obtain a b where t: "tag k (arms u ! i) = Some a" "tag k (arms u ! j) = Some b"
    using tagged_has_tag [OF assms(1)] assms(2,3) by blast
  with tag_value [OF t(1) assms(4)] tag_value [OF t(2) assms(5)] have "a = b" by auto
  with t tagged_distinct [OF assms(1-3)] show ?thesis by simp
qed

definition tagged_unions :: "(string \<times> ts_type) list" where
  "tagged_unions =
    [(''type'', ResponseStreamEvent),
     (''role'', ChatCompletionMessageParam),
     (''type'', ChatCompletionContentPart),
     (''type'', ChatCompletionTool),
     (''type'', ChatCompletionMessageToolCall),
     (''type'', ResponseFormat)]"

lemma tagged_unions_ok: "list_all (\<lambda>(k, u). tagged_by k u) tagged_unions"
  by code_simp

lemma tagged_unions_unions: "list_all (\<lambda>(k, u). case u of TUnion ts \<Rightarrow> True | _ \<Rightarrow> False) tagged_unions"
  by code_simp

lemma union_arms:
  "(case u of TUnion ts \<Rightarrow> True | _ \<Rightarrow> False) \<Longrightarrow> conforms u v \<longleftrightarrow> (\<exists>i < length (arms u). conforms (arms u ! i) v)"
  by (cases u) (simp_all add: list_ex_length)

section \<open>Requests of one model for another\<close>

definition request_migrations :: "(ts_type \<times> ts_type) list" where
  "request_migrations =
    [(Ai_Cf_Qwen_Qwen2_5_Coder_32B_Instruct_Input, Ai_Cf_Meta_Llama_3_3_70B_Instruct_Fp8_Fast_Input),
     (Ai_Cf_Qwen_Qwen2_5_Coder_32B_Instruct_Input, Ai_Cf_Qwen_Qwen3_30B_A3B_Fp8_Input),
     (Ai_Cf_Qwen_Qwen2_5_Coder_32B_Instruct_Input, Ai_Cf_Aisingapore_Gemma_Sea_Lion_V4_27B_It_Input),
     (Ai_Cf_Qwen_Qwq_32B_Input, Ai_Cf_Mistralai_Mistral_Small_3_1_24B_Instruct_Input),
     (Ai_Cf_Mistralai_Mistral_Small_3_1_24B_Instruct_Input, Ai_Cf_Qwen_Qwq_32B_Input),
     (Ai_Cf_Qwen_Qwen3_30B_A3B_Fp8_Input, Ai_Cf_Aisingapore_Gemma_Sea_Lion_V4_27B_It_Input),
     (Ai_Cf_Aisingapore_Gemma_Sea_Lion_V4_27B_It_Input, Ai_Cf_Qwen_Qwen3_30B_A3B_Fp8_Input),
     (Ai_Cf_Baai_Bge_Base_En_V1_5_Input, Ai_Cf_Baai_Bge_Small_En_V1_5_Input),
     (Ai_Cf_Baai_Bge_Small_En_V1_5_Input, Ai_Cf_Baai_Bge_Large_En_V1_5_Input),
     (Ai_Cf_Baai_Bge_Large_En_V1_5_Input, Ai_Cf_Baai_Bge_Base_En_V1_5_Input),
     (Ai_Cf_Openai_Whisper_Input, Ai_Cf_Openai_Whisper_Tiny_En_Input),
     (Ai_Cf_Openai_Whisper_Tiny_En_Input, Ai_Cf_Openai_Whisper_Input)]"

text \<open>
  The same for what the models answer: a reader of the second type can read an answer of the first.
\<close>

definition answer_migrations :: "(ts_type \<times> ts_type) list" where
  "answer_migrations =
    [(Ai_Cf_Qwen_Qwen2_5_Coder_32B_Instruct_Output, Ai_Cf_Meta_Llama_3_3_70B_Instruct_Fp8_Fast_Output),
     (Ai_Cf_Qwen_Qwq_32B_Output, Ai_Cf_Qwen_Qwen2_5_Coder_32B_Instruct_Output),
     (Ai_Cf_Mistralai_Mistral_Small_3_1_24B_Instruct_Output, Ai_Cf_Google_Gemma_3_12B_It_Output),
     (Ai_Cf_Google_Gemma_3_12B_It_Output, Ai_Cf_Meta_Llama_3_2_11B_Vision_Instruct_Output),
     (Ai_Cf_Meta_Llama_4_Scout_17B_16E_Instruct_Output, Ai_Cf_Meta_Llama_Guard_3_8B_Output),
     (Ai_Cf_Qwen_Qwen3_30B_A3B_Fp8_Output, Ai_Cf_Aisingapore_Gemma_Sea_Lion_V4_27B_It_Output),
     (Ai_Cf_Baai_Bge_Base_En_V1_5_Output, Ai_Cf_Baai_Bge_M3_Output)]"

lemma request_migrations_ok: "list_all (\<lambda>(s, t). subtype s t) request_migrations"
  by code_simp

lemma answer_migrations_ok: "list_all (\<lambda>(s, t). subtype s t) answer_migrations"
  by code_simp

section \<open>What a request must say\<close>

text \<open>
  For every model class, the smallest sets of members that make a request: a request needs all the
  members of one of the entries.
\<close>

primrec asks :: "model_class \<Rightarrow> string list list" where
  "asks BaseAiImageClassification = [[''image'']]"
| "asks BaseAiImageToText = [[''image'']]"
| "asks BaseAiImageTextToText = [[''image'']]"
| "asks BaseAiMultimodalEmbeddings = [[''image'']]"
| "asks BaseAiObjectDetection = [[''image'']]"
| "asks BaseAiSentenceSimilarity = [[''source'', ''sentences'']]"
| "asks BaseAiAutomaticSpeechRecognition = [[''audio'']]"
| "asks BaseAiSummarization = [[''input_text'']]"
| "asks BaseAiTextClassification = [[''text'']]"
| "asks BaseAiTextEmbeddings = [[''text'']]"
| "asks BaseAiTextGeneration = [[]]"
| "asks BaseAiTextToSpeech = [[''prompt'']]"
| "asks BaseAiTextToImage = [[''prompt'']]"
| "asks BaseAiTranslation = [[''text'', ''target_lang'']]"
| "asks Base_Ai_Cf_Baai_Bge_Base_En_V1_5 = [[''text''], [''requests'']]"
| "asks Base_Ai_Cf_Openai_Whisper = [[''audio'']]"
| "asks Base_Ai_Cf_Meta_M2M100_1_2B = [[''text'', ''target_lang''], [''requests'']]"
| "asks Base_Ai_Cf_Baai_Bge_Small_En_V1_5 = [[''text''], [''requests'']]"
| "asks Base_Ai_Cf_Baai_Bge_Large_En_V1_5 = [[''text''], [''requests'']]"
| "asks Base_Ai_Cf_Unum_Uform_Gen2_Qwen_500M = [[''image'']]"
| "asks Base_Ai_Cf_Openai_Whisper_Tiny_En = [[''audio'']]"
| "asks Base_Ai_Cf_Openai_Whisper_Large_V3_Turbo = [[''audio'']]"
| "asks Base_Ai_Cf_Baai_Bge_M3 = [[''contexts''], [''text''], [''requests'']]"
| "asks Base_Ai_Cf_Black_Forest_Labs_Flux_1_Schnell = [[''prompt'']]"
| "asks Base_Ai_Cf_Meta_Llama_3_2_11B_Vision_Instruct = [[''prompt''], [''messages'']]"
| "asks Base_Ai_Cf_Meta_Llama_3_3_70B_Instruct_Fp8_Fast = [[]]"
| "asks Base_Ai_Cf_Meta_Llama_Guard_3_8B = [[''messages'']]"
| "asks Base_Ai_Cf_Baai_Bge_Reranker_Base = [[''contexts'']]"
| "asks Base_Ai_Cf_Qwen_Qwen2_5_Coder_32B_Instruct = [[''prompt''], [''messages'']]"
| "asks Base_Ai_Cf_Qwen_Qwq_32B = [[''prompt''], [''messages'']]"
| "asks Base_Ai_Cf_Mistralai_Mistral_Small_3_1_24B_Instruct = [[''prompt''], [''messages'']]"
| "asks Base_Ai_Cf_Google_Gemma_3_12B_It = [[''prompt''], [''messages'']]"
| "asks Base_Ai_Cf_Meta_Llama_4_Scout_17B_16E_Instruct = [[''prompt''], [''messages''], [''requests'']]"
| "asks Base_Ai_Cf_Qwen_Qwen3_30B_A3B_Fp8 = [[''prompt''], [''messages''], [''requests'']]"
| "asks Base_Ai_Cf_Deepgram_Nova_3 = [[''audio'']]"
| "asks Base_Ai_Cf_Qwen_Qwen3_Embedding_0_6B = [[]]"
| "asks Base_Ai_Cf_Pipecat_Ai_Smart_Turn_V2 = [[''audio'']]"
| "asks Base_Ai_Cf_Openai_Gpt_Oss_120B = [[]]"
| "asks Base_Ai_Cf_Openai_Gpt_Oss_20B = [[]]"
| "asks Base_Ai_Cf_Leonardo_Phoenix_1_0 = [[''prompt'']]"
| "asks Base_Ai_Cf_Leonardo_Lucid_Origin = [[''prompt'']]"
| "asks Base_Ai_Cf_Deepgram_Aura_1 = [[''text'']]"
| "asks Base_Ai_Cf_Ai4Bharat_Indictrans2_En_Indic_1B = [[''text'', ''target_language'']]"
| "asks Base_Ai_Cf_Aisingapore_Gemma_Sea_Lion_V4_27B_It = [[''prompt''], [''messages''], [''requests'']]"
| "asks Base_Ai_Cf_Pfnet_Plamo_Embedding_1B = [[''text'']]"
| "asks Base_Ai_Cf_Deepgram_Flux = [[''encoding'', ''sample_rate'']]"
| "asks Base_Ai_Cf_Deepgram_Aura_2_En = [[''text'']]"
| "asks Base_Ai_Cf_Deepgram_Aura_2_Es = [[''text'']]"
| "asks Base_Ai_Cf_Black_Forest_Labs_Flux_2_Dev = [[''multipart'']]"
| "asks Base_Ai_Cf_Black_Forest_Labs_Flux_2_Klein_4B = [[''multipart'']]"
| "asks Base_Ai_Cf_Black_Forest_Labs_Flux_2_Klein_9B = [[''multipart'']]"
| "asks Base_Ai_Cf_Zai_Org_Glm_4_7_Flash = [[''prompt''], [''messages''], [''requests'']]"
| "asks Base_Ai_Cf_Moonshotai_Kimi_K2_5 = [[''prompt''], [''messages''], [''requests'']]"
| "asks Base_Ai_Cf_Nvidia_Nemotron_3_120B_A12B = [[''prompt''], [''messages''], [''requests'']]"
| "asks Base_Ai_Cf_Google_Gemma_4_26B_A4B_IT = [[''prompt''], [''messages''], [''requests'']]"

text \<open>The definitions an input type unfolds to down to its own members.\<close>

lemmas input_defs =
  AiImageClassificationInput_def AiImageToTextInput_def AiImageTextToTextInput_def
  AiObjectDetectionInput_def AiSentenceSimilarityInput_def AiAutomaticSpeechRecognitionInput_def
  AiSummarizationInput_def AiTextClassificationInput_def AiTextEmbeddingsInput_def
  AiTextGenerationInput_def AiTextToSpeechInput_def AiTextToImageInput_def AiTranslationInput_def
  Ai_Cf_Baai_Bge_Base_En_V1_5_Input_def Ai_Cf_Openai_Whisper_Input_def
  Ai_Cf_Meta_M2M100_1_2B_Input_def Ai_Cf_Baai_Bge_Small_En_V1_5_Input_def
  Ai_Cf_Baai_Bge_Large_En_V1_5_Input_def Ai_Cf_Unum_Uform_Gen2_Qwen_500M_Input_def
  Ai_Cf_Openai_Whisper_Tiny_En_Input_def Ai_Cf_Openai_Whisper_Large_V3_Turbo_Input_def
  Ai_Cf_Baai_Bge_M3_Input_def Ai_Cf_Baai_Bge_M3_Input_QueryAnd_Contexts_def
  Ai_Cf_Baai_Bge_M3_Input_Embedding_def Ai_Cf_Black_Forest_Labs_Flux_1_Schnell_Input_def
  Ai_Cf_Meta_Llama_3_2_11B_Vision_Instruct_Input_def
  Ai_Cf_Meta_Llama_3_2_11B_Vision_Instruct_Prompt_def
  Ai_Cf_Meta_Llama_3_2_11B_Vision_Instruct_Messages_def
  Ai_Cf_Meta_Llama_3_3_70B_Instruct_Fp8_Fast_Input_def
  Ai_Cf_Meta_Llama_3_3_70B_Instruct_Fp8_Fast_Prompt_def
  Ai_Cf_Meta_Llama_3_3_70B_Instruct_Fp8_Fast_Messages_def
  Ai_Cf_Meta_Llama_3_3_70B_Instruct_Fp8_Fast_Async_Batch_def
  Ai_Cf_Meta_Llama_Guard_3_8B_Input_def Ai_Cf_Baai_Bge_Reranker_Base_Input_def
  Ai_Cf_Qwen_Qwen2_5_Coder_32B_Instruct_Input_def
  Ai_Cf_Qwen_Qwen2_5_Coder_32B_Instruct_Prompt_def
  Ai_Cf_Qwen_Qwen2_5_Coder_32B_Instruct_Messages_def Ai_Cf_Qwen_Qwq_32B_Input_def
  Ai_Cf_Qwen_Qwq_32B_Prompt_def Ai_Cf_Qwen_Qwq_32B_Messages_def
  Ai_Cf_Mistralai_Mistral_Small_3_1_24B_Instruct_Input_def
  Ai_Cf_Mistralai_Mistral_Small_3_1_24B_Instruct_Prompt_def
  Ai_Cf_Mistralai_Mistral_Small_3_1_24B_Instruct_Messages_def
  Ai_Cf_Google_Gemma_3_12B_It_Input_def Ai_Cf_Google_Gemma_3_12B_It_Prompt_def
  Ai_Cf_Google_Gemma_3_12B_It_Messages_def Ai_Cf_Meta_Llama_4_Scout_17B_16E_Instruct_Input_def
  Ai_Cf_Meta_Llama_4_Scout_17B_16E_Instruct_Prompt_def
  Ai_Cf_Meta_Llama_4_Scout_17B_16E_Instruct_Messages_def
  Ai_Cf_Meta_Llama_4_Scout_17B_16E_Instruct_Async_Batch_def
  Ai_Cf_Qwen_Qwen3_30B_A3B_Fp8_Input_def Ai_Cf_Qwen_Qwen3_30B_A3B_Fp8_Prompt_def
  Ai_Cf_Qwen_Qwen3_30B_A3B_Fp8_Messages_def Ai_Cf_Qwen_Qwen3_30B_A3B_Fp8_Async_Batch_def
  Ai_Cf_Deepgram_Nova_3_Input_def Ai_Cf_Qwen_Qwen3_Embedding_0_6B_Input_def
  Ai_Cf_Pipecat_Ai_Smart_Turn_V2_Input_def Ai_Cf_Leonardo_Phoenix_1_0_Input_def
  Ai_Cf_Leonardo_Lucid_Origin_Input_def Ai_Cf_Deepgram_Aura_1_Input_def
  Ai_Cf_Ai4Bharat_Indictrans2_En_Indic_1B_Input_def
  Ai_Cf_Aisingapore_Gemma_Sea_Lion_V4_27B_It_Input_def
  Ai_Cf_Aisingapore_Gemma_Sea_Lion_V4_27B_It_Prompt_def
  Ai_Cf_Aisingapore_Gemma_Sea_Lion_V4_27B_It_Messages_def
  Ai_Cf_Aisingapore_Gemma_Sea_Lion_V4_27B_It_Async_Batch_def
  Ai_Cf_Pfnet_Plamo_Embedding_1B_Input_def Ai_Cf_Deepgram_Flux_Input_def
  Ai_Cf_Deepgram_Aura_2_En_Input_def Ai_Cf_Deepgram_Aura_2_Es_Input_def
  Ai_Cf_Black_Forest_Labs_Flux_2_Dev_Input_def Ai_Cf_Black_Forest_Labs_Flux_2_Klein_4B_Input_def
  Ai_Cf_Black_Forest_Labs_Flux_2_Klein_9B_Input_def ChatCompletionsPromptInput_def
  ChatCompletionsCommonOptions_def ChatCompletionsMessagesInput_def

lemmas exact_simps = exact_members_def products_def input_defs

lemma chat_inputs_exact:
  "exact_members ChatCompletionsPromptInput [[''prompt'']]"
  "exact_members ChatCompletionsMessagesInput [[''messages'']]"
  "exact_members (TObj [req ''requests'' (TArr ChatCompletionsBase)]) [[''requests'']]"
  by (simp_all add: exact_simps)

lemmas chat_keys = ChatCompletionsPromptInput_def ChatCompletionsMessagesInput_def
  ChatCompletionsCommonOptions_def

lemma chat_base_exact: "exact_members ChatCompletionsBase [[''prompt''], [''messages'']]"
  using exact_members_XOR [OF chat_inputs_exact(1,2)]
  by (simp add: ChatCompletionsBase_def chat_keys)

lemma chat_completions_exact:
  "exact_members ChatCompletionsInput [[''prompt''], [''messages''], [''requests'']]"
  using exact_members_XOR [OF chat_base_exact chat_inputs_exact(3)]
  by (simp add: ChatCompletionsInput_def ChatCompletionsBase_def XOR_keys chat_keys)

lemma exact_members_empty: "[] \<in> set (samples t) \<Longrightarrow> conforms t (JObj []) \<Longrightarrow> exact_members t [[]]"
  by (auto simp: exact_members_def list_all_iff list_ex_iff)

lemma gpt_oss_exact: "exact_members (XOR ResponsesInput ChatCompletionsInput) [[]]"
proof -
  have "[] \<in> set (samples ResponsesInput)" "conforms ResponsesInput (JObj [])"
    by (simp_all add: ResponsesInput_def)
  then show ?thesis by (intro exact_members_empty) (simp_all add: XOR_samples XOR_conforms)
qed

lemma asks_exact: "exact_members (inputs c) (asks c)"
  by (cases c) (simp_all add: chat_completions_exact gpt_oss_exact, simp_all add: exact_simps)





section \<open>Forms of a chat completion request\<close>

text \<open>The member names that tell the three forms of a chat completion request apart.\<close>

definition chat_forms :: "string list" where
  "chat_forms = [''prompt'', ''messages'', ''requests'']"

lemma holds_required:
  "conforms (TObj [req k t]) (JObj kvs) \<Longrightarrow> \<not> conforms t JUndefined \<Longrightarrow> holds (JObj kvs) k"
  by (auto simp: holds_def split: option.split_asm)

lemma chat_prompt_form: "conforms ChatCompletionsPromptInput (JObj kvs) \<Longrightarrow> holds (JObj kvs) ''prompt''"
  by (rule holds_required [where t = TString]) (simp_all add: ChatCompletionsPromptInput_def)

lemma chat_messages_form:
  "conforms ChatCompletionsMessagesInput (JObj kvs) \<Longrightarrow> holds (JObj kvs) ''messages''"
  by (rule holds_required [where t = "TArr ChatCompletionMessageParam"])
    (simp_all add: ChatCompletionsMessagesInput_def)

lemma chat_base_keys: "''prompt'' \<in> set (type_keys ChatCompletionsPromptInput)"
  "''messages'' \<in> set (type_keys ChatCompletionsMessagesInput)"
  "''messages'' \<notin> set (type_keys ChatCompletionsPromptInput)"
  "''prompt'' \<notin> set (type_keys ChatCompletionsMessagesInput)"
  "''requests'' \<notin> set (type_keys ChatCompletionsBase)"
  "set (type_keys ChatCompletionsCommonOptions) \<subseteq> set (type_keys ChatCompletionsBase)"
  "''prompt'' \<in> set (type_keys ChatCompletionsBase)"
  "''messages'' \<in> set (type_keys ChatCompletionsBase)"
  by (simp_all add: ChatCompletionsBase_def XOR_keys chat_keys)

lemma chat_base_form:
  assumes "conforms ChatCompletionsBase (JObj kvs)"
  shows "holds (JObj kvs) ''prompt'' \<longleftrightarrow> \<not> holds (JObj kvs) ''messages''"
  using assms unfolding ChatCompletionsBase_def XOR_conforms
  by (auto simp: chat_base_keys chat_prompt_form chat_messages_form)

lemma chat_input_form:
  assumes "conforms ChatCompletionsInput v"
  shows "(holds v ''requests'' \<and> (\<forall>k \<in> set (type_keys ChatCompletionsBase). \<not> holds v k))
    \<or> (\<not> holds v ''requests'' \<and> (holds v ''prompt'' \<longleftrightarrow> \<not> holds v ''messages''))"
proof -
  let ?batch = "TObj [req ''requests'' (TArr ChatCompletionsBase)]"
  from XOR_cases [OF assms [unfolded ChatCompletionsInput_def]] obtain kvs where v: "v = JObj kvs"
    by blast
  have keys: "set (type_keys ?batch) = {''requests''}" by simp
  from assms consider "conforms ChatCompletionsBase (JObj kvs)" "\<not> holds (JObj kvs) ''requests''"
    | "conforms ?batch (JObj kvs)"
      "\<forall>k \<in> set (type_keys ChatCompletionsBase). k \<noteq> ''requests'' \<longrightarrow> \<not> holds (JObj kvs) k"
    unfolding ChatCompletionsInput_def v XOR_conforms keys using chat_base_keys(5) by blast
  then show ?thesis
  proof cases
    case 1
    with chat_base_form show ?thesis unfolding v by blast
  next
    case 2
    from holds_required [OF 2(1)] have "holds (JObj kvs) ''requests''" by simp
    with 2(2) chat_base_keys(5) show ?thesis unfolding v by metis
  qed
qed

section \<open>Properties\<close>

text \<open>
  C14.  Dispatch on the tag is right: a value of one of the tagged unions (the streaming events, the
  chat messages, the content parts, the tools and tool calls, the response formats) holds a string
  at the tag member, there is exactly one arm of the union it is a value of, and that arm is the
  only one that declares this string as its tag.
\<close>

theorem tagged_union_one_arm:
  assumes "(k, u) \<in> set tagged_unions" and "conforms u v"
  shows "\<exists>kvs s i. v = JObj kvs \<and> map_of kvs k = Some (JStr s) \<and> i < length (arms u)
    \<and> (\<forall>j < length (arms u).
         (conforms (arms u ! j) v \<longleftrightarrow> j = i) \<and> (tag k (arms u ! j) = Some s \<longleftrightarrow> j = i))"
proof -
  have t: "tagged_by k u" and c: "case u of TUnion ts \<Rightarrow> True | _ \<Rightarrow> False"
    using tagged_unions_ok tagged_unions_unions assms(1) by (auto simp: list_all_iff)
  from assms(2) obtain i where i: "i < length (arms u)" "conforms (arms u ! i) v"
    using union_arms [OF c] by auto
  from tagged_has_tag [OF t i(1)] obtain s where s: "tag k (arms u ! i) = Some s" by blast
  from tag_value [OF s i(2)] obtain kvs where v: "v = JObj kvs" "map_of kvs k = Some (JStr s)" by blast
  have "conforms (arms u ! j) v \<longleftrightarrow> j = i" if "j < length (arms u)" for j
    using tagged_one_arm [OF t that i(1) _ i(2)] i(2) by blast
  moreover have "tag k (arms u ! j) = Some s \<longleftrightarrow> j = i" if "j < length (arms u)" for j
    using tagged_distinct [OF t that i(1)] s by auto
  ultimately show ?thesis using v i(1) by blast
qed

definition ex_message :: js_value where
  "ex_message = JObj [(''role'', JStr ''user''), (''content'', JStr ''hi'')]"

theorem tagged_union_one_arm_witness:
  "\<exists>kvs s i. ex_message = JObj kvs \<and> map_of kvs ''role'' = Some (JStr s)
    \<and> i < length (arms ChatCompletionMessageParam)
    \<and> tag ''role'' (arms ChatCompletionMessageParam ! i) = Some s
    \<and> conforms (arms ChatCompletionMessageParam ! i) ex_message"
proof -
  have u: "(''role'', ChatCompletionMessageParam) \<in> set tagged_unions" by (simp add: tagged_unions_def)
  have "conforms ChatCompletionMessageParam ex_message" by code_simp
  from tagged_union_one_arm [OF u this] show ?thesis by blast
qed

text \<open>
  C13.  A request written for the first model of a pair is a request for the second, and an
  answer of the first can be read as an answer of the second, for the pairs of the two tables; the
  converse fails for the pair of Qwen 2.5 Coder and Llama 3.3, whose batch form asks for nothing.
\<close>

theorem model_migration:
  "((s, t) \<in> set (request_migrations @ answer_migrations) \<longrightarrow> conforms s v \<longrightarrow> conforms t v)
    \<and> conforms Ai_Cf_Meta_Llama_3_3_70B_Instruct_Fp8_Fast_Input (JObj [])
    \<and> \<not> conforms Ai_Cf_Qwen_Qwen2_5_Coder_32B_Instruct_Input (JObj [])"
proof (intro conjI impI)
  assume "(s, t) \<in> set (request_migrations @ answer_migrations)" and v: "conforms s v"
  then have "subtype s t"
    using request_migrations_ok answer_migrations_ok by (auto simp: list_all_iff)
  then show "conforms t v" using v by (rule subtype_sound)
next
  show "conforms Ai_Cf_Meta_Llama_3_3_70B_Instruct_Fp8_Fast_Input (JObj [])" by code_simp
  show "\<not> conforms Ai_Cf_Qwen_Qwen2_5_Coder_32B_Instruct_Input (JObj [])" by code_simp
qed

definition ex_prompt :: js_value where
  "ex_prompt = JObj [(''prompt'', JStr ''hi''), (''max_tokens'', JNum 0x4070000000000000)]"

theorem model_migration_witness:
  "conforms Ai_Cf_Qwen_Qwen3_30B_A3B_Fp8_Input ex_prompt"
proof -
  have "(Ai_Cf_Qwen_Qwen2_5_Coder_32B_Instruct_Input, Ai_Cf_Qwen_Qwen3_30B_A3B_Fp8_Input)
      \<in> set (request_migrations @ answer_migrations)"
    by (simp add: request_migrations_def)
  moreover have "conforms Ai_Cf_Qwen_Qwen2_5_Coder_32B_Instruct_Input ex_prompt" by code_simp
  ultimately show ?thesis using model_migration by blast
qed

text \<open>
  C16.  What a request must say, exactly and for every model class of the binding: a set of
  member names is enough to write an input of the class if and only if it contains one of the sets of
  \<^verbatim>\<open>asks\<close>.
\<close>

theorem model_request_members:
  "(\<exists>kvs. conforms (inputs c) (JObj kvs) \<and> fst ` set kvs \<subseteq> K) \<longleftrightarrow> (\<exists>ks \<in> set (asks c). set ks \<subseteq> K)"
  by (rule exact_members_iff [OF asks_exact])


text \<open>
  C18.  A chat completion request has exactly one form: it holds a value at exactly one of
  \<^verbatim>\<open>prompt\<close>, \<^verbatim>\<open>messages\<close> and \<^verbatim>\<open>requests\<close>, and a batch (the last form) holds none of the common
  options itself.
\<close>

theorem chat_request_one_form:
  assumes "conforms ChatCompletionsInput v"
  shows "(\<exists>!k. k \<in> set chat_forms \<and> holds v k)
    \<and> (holds v ''requests'' \<longrightarrow> (\<forall>k \<in> set (type_keys ChatCompletionsCommonOptions). \<not> holds v k))"
proof -
  from chat_input_form [OF assms] have
    "(holds v ''requests'' \<and> \<not> holds v ''prompt'' \<and> \<not> holds v ''messages'')
      \<or> (\<not> holds v ''requests'' \<and> (holds v ''prompt'' \<longleftrightarrow> \<not> holds v ''messages''))"
    and "holds v ''requests'' \<longrightarrow> (\<forall>k \<in> set (type_keys ChatCompletionsCommonOptions). \<not> holds v k)"
    using chat_base_keys(6-8) by blast+
  then show ?thesis unfolding chat_forms_def by auto
qed

theorem chat_request_one_form_witness:
  "(\<exists>!k. k \<in> set chat_forms \<and> holds (JObj [(''prompt'', JStr ''hi'')]) k)"
proof -
  have "conforms ChatCompletionsInput (JObj [(''prompt'', JStr ''hi'')])"
    by (simp add: ChatCompletionsInput_def ChatCompletionsBase_def XOR_conforms XOR_keys chat_keys)
  from chat_request_one_form [OF this] show ?thesis by (rule conjunct1)
qed

end
