(* ===== verification/Spec2Isabelle.thy ===== *)
theory Spec2Isabelle
  imports Prelude Regex Web_Platform Remote_Cache_Props R2_Types Ai_Models Platform_Typing
begin

text \<open>
  Verification library for the TypeScript part of nearby-payments-api.

  The program.  \<^verbatim>\<open>tools/remote-cache\<close> is a Cloudflare worker with one R2 bucket behind it.  It
  serves a Bazel remote cache (\<^verbatim>\<open>/cache/ac/\<close> and \<^verbatim>\<open>/cache/cas/\<close> followed by a digest) to clients with
  the bearer token, and a Maven repository (\<^verbatim>\<open>/maven/\<close>) to everyone, read-only.  The code is
  \<^verbatim>\<open>src/index.ts\<close>; \<^verbatim>\<open>worker-configuration.d.ts\<close> declares the types of the platform it runs on.

  The theories, in the order of their imports:

  \<^item> \<^verbatim>\<open>Prelude\<close>: strings, bytes, results that may be errors.
  \<^item> \<^verbatim>\<open>Regex\<close>: the backtracking matcher of the two path patterns, with the captures.
  \<^item> \<^verbatim>\<open>Web_Platform\<close>: Headers, Request, Response and the R2 types of
    \<^verbatim>\<open>worker-configuration.d.ts\<close> as the worker uses them, the record of R2 calls \<^verbatim>\<open>r2_bucket\<close>, the
    laws \<^verbatim>\<open>r2_laws\<close> these calls are assumed to obey, and the in-memory bucket \<^verbatim>\<open>mem_r2\<close> that obeys
    them.
  \<^item> \<^verbatim>\<open>Remote_Cache\<close>: \<^verbatim>\<open>src/index.ts\<close>, one definition per function under its own name (\<^verbatim>\<open>fetch\<close>,
    \<^verbatim>\<open>handleBazelCache\<close>, \<^verbatim>\<open>handleMavenRepository\<close>, \<^verbatim>\<open>authorized\<close>, the two header functions, the two
    patterns; \<^verbatim>\<open>text\<close> is \<^verbatim>\<open>text_response\<close>), and \<^verbatim>\<open>serve\<close>, a sequence of requests.
  \<^item> \<^verbatim>\<open>Remote_Cache_Props\<close>: the properties of the worker.
  \<^item> \<^verbatim>\<open>Typing\<close>: JavaScript values, the type expressions of the declarations, when a value has a type
    (\<^verbatim>\<open>conforms\<close>), a sound decision procedure for inclusion of types (\<^verbatim>\<open>subtype\<close>), and the members a
    type asks an object for (\<^verbatim>\<open>required\<close>, \<^verbatim>\<open>exact_members\<close>).
  \<^item> \<^verbatim>\<open>R2_Types\<close>, \<^verbatim>\<open>Ai_Chat_Types\<close>, \<^verbatim>\<open>Ai_Model_Types\<close>, \<^verbatim>\<open>Ai_Model_Types_2\<close>, \<^verbatim>\<open>Ai_Models\<close>: the data
    declarations of \<^verbatim>\<open>worker-configuration.d.ts\<close> for R2 and for the AI binding, each under its own
    name, the type functions \<^verbatim>\<open>Without\<close> and \<^verbatim>\<open>XOR\<close>, the model classes and the table \<^verbatim>\<open>AiModels\<close>.
  \<^item> \<^verbatim>\<open>Platform_Typing\<close>: the properties of these declarations.
\<close>

text \<open>
  State and effects.  The state of the worker is the state of the bucket, an opaque type; a
  handler takes it and returns an answer or the exception it ends with, and the next state.  An
  R2 call may reject at any time.  The runtime's URL parser is the argument \<^verbatim>\<open>pathname\<close>, of which
  nothing is assumed.

  What is assumed.  \<^verbatim>\<open>r2_laws R contents\<close> says what the provider documents: a read answers from the
  stored objects and changes none, a put that succeeds replaces exactly one object, one that fails
  at most that one, the entity tag of a stored object is a legal header value, and
  \<^verbatim>\<open>writeHttpMetadata\<close> touches only the metadata headers.  \<^verbatim>\<open>mem_r2_laws\<close> shows that the laws can
  be met; the witnesses of the properties run on that bucket.

  What the lemmas show.  For the worker: which requests change which object and how (confinement,
  for one request and for every run), what a client without the token can read and change, that the
  answer is the one of a specification over the map of stored objects, its status, headers and body
  on every branch, which exceptions it can end with, that a stored object is read back, and that HEAD agrees
  with GET.  For the declarations: which requests of one model are requests of another, which arm
  of a tagged union a value belongs to, which members a request to each model needs, and that the
  three forms of a chat completion request exclude each other.

  Termination and bounds.  Every definition is total: the matcher recurses on the pattern, a
  repetition tries finitely many counts, and inclusion of types recurses on the sum of the sizes.
  There is no fuel.

  What is not modelled.  A request body is one list of bytes and is stored in one step, so streams
  that break off are visible only as a rejected put.  Runs are sequences of requests: the worker has
  at most one R2 call per request, so an interleaving of requests is a sequence of these calls, but
  the rule of \<^verbatim>\<open>r2-lifecycle.json\<close>, by which the provider deletes objects after seven days, is not a
  step.  The rest of \<^verbatim>\<open>worker-configuration.d.ts\<close> declares services the program does not use.  The
  API server (\<^verbatim>\<open>apps/api\<close>, in Go), the mobile applications, the build rules and the scripts are in
  other languages and are not part of this library.
\<close>

end
